theory Spec2Isabelle
  imports Complex_Main "HOL-Library.Sublist" "HOL-Library.Multiset"
    "HOL-Library.Char_ord" "HOL-Library.List_Lexorder"
begin

section \<open>Numbers\<close>

text \<open>
  A JavaScript \<open>number\<close> is an IEEE-754 binary64 value. The finite ones are modelled by
  their exact rational value; \<open>fl\<close> rounds a rational to the nearest binary64 value
  (53-bit significand, ties to even), which is what the operators \<open>*\<close> and \<open>/\<close> do
  to the exact product and quotient. Overflow, subnormal values, \<open>NaN\<close> and the
  infinities are outside the model. Amounts in minor units are integers (\<^typ>\<open>int\<close>).
\<close>

text \<open>
  For \<open>x \<ge> 1\<close>, \<open>halvings x\<close> is the number of times \<open>x\<close> is halved until it is
  below 2; for \<open>0 < x < 1\<close>, \<open>doublings x\<close> is the number of times \<open>x\<close> is doubled
  until it is at least 1.
\<close>

function halvings :: "rat \<Rightarrow> nat" where
  "halvings x = (if x < 2 then 0 else Suc (halvings (x / 2)))"
  by pat_completeness auto
termination
proof (relation "measure (\<lambda>x. nat \<lfloor>x\<rfloor>)")
  fix x :: rat
  assume "\<not> x < 2"
  then have "x / 2 \<le> x - 1" by simp
  then have "\<lfloor>x / 2\<rfloor> \<le> \<lfloor>x - 1\<rfloor>" by (rule floor_mono)
  moreover have "0 < \<lfloor>x\<rfloor>" using \<open>\<not> x < 2\<close> by simp
  ultimately show "(x / 2, x) \<in> measure (\<lambda>x. nat \<lfloor>x\<rfloor>)" by simp
qed simp

function doublings :: "rat \<Rightarrow> nat" where
  "doublings x = (if x \<le> 0 \<or> 1 \<le> x then 0 else Suc (doublings (2 * x)))"
  by pat_completeness auto
termination
proof (relation "measure (\<lambda>x. nat \<lceil>1 / x\<rceil>)")
  fix x :: rat
  assume a: "\<not> (x \<le> 0 \<or> 1 \<le> x)"
  then have x: "0 < x" "x < 1" by simp_all
  then have "1 < 1 / x" by simp
  then have c: "2 \<le> \<lceil>1 / x\<rceil>" by linarith
  have "1 / (2 * x) = (1 / x) / 2" by simp
  also have "\<dots> \<le> of_int \<lceil>1 / x\<rceil> / 2" by (simp add: divide_right_mono)
  also have "\<dots> \<le> of_int (\<lceil>1 / x\<rceil> - 1)" using c by simp
  finally have "1 / (2 * x) \<le> of_int (\<lceil>1 / x\<rceil> - 1)" .
  then have "\<lceil>1 / (2 * x)\<rceil> \<le> \<lceil>1 / x\<rceil> - 1" by (rule ceiling_le)
  with c x show "(2 * x, x) \<in> measure (\<lambda>x. nat \<lceil>1 / x\<rceil>)" by simp
qed simp

declare halvings.simps [simp del] doublings.simps [simp del]

text \<open>The binary exponent of a non-zero value: \<open>2 powi ilog2 x \<le> \<bar>x\<bar> < 2 powi (ilog2 x + 1)\<close>.\<close>

definition ilog2 :: "rat \<Rightarrow> int" where
  "ilog2 x = (if 1 \<le> \<bar>x\<bar> then int (halvings \<bar>x\<bar>) else - int (doublings \<bar>x\<bar>))"

definition round_ties_even :: "rat \<Rightarrow> int" where
  "round_ties_even x =
     (let f = \<lfloor>x\<rfloor>; r = x - of_int f in
      if r < 1 / 2 then f
      else if 1 / 2 < r then f + 1
      else if even f then f else f + 1)"

definition fl :: "rat \<Rightarrow> rat" where
  "fl x =
     (if x = 0 then 0
      else let u = 2 powi (ilog2 x - 52) in of_int (round_ties_even (x / u)) * u)"

text \<open>
  The operators \<open>+\<close> and \<open>-\<close> on two integers: the exact result rounded to binary64,
  which is an integer again (\<open>fl_of_int_integral\<close>) and is the exact result as long as
  that is below \<open>2 ^ 53\<close> (\<open>add64_exact\<close>).
\<close>

definition add64 :: "int \<Rightarrow> int \<Rightarrow> int" where
  "add64 a b = \<lfloor>fl (of_int a + of_int b)\<rfloor>"

definition sub64 :: "int \<Rightarrow> int \<Rightarrow> int" where
  "sub64 a b = \<lfloor>fl (of_int a - of_int b)\<rfloor>"

text \<open>
  The operator \<open>/\<close>: by a non-zero divisor the quotient rounded to binary64; by zero
  the result is an infinity or \<open>NaN\<close>, for which \<open>None\<close> stands.
\<close>

definition divide64 :: "rat \<Rightarrow> rat \<Rightarrow> rat option" where
  "divide64 a b = (if b = 0 then None else Some (fl (a / b)))"

text \<open>\<open>Math.round\<close>: the nearest integer, ties towards \<open>+\<infinity>\<close>.\<close>

definition Math_round :: "rat \<Rightarrow> int" where
  "Math_round x = \<lfloor>x + 1 / 2\<rfloor>"

text \<open>\<open>ActualBudgetClient.toAmount\<close> and \<open>fromAmount\<close>.\<close>

definition toAmount :: "rat \<Rightarrow> int" where
  "toAmount v = Math_round (fl (v * 100))"

definition fromAmount :: "int \<Rightarrow> rat" where
  "fromAmount v = fl (of_int v / 100)"

section \<open>Strings\<close>

text \<open>
  JavaScript strings are modelled as \<^typ>\<open>string\<close>. \<open>String.prototype.toLowerCase\<close>
  is modelled on the ASCII letters; every other character is left as it is.
  \<open>String.prototype.includes\<close> is the contiguous-substring test.
\<close>

definition lower_char :: "char \<Rightarrow> char" where
  "lower_char c =
     (case map_of (zip ''ABCDEFGHIJKLMNOPQRSTUVWXYZ'' ''abcdefghijklmnopqrstuvwxyz'') c of
        Some l \<Rightarrow> l
      | None \<Rightarrow> c)"

definition toLowerCase :: "string \<Rightarrow> string" where
  "toLowerCase s = map lower_char s"

definition includes_str :: "string \<Rightarrow> string \<Rightarrow> bool" where
  "includes_str s search = sublist search s"

text \<open>Truthiness of an optional string: \<open>undefined\<close> and the empty string are falsy.\<close>

fun truthy :: "string option \<Rightarrow> bool" where
  "truthy None = False"
| "truthy (Some s) = (s \<noteq> [])"

text \<open>\<open>a || b\<close> on an optional string with a string default.\<close>

fun or_else :: "string option \<Rightarrow> string \<Rightarrow> string" where
  "or_else None d = d"
| "or_else (Some s) d = (if s = [] then d else s)"

text \<open>The date format of the tools, \<open>YYYY-MM-DD\<close>.\<close>

definition is_digit :: "char \<Rightarrow> bool" where
  "is_digit c = (c \<in> set ''0123456789'')"

definition iso_date :: "string \<Rightarrow> bool" where
  "iso_date s =
     (length s = 10
      \<and> list_all (\<lambda>(i, c). if i = 4 \<or> i = 7 then c = CHR ''-'' else is_digit c)
          (enumerate 0 s))"

section \<open>Data model (actual-client.ts)\<close>

record Account =
  a_id :: string
  a_name :: string
  a_offbudget :: "bool option"
  a_closed :: "bool option"

record Category =
  c_id :: string
  c_name :: string
  c_group_id :: "string option"
  c_is_income :: "bool option"

record Payee =
  p_id :: string
  p_name :: string
  p_category :: "string option"
  p_transfer_acct :: "string option"

record Transaction =
  t_id :: "string option"
  t_account :: string
  t_date :: string
  t_amount :: int
  t_payee :: "string option"
  t_payee_name :: "string option"
  t_category :: "string option"
  t_notes :: "string option"
  t_imported_id :: "string option"
  t_cleared :: "bool option"

text \<open>\<open>Partial<Transaction>\<close>: the update payload; an absent property is \<open>None\<close>.\<close>

record TransactionFields =
  f_id :: "string option"
  f_account :: "string option"
  f_date :: "string option"
  f_amount :: "int option"
  f_payee :: "string option"
  f_payee_name :: "string option"
  f_category :: "string option"
  f_notes :: "string option"
  f_imported_id :: "string option"
  f_cleared :: "bool option"

record ImportResult =
  added :: "string list"
  updated :: "string list"

record CategoryGroup =
  g_id :: string
  g_name :: string
  g_is_income :: "bool option"
  g_categories :: "Category list option"

record CategoryBudget =
  cb_id :: string
  cb_name :: string
  cb_budgeted :: int
  cb_spent :: int
  cb_balance :: int
  cb_carryover :: bool

record CategoryGroupBudget =
  gb_id :: string
  gb_name :: string
  gb_budgeted :: int
  gb_spent :: int
  gb_balance :: int
  gb_categories :: "CategoryBudget list"

record BudgetMonth =
  bm_month :: string
  bm_incomeAvailable :: int
  bm_lastMonthOverspent :: int
  bm_forNextMonth :: int
  bm_totalBudgeted :: int
  bm_toBudget :: int
  bm_categoryGroups :: "CategoryGroupBudget list"

text \<open>
  What \<open>api.getBudgetMonth\<close> returns is untyped (\<open>any\<close>); every property may be
  missing, and \<open>getBudgetMonth\<close> fills in defaults.
\<close>

record RawCategoryBudget =
  rc_id :: "string option"
  rc_name :: "string option"
  rc_budgeted :: "int option"
  rc_spent :: "int option"
  rc_balance :: "int option"
  rc_carryover :: "bool option"

record RawCategoryGroupBudget =
  rg_id :: "string option"
  rg_name :: "string option"
  rg_budgeted :: "int option"
  rg_spent :: "int option"
  rg_balance :: "int option"
  rg_categories :: "RawCategoryBudget list option"

record RawBudgetMonth =
  rb_month :: "string option"
  rb_incomeAvailable :: "int option"
  rb_lastMonthOverspent :: "int option"
  rb_forNextMonth :: "int option"
  rb_totalBudgeted :: "int option"
  rb_toBudget :: "int option"
  rb_categoryGroups :: "RawCategoryGroupBudget list option"

datatype Frequency = daily | weekly | monthly | yearly

datatype EndMode = never | after_n_occurrences | on_date

datatype AmountOp = op_is | op_isapprox | op_isbetween

datatype PatternType = day | dayOfWeek | dayOfMonth

datatype WeekendSolveMode = solve_before | solve_after

datatype ScheduleAmount = Amount int | AmountRange (num1: int) (num2: int)

record SchedulePattern =
  sp_type :: PatternType
  sp_value :: rat

record ScheduleDate =
  sd_frequency :: "Frequency option"
  sd_interval :: "rat option"
  sd_start :: "string option"
  sd_endMode :: "EndMode option"
  sd_endOccurrences :: "rat option"
  sd_endDate :: "string option"
  sd_skipWeekend :: "bool option"
  sd_weekendSolveMode :: "WeekendSolveMode option"
  sd_patterns :: "SchedulePattern list option"

record Schedule =
  s_id :: string
  s_name :: "string option"
  s_rule :: "string option"
  s_next_date :: "string option"
  s_completed :: "bool option"
  s_posts_transaction :: "bool option"
  s_payee :: "string option"
  s_account :: "string option"
  s_amount :: "ScheduleAmount option"
  s_amountOp :: "AmountOp option"
  s_date :: "ScheduleDate option"

datatype ScheduleDateInput = DateString string | DateConfig ScheduleDate

text \<open>
  \<open>CreateScheduleInput\<close>; \<open>updateSchedule\<close> takes a \<open>Partial\<close> of it, so the date is
  optional here as well.
\<close>

record CreateScheduleInput =
  cs_name :: "string option"
  cs_posts_transaction :: "bool option"
  cs_payee :: "string option"
  cs_account :: "string option"
  cs_amount :: "ScheduleAmount option"
  cs_amountOp :: "AmountOp option"
  cs_date :: "ScheduleDateInput option"

record ActualConfig =
  serverURL :: string
  password :: string
  budgetId :: string
  encryptionPassword :: "string option"
  dataDir :: "string option"

section \<open>The ledger backend and the effects of a call\<close>

text \<open>
  The package \<open>@actual-app/api\<close> is an external collaborator. Every call made to it is
  recorded, with its arguments, in the order in which it is issued.
\<close>

datatype api_call =
    ApiInit string string string
  | ApiDownloadBudget string "string option"
  | ApiShutdown
  | ApiSync
  | ApiGetAccounts
  | ApiGetAccountBalance string
  | ApiGetTransactions string string string
  | ApiImportTransactions string "Transaction list"
  | ApiUpdateTransaction string TransactionFields
  | ApiDeleteTransaction string
  | ApiGetCategories
  | ApiGetCategoryGroups
  | ApiGetPayees
  | ApiCreatePayee string
  | ApiGetBudgetMonths
  | ApiGetBudgetMonth string
  | ApiSetBudgetAmount string string int
  | ApiGetSchedules
  | ApiCreateSchedule CreateScheduleInput
  | ApiUpdateSchedule string CreateScheduleInput
  | ApiDeleteSchedule string

text \<open>A rejected promise or a thrown \<open>Error\<close>, with its message.\<close>

datatype error = Error string

text \<open>
  The behaviour of the backend is a parameter: each function answers a call from the
  calls made before it (its first argument) and the arguments of the call, with a value
  or an error.
\<close>

record Api =
  api_init :: "api_call list \<Rightarrow> string \<Rightarrow> string \<Rightarrow> string \<Rightarrow> error + unit"
  api_downloadBudget :: "api_call list \<Rightarrow> string \<Rightarrow> string option \<Rightarrow> error + unit"
  api_shutdown :: "api_call list \<Rightarrow> error + unit"
  api_sync :: "api_call list \<Rightarrow> error + unit"
  api_getAccounts :: "api_call list \<Rightarrow> error + Account list"
  api_getAccountBalance :: "api_call list \<Rightarrow> string \<Rightarrow> error + int"
  api_getTransactions :: "api_call list \<Rightarrow> string \<Rightarrow> string \<Rightarrow> string \<Rightarrow> error + Transaction list"
  api_importTransactions :: "api_call list \<Rightarrow> string \<Rightarrow> Transaction list \<Rightarrow> error + ImportResult"
  api_updateTransaction :: "api_call list \<Rightarrow> string \<Rightarrow> TransactionFields \<Rightarrow> error + unit"
  api_deleteTransaction :: "api_call list \<Rightarrow> string \<Rightarrow> error + unit"
  api_getCategories :: "api_call list \<Rightarrow> error + Category list"
  api_getCategoryGroups :: "api_call list \<Rightarrow> error + CategoryGroup list"
  api_getPayees :: "api_call list \<Rightarrow> error + Payee list"
  api_createPayee :: "api_call list \<Rightarrow> string \<Rightarrow> error + string"
  api_getBudgetMonths :: "api_call list \<Rightarrow> error + string list"
  api_getBudgetMonth :: "api_call list \<Rightarrow> string \<Rightarrow> error + RawBudgetMonth"
  api_setBudgetAmount :: "api_call list \<Rightarrow> string \<Rightarrow> string \<Rightarrow> int \<Rightarrow> error + unit"
  api_getSchedules :: "api_call list \<Rightarrow> error + Schedule list"
  api_createSchedule :: "api_call list \<Rightarrow> CreateScheduleInput \<Rightarrow> error + string"
  api_updateSchedule :: "api_call list \<Rightarrow> string \<Rightarrow> CreateScheduleInput \<Rightarrow> error + unit"
  api_deleteSchedule :: "api_call list \<Rightarrow> string \<Rightarrow> error + unit"

text \<open>
  The mutable state: the client's \<open>initialized\<close> flag and the calls issued so far.
\<close>

record World =
  initialized :: bool
  calls :: "api_call list"

type_synonym 'a io = "World \<Rightarrow> (error + 'a) \<times> World"

definition ret :: "'a \<Rightarrow> 'a io" where
  "ret x = (\<lambda>w. (Inr x, w))"

definition throw :: "error \<Rightarrow> 'a io" where
  "throw e = (\<lambda>w. (Inl e, w))"

text \<open>\<open>await m\<close> followed by the rest of the function; an error ends the function.\<close>

definition await :: "'a io \<Rightarrow> ('a \<Rightarrow> 'b io) \<Rightarrow> 'b io" where
  "await m f = (\<lambda>w. case m w of (Inl e, w') \<Rightarrow> (Inl e, w') | (Inr x, w') \<Rightarrow> f x w')"

text \<open>Issuing a call: it is recorded, and the backend answers from the earlier calls.\<close>

definition invoke :: "api_call \<Rightarrow> (api_call list \<Rightarrow> error + 'a) \<Rightarrow> 'a io" where
  "invoke c answer = (\<lambda>w. (answer (calls w), w\<lparr>calls := calls w @ [c]\<rparr>))"

text \<open>A \<open>for\<close> loop of awaited calls that collects the results.\<close>

fun for_each :: "'a list \<Rightarrow> ('a \<Rightarrow> 'b io) \<Rightarrow> 'b list io" where
  "for_each [] f = ret []"
| "for_each (x # xs) f = await (f x) (\<lambda>y. await (for_each xs f) (\<lambda>ys. ret (y # ys)))"

text \<open>
  \<open>Promise.all\<close> over calls that are all started before any of them is awaited: every
  call is issued, in the order of the list, and the result is the first error, if there
  is one.
\<close>

fun promise_all :: "'a list \<Rightarrow> ('a \<Rightarrow> 'b io) \<Rightarrow> 'b list io" where
  "promise_all [] f = ret []"
| "promise_all (x # xs) f = (\<lambda>w.
     case f x w of (r, w1) \<Rightarrow>
       (case promise_all xs f w1 of (rs, w2) \<Rightarrow>
          (case r of
             Inl e \<Rightarrow> (Inl e, w2)
           | Inr y \<Rightarrow> (case rs of Inl e \<Rightarrow> (Inl e, w2) | Inr ys \<Rightarrow> (Inr (y # ys), w2)))))"

section \<open>The client (actual-client.ts)\<close>

record Client =
  config :: ActualConfig
  api :: Api

definition init :: "Client \<Rightarrow> unit io" where
  "init C = (\<lambda>w.
     if initialized w then (Inr (), w)
     else
       await (invoke (ApiInit (serverURL (config C)) (password (config C))
                        (or_else (dataDir (config C)) ''/tmp/actual-data''))
                (\<lambda>h. api_init (api C) h (serverURL (config C)) (password (config C))
                        (or_else (dataDir (config C)) ''/tmp/actual-data'')))
       (\<lambda>_. await
          (if truthy (encryptionPassword (config C))
           then invoke (ApiDownloadBudget (budgetId (config C)) (encryptionPassword (config C)))
                  (\<lambda>h. api_downloadBudget (api C) h (budgetId (config C))
                          (encryptionPassword (config C)))
           else invoke (ApiDownloadBudget (budgetId (config C)) None)
                  (\<lambda>h. api_downloadBudget (api C) h (budgetId (config C)) None))
       (\<lambda>_. (\<lambda>w'. (Inr (), w'\<lparr>initialized := True\<rparr>)))) w)"

definition shutdown :: "Client \<Rightarrow> unit io" where
  "shutdown C = (\<lambda>w.
     if initialized w
     then await (invoke ApiShutdown (api_shutdown (api C)))
            (\<lambda>_. (\<lambda>w'. (Inr (), w'\<lparr>initialized := False\<rparr>))) w
     else (Inr (), w))"

definition ensureInitialized :: "Client \<Rightarrow> unit io" where
  "ensureInitialized C = (\<lambda>w. if \<not> initialized w then init C w else (Inr (), w))"

definition sync :: "Client \<Rightarrow> unit io" where
  "sync C = await (ensureInitialized C) (\<lambda>_. invoke ApiSync (api_sync (api C)))"

definition getAccounts :: "Client \<Rightarrow> Account list io" where
  "getAccounts C = await (ensureInitialized C) (\<lambda>_. invoke ApiGetAccounts (api_getAccounts (api C)))"

definition getAccountBalance :: "Client \<Rightarrow> string \<Rightarrow> int io" where
  "getAccountBalance C accountId =
     await (ensureInitialized C)
       (\<lambda>_. invoke (ApiGetAccountBalance accountId) (\<lambda>h. api_getAccountBalance (api C) h accountId))"

definition getTransactions :: "Client \<Rightarrow> string \<Rightarrow> string \<Rightarrow> string \<Rightarrow> Transaction list io" where
  "getTransactions C accountId startDate endDate =
     await (ensureInitialized C)
       (\<lambda>_. invoke (ApiGetTransactions accountId startDate endDate)
               (\<lambda>h. api_getTransactions (api C) h accountId startDate endDate))"

text \<open>\<open>result.added[0] || 'unknown'\<close>\<close>

fun first_or_unknown :: "string list \<Rightarrow> string" where
  "first_or_unknown [] = ''unknown''"
| "first_or_unknown (x # xs) = (if x = [] then ''unknown'' else x)"

definition addTransaction :: "Client \<Rightarrow> Transaction \<Rightarrow> string io" where
  "addTransaction C transaction =
     await (ensureInitialized C) (\<lambda>_.
     await (invoke (ApiImportTransactions (t_account transaction)
                      [transaction\<lparr>t_id := None, t_imported_id := None\<rparr>])
              (\<lambda>h. api_importTransactions (api C) h (t_account transaction)
                      [transaction\<lparr>t_id := None, t_imported_id := None\<rparr>])) (\<lambda>result.
     await (invoke ApiSync (api_sync (api C))) (\<lambda>_.
     ret (first_or_unknown (added result)))))"

definition importTransactions :: "Client \<Rightarrow> string \<Rightarrow> Transaction list \<Rightarrow> ImportResult io" where
  "importTransactions C accountId transactions =
     await (ensureInitialized C) (\<lambda>_.
     await (invoke (ApiImportTransactions accountId
                      (map (\<lambda>t. t\<lparr>t_account := accountId\<rparr>) transactions))
              (\<lambda>h. api_importTransactions (api C) h accountId
                      (map (\<lambda>t. t\<lparr>t_account := accountId\<rparr>) transactions))) (\<lambda>result.
     await (invoke ApiSync (api_sync (api C))) (\<lambda>_.
     ret \<lparr>added = added result, updated = updated result\<rparr>)))"

definition updateTransaction :: "Client \<Rightarrow> string \<Rightarrow> TransactionFields \<Rightarrow> unit io" where
  "updateTransaction C ident fields0 =
     await (ensureInitialized C) (\<lambda>_.
     await (invoke (ApiUpdateTransaction ident fields0)
              (\<lambda>h. api_updateTransaction (api C) h ident fields0)) (\<lambda>_.
     invoke ApiSync (api_sync (api C))))"

definition deleteTransaction :: "Client \<Rightarrow> string \<Rightarrow> unit io" where
  "deleteTransaction C ident =
     await (ensureInitialized C) (\<lambda>_.
     await (invoke (ApiDeleteTransaction ident)
              (\<lambda>h. api_deleteTransaction (api C) h ident)) (\<lambda>_.
     invoke ApiSync (api_sync (api C))))"

definition getCategories :: "Client \<Rightarrow> Category list io" where
  "getCategories C =
     await (ensureInitialized C) (\<lambda>_. invoke ApiGetCategories (api_getCategories (api C)))"

definition getCategoryGroups :: "Client \<Rightarrow> CategoryGroup list io" where
  "getCategoryGroups C =
     await (ensureInitialized C) (\<lambda>_. invoke ApiGetCategoryGroups (api_getCategoryGroups (api C)))"

definition getPayees :: "Client \<Rightarrow> Payee list io" where
  "getPayees C = await (ensureInitialized C) (\<lambda>_. invoke ApiGetPayees (api_getPayees (api C)))"

definition createPayee :: "Client \<Rightarrow> string \<Rightarrow> string io" where
  "createPayee C name =
     await (ensureInitialized C) (\<lambda>_.
     await (invoke (ApiCreatePayee name) (\<lambda>h. api_createPayee (api C) h name)) (\<lambda>ident.
     await (invoke ApiSync (api_sync (api C))) (\<lambda>_.
     ret ident)))"

text \<open>\<open>x || 0\<close> and \<open>x || false\<close> on an optional value.\<close>

fun or_zero :: "int option \<Rightarrow> int" where
  "or_zero None = 0"
| "or_zero (Some n) = n"

fun or_false :: "bool option \<Rightarrow> bool" where
  "or_false None = False"
| "or_false (Some b) = b"

fun or_nil :: "'a list option \<Rightarrow> 'a list" where
  "or_nil None = []"
| "or_nil (Some xs) = xs"

definition transform_category :: "RawCategoryBudget \<Rightarrow> CategoryBudget" where
  "transform_category c =
     \<lparr>cb_id = or_else (rc_id c) [], cb_name = or_else (rc_name c) [],
      cb_budgeted = or_zero (rc_budgeted c), cb_spent = or_zero (rc_spent c),
      cb_balance = or_zero (rc_balance c), cb_carryover = or_false (rc_carryover c)\<rparr>"

definition transform_group :: "RawCategoryGroupBudget \<Rightarrow> CategoryGroupBudget" where
  "transform_group g =
     \<lparr>gb_id = or_else (rg_id g) [], gb_name = or_else (rg_name g) [],
      gb_budgeted = or_zero (rg_budgeted g), gb_spent = or_zero (rg_spent g),
      gb_balance = or_zero (rg_balance g),
      gb_categories = map transform_category (or_nil (rg_categories g))\<rparr>"

definition getBudgetMonths :: "Client \<Rightarrow> string list io" where
  "getBudgetMonths C =
     await (ensureInitialized C) (\<lambda>_. invoke ApiGetBudgetMonths (api_getBudgetMonths (api C)))"

definition getBudgetMonth :: "Client \<Rightarrow> string \<Rightarrow> BudgetMonth io" where
  "getBudgetMonth C month =
     await (ensureInitialized C) (\<lambda>_.
     await (invoke (ApiGetBudgetMonth month) (\<lambda>h. api_getBudgetMonth (api C) h month)) (\<lambda>budget.
     ret \<lparr>bm_month = or_else (rb_month budget) month,
          bm_incomeAvailable = or_zero (rb_incomeAvailable budget),
          bm_lastMonthOverspent = or_zero (rb_lastMonthOverspent budget),
          bm_forNextMonth = or_zero (rb_forNextMonth budget),
          bm_totalBudgeted = or_zero (rb_totalBudgeted budget),
          bm_toBudget = or_zero (rb_toBudget budget),
          bm_categoryGroups = map transform_group (or_nil (rb_categoryGroups budget))\<rparr>))"

definition setBudgetAmount :: "Client \<Rightarrow> string \<Rightarrow> string \<Rightarrow> int \<Rightarrow> unit io" where
  "setBudgetAmount C month categoryId amount =
     await (ensureInitialized C) (\<lambda>_.
     await (invoke (ApiSetBudgetAmount month categoryId amount)
              (\<lambda>h. api_setBudgetAmount (api C) h month categoryId amount)) (\<lambda>_.
     invoke ApiSync (api_sync (api C))))"

definition getSchedules :: "Client \<Rightarrow> Schedule list io" where
  "getSchedules C =
     await (ensureInitialized C) (\<lambda>_. invoke ApiGetSchedules (api_getSchedules (api C)))"

definition createSchedule :: "Client \<Rightarrow> CreateScheduleInput \<Rightarrow> string io" where
  "createSchedule C schedule =
     await (ensureInitialized C) (\<lambda>_.
     await (invoke (ApiCreateSchedule schedule) (\<lambda>h. api_createSchedule (api C) h schedule)) (\<lambda>ident.
     await (invoke ApiSync (api_sync (api C))) (\<lambda>_.
     ret ident)))"

definition updateSchedule :: "Client \<Rightarrow> string \<Rightarrow> CreateScheduleInput \<Rightarrow> unit io" where
  "updateSchedule C ident fields0 =
     await (ensureInitialized C) (\<lambda>_.
     await (invoke (ApiUpdateSchedule ident fields0)
              (\<lambda>h. api_updateSchedule (api C) h ident fields0)) (\<lambda>_.
     invoke ApiSync (api_sync (api C))))"

definition deleteSchedule :: "Client \<Rightarrow> string \<Rightarrow> unit io" where
  "deleteSchedule C ident =
     await (ensureInitialized C) (\<lambda>_.
     await (invoke (ApiDeleteSchedule ident) (\<lambda>h. api_deleteSchedule (api C) h ident)) (\<lambda>_.
     invoke ApiSync (api_sync (api C))))"

section \<open>Entity resolution (tools.ts)\<close>

text \<open>
  Every handler resolves a token with the same expression,
  \<^verbatim>\<open>xs.find((a) => a.id === token || a.name.toLowerCase() === token.toLowerCase())\<close>:
  one pass over the list, returning the first element that satisfies the disjunction.
\<close>

definition find_by_id_or_name ::
  "('a \<Rightarrow> string) \<Rightarrow> ('a \<Rightarrow> string) \<Rightarrow> string \<Rightarrow> 'a list \<Rightarrow> 'a option" where
  "find_by_id_or_name idf namef token xs =
     List.find (\<lambda>a. idf a = token \<or> toLowerCase (namef a) = toLowerCase token) xs"

definition find_account :: "string \<Rightarrow> Account list \<Rightarrow> Account option" where
  "find_account account accounts = find_by_id_or_name a_id a_name account accounts"

definition find_category :: "string \<Rightarrow> Category list \<Rightarrow> Category option" where
  "find_category category categories = find_by_id_or_name c_id c_name category categories"

section \<open>The platform\<close>

text \<open>
  What the handlers take from the JavaScript runtime: the clock (through the static date
  helpers of the client), the conversion of a number to a string in a template literal,
  \<open>JSON.stringify(value, null, 2)\<close>, and \<open>String.prototype.localeCompare\<close> (negative,
  zero or positive) in the locale of the process. In a payload, \<open>J_nonfinite\<close> is a
  number that is an infinity or \<open>NaN\<close>.
\<close>

datatype json =
    J_undefined
  | J_null
  | J_bool bool
  | J_number rat
  | J_nonfinite
  | J_string string
  | J_array "json list"
  | J_object "(string \<times> json) list"

record Platform =
  getToday :: string
  getCurrentMonth :: string
  daysAgo :: "nat \<Rightarrow> string"
  firstOfMonth :: string
  Number_toString :: "rat \<Rightarrow> string"
  JSON_stringify :: "json \<Rightarrow> string"
  localeCompare :: "string \<Rightarrow> string \<Rightarrow> int"

section \<open>Collections\<close>

text \<open>\<open>new Map(pairs)\<close> as a lookup function: for a repeated key the last pair wins.\<close>

definition new_Map :: "('k \<times> 'v) list \<Rightarrow> 'k \<Rightarrow> 'v option" where
  "new_Map pairs = map_of (rev pairs)"

text \<open>\<open>x ? m.get(x) : undefined\<close> on an optional string.\<close>

fun get_if_truthy :: "(string \<Rightarrow> string option) \<Rightarrow> string option \<Rightarrow> string option" where
  "get_if_truthy m None = None"
| "get_if_truthy m (Some k) = (if k = [] then None else m k)"

text \<open>
  \<open>Map.prototype.set\<close> on a map kept in insertion order: an existing key keeps its
  place, a new key goes to the end.
\<close>

fun Map_set :: "'k \<Rightarrow> 'v \<Rightarrow> ('k \<times> 'v) list \<Rightarrow> ('k \<times> 'v) list" where
  "Map_set k v [] = [(k, v)]"
| "Map_set k v (p # ps) = (if fst p = k then (k, v) # ps else p # Map_set k v ps)"

text \<open>
  \<open>Array.prototype.sort(compare)\<close> is stable. \<open>sort_by before\<close> is the stable sort
  for the comparator that is negative exactly when \<open>before a b\<close> holds.
\<close>

fun insert_by :: "('a \<Rightarrow> 'a \<Rightarrow> bool) \<Rightarrow> 'a \<Rightarrow> 'a list \<Rightarrow> 'a list" where
  "insert_by before x [] = [x]"
| "insert_by before x (y # ys) =
     (if before y x then y # insert_by before x ys else x # y # ys)"

definition sort_by :: "('a \<Rightarrow> 'a \<Rightarrow> bool) \<Rightarrow> 'a list \<Rightarrow> 'a list" where
  "sort_by before xs = foldr (insert_by before) xs []"

text \<open>\<open>xs.slice(0, e)\<close>: \<open>e\<close> is truncated to an integer; a negative one counts from the end.\<close>

definition slice0 :: "'a list \<Rightarrow> rat \<Rightarrow> 'a list" where
  "slice0 xs e =
     (let k = (if 0 \<le> e then \<lfloor>e\<rfloor> else \<lceil>e\<rceil>) in
      if k < 0 then take (nat (int (length xs) + k)) xs else take (nat k) xs)"

section \<open>Tool results (tools.ts)\<close>

record ContentItem =
  ci_type :: string
  ci_text :: string

record ToolResult =
  content :: "ContentItem list"
  structuredContent :: json

text \<open>
  Every handler ends with
  \<^verbatim>\<open>return { content: [{ type: 'text', text: JSON.stringify(output, null, 2) }], structuredContent: output }\<close>.
\<close>

definition tool_result :: "Platform \<Rightarrow> json \<Rightarrow> ToolResult" where
  "tool_result P out =
     \<lparr>content = [\<lparr>ci_type = ''text'', ci_text = JSON_stringify P out\<rparr>],
      structuredContent = out\<rparr>"

fun opt_string :: "string option \<Rightarrow> json" where
  "opt_string None = J_undefined"
| "opt_string (Some s) = J_string s"

fun opt_bool :: "bool option \<Rightarrow> json" where
  "opt_bool None = J_undefined"
| "opt_bool (Some b) = J_bool b"

fun opt_number :: "rat option \<Rightarrow> json" where
  "opt_number None = J_undefined"
| "opt_number (Some x) = J_number x"

section \<open>Account tools\<close>

text \<open>
  \<open>get_accounts\<close> starts the balance reads of all accounts and awaits them with
  \<open>Promise.all\<close>.
\<close>

definition get_accounts :: "Platform \<Rightarrow> Client \<Rightarrow> ToolResult io" where
  "get_accounts P C =
     await (getAccounts C) (\<lambda>accounts.
     await (promise_all accounts (\<lambda>acc.
              await (getAccountBalance C (a_id acc)) (\<lambda>balance.
              ret (J_object
                [(''id'', J_string (a_id acc)),
                 (''name'', J_string (a_name acc)),
                 (''balance'', J_number (fromAmount balance)),
                 (''offbudget'', J_bool (or_false (a_offbudget acc))),
                 (''closed'', J_bool (or_false (a_closed acc)))])))) (\<lambda>accountsWithBalance.
     ret (tool_result P (J_object [(''accounts'', J_array accountsWithBalance)]))))"

definition get_account_balance :: "Platform \<Rightarrow> Client \<Rightarrow> string \<Rightarrow> ToolResult io" where
  "get_account_balance P C account =
     await (getAccounts C) (\<lambda>accounts.
     case find_account account accounts of
       None \<Rightarrow> throw (Error (''Account not found: '' @ account))
     | Some found \<Rightarrow>
         await (getAccountBalance C (a_id found)) (\<lambda>balance.
         ret (tool_result P (J_object
           [(''account_name'', J_string (a_name found)),
            (''balance'', J_number (fromAmount balance))]))))"

section \<open>Transaction tools\<close>

text \<open>
  The optional category of \<open>add_transaction\<close>: looked up only for a non-empty token,
  and \<open>foundCategory?.id\<close> is \<open>undefined\<close> when nothing matches.
\<close>

definition resolve_optional_category :: "Client \<Rightarrow> string option \<Rightarrow> string option io" where
  "resolve_optional_category C category =
     (case category of
        None \<Rightarrow> ret None
      | Some c \<Rightarrow>
          if c = [] then ret None
          else await (getCategories C) (\<lambda>categories.
               ret (map_option c_id (find_category c categories))))"

definition add_transaction ::
  "Platform \<Rightarrow> Client \<Rightarrow> string \<Rightarrow> rat \<Rightarrow> string option \<Rightarrow> string option \<Rightarrow> string option
     \<Rightarrow> string option \<Rightarrow> ToolResult io" where
  "add_transaction P C account amount payee_name category notes date =
     await (getAccounts C) (\<lambda>accounts.
     case find_account account accounts of
       None \<Rightarrow> throw (Error (''Account not found: '' @ account))
     | Some foundAccount \<Rightarrow>
         await (resolve_optional_category C category) (\<lambda>categoryId.
         await (addTransaction C
                  \<lparr>t_id = None, t_account = a_id foundAccount,
                   t_date = or_else date (getToday P), t_amount = toAmount amount,
                   t_payee = None, t_payee_name = payee_name, t_category = categoryId,
                   t_notes = notes, t_imported_id = None, t_cleared = None\<rparr>) (\<lambda>transactionId.
         ret (tool_result P (J_object
           [(''success'', J_bool True),
            (''transaction_id'', J_string transactionId),
            (''message'', J_string (''Transaction added: '' @ Number_toString P \<bar>amount\<bar> @ '' ''
               @ (if amount < 0 then ''expense'' else ''income'') @ '' to ''
               @ a_name foundAccount))])))))"

definition format_transaction ::
  "(string \<Rightarrow> string option) \<Rightarrow> (string \<Rightarrow> string option) \<Rightarrow> Transaction \<Rightarrow> json" where
  "format_transaction payeeMap categoryMap t =
     J_object
       [(''id'', opt_string (t_id t)),
        (''date'', J_string (t_date t)),
        (''amount'', J_number (fromAmount (t_amount t))),
        (''payee'', opt_string (get_if_truthy payeeMap (t_payee t))),
        (''category'', opt_string (get_if_truthy categoryMap (t_category t))),
        (''notes'', opt_string (t_notes t)),
        (''cleared'', opt_bool (t_cleared t))]"

definition get_transactions ::
  "Platform \<Rightarrow> Client \<Rightarrow> string \<Rightarrow> string option \<Rightarrow> string option \<Rightarrow> ToolResult io" where
  "get_transactions P C account start_date end_date =
     await (getAccounts C) (\<lambda>accounts.
     case find_account account accounts of
       None \<Rightarrow> throw (Error (''Account not found: '' @ account))
     | Some foundAccount \<Rightarrow>
         (let endDate = or_else end_date (getToday P);
              startDate = or_else start_date (daysAgo P 30) in
          await (getTransactions C (a_id foundAccount) startDate endDate) (\<lambda>transactions.
          await (getPayees C) (\<lambda>payees.
          await (getCategories C) (\<lambda>categories.
          (let payeeMap = new_Map (map (\<lambda>p. (p_id p, p_name p)) payees);
               categoryMap = new_Map (map (\<lambda>c. (c_id c, c_name c)) categories);
               formattedTransactions = map (format_transaction payeeMap categoryMap) transactions in
           ret (tool_result P (J_object
             [(''account_name'', J_string (a_name foundAccount)),
              (''transactions'', J_array formattedTransactions),
              (''total_count'', J_number (of_nat (length formattedTransactions)))]))))))))"


text \<open>
  \<open>search_transactions\<close> tags every fetched transaction with the id of its account:
  \<^verbatim>\<open>{ ...t, accountId: acc.id }\<close>.
\<close>

record TaggedTransaction = Transaction +
  accountId :: string

text \<open>The callbacks of the payee filter and of the notes filter.\<close>

definition matches_payee ::
  "(string \<Rightarrow> string option) \<Rightarrow> string \<Rightarrow> TaggedTransaction \<Rightarrow> bool" where
  "matches_payee payeeMap searchPayee t =
     (case get_if_truthy payeeMap (t_payee t) of
        None \<Rightarrow> False
      | Some payeeName \<Rightarrow> includes_str (toLowerCase payeeName) searchPayee)"

definition matches_notes :: "string \<Rightarrow> TaggedTransaction \<Rightarrow> bool" where
  "matches_notes searchNotes t =
     (case t_notes t of
        None \<Rightarrow> False
      | Some n \<Rightarrow> includes_str (toLowerCase n) searchNotes)"

text \<open>The four optional filters, applied one after the other.\<close>

definition filter_payee ::
  "(string \<Rightarrow> string option) \<Rightarrow> string option \<Rightarrow> TaggedTransaction list \<Rightarrow> TaggedTransaction list" where
  "filter_payee payeeMap payee filtered =
     (case payee of
        None \<Rightarrow> filtered
      | Some p \<Rightarrow>
          if p = [] then filtered
          else filter (matches_payee payeeMap (toLowerCase p)) filtered)"

definition filter_notes :: "string option \<Rightarrow> TaggedTransaction list \<Rightarrow> TaggedTransaction list" where
  "filter_notes notes filtered =
     (case notes of
        None \<Rightarrow> filtered
      | Some n \<Rightarrow>
          if n = [] then filtered
          else filter (matches_notes (toLowerCase n)) filtered)"

definition filter_min_amount :: "rat option \<Rightarrow> TaggedTransaction list \<Rightarrow> TaggedTransaction list" where
  "filter_min_amount min_amount filtered =
     (case min_amount of
        None \<Rightarrow> filtered
      | Some m \<Rightarrow> filter (\<lambda>t. toAmount m \<le> \<bar>t_amount t\<bar>) filtered)"

definition filter_max_amount :: "rat option \<Rightarrow> TaggedTransaction list \<Rightarrow> TaggedTransaction list" where
  "filter_max_amount max_amount filtered =
     (case max_amount of
        None \<Rightarrow> filtered
      | Some m \<Rightarrow> filter (\<lambda>t. \<bar>t_amount t\<bar> \<le> toAmount m) filtered)"

text \<open>
  \<open>filtered.sort((a, b) => b.date.localeCompare(a.date))\<close>: the comparator is negative,
  and \<open>a\<close> goes before \<open>b\<close>, when \<open>b.date.localeCompare(a.date)\<close> is negative.
\<close>

definition date_desc :: "Platform \<Rightarrow> TaggedTransaction \<Rightarrow> TaggedTransaction \<Rightarrow> bool" where
  "date_desc P a b = (localeCompare P (t_date b) (t_date a) < 0)"

text \<open>\<open>limit || 50\<close>\<close>

fun limit_or_50 :: "rat option \<Rightarrow> rat" where
  "limit_or_50 None = 50"
| "limit_or_50 (Some l) = (if l = 0 then 50 else l)"

definition search_results ::
  "Platform \<Rightarrow> (string \<Rightarrow> string option) \<Rightarrow> string option \<Rightarrow> string option \<Rightarrow> rat option
     \<Rightarrow> rat option \<Rightarrow> rat option \<Rightarrow> TaggedTransaction list \<Rightarrow> TaggedTransaction list" where
  "search_results P payeeMap payee notes min_amount max_amount limit allTransactions =
     (let filtered = allTransactions;
          filtered = filter_payee payeeMap payee filtered;
          filtered = filter_notes notes filtered;
          filtered = filter_min_amount min_amount filtered;
          filtered = filter_max_amount max_amount filtered;
          filtered = sort_by (date_desc P) filtered;
          maxResults = limit_or_50 limit in
      slice0 filtered maxResults)"

definition format_search_result ::
  "(string \<Rightarrow> string option) \<Rightarrow> (string \<Rightarrow> string option) \<Rightarrow> (string \<Rightarrow> string option)
     \<Rightarrow> TaggedTransaction \<Rightarrow> json" where
  "format_search_result accountMap payeeMap categoryMap t =
     J_object
       [(''id'', opt_string (t_id t)),
        (''account'', J_string (case accountMap (accountId t) of
                                 None \<Rightarrow> ''Unknown''
                               | Some n \<Rightarrow> if n = [] then ''Unknown'' else n)),
        (''date'', J_string (t_date t)),
        (''amount'', J_number (fromAmount (t_amount t))),
        (''payee'', opt_string (get_if_truthy payeeMap (t_payee t))),
        (''category'', opt_string (get_if_truthy categoryMap (t_category t))),
        (''notes'', opt_string (t_notes t))]"

definition search_transactions ::
  "Platform \<Rightarrow> Client \<Rightarrow> string option \<Rightarrow> string option \<Rightarrow> rat option \<Rightarrow> rat option
     \<Rightarrow> string option \<Rightarrow> string option \<Rightarrow> rat option \<Rightarrow> ToolResult io" where
  "search_transactions P C payee notes min_amount max_amount start_date end_date limit =
     await (getAccounts C) (\<lambda>accounts.
     await (getPayees C) (\<lambda>payees.
     await (getCategories C) (\<lambda>categories.
     (let payeeMap = new_Map (map (\<lambda>p. (p_id p, p_name p)) payees);
          categoryMap = new_Map (map (\<lambda>c. (c_id c, c_name c)) categories);
          accountMap = new_Map (map (\<lambda>a. (a_id a, a_name a)) accounts);
          endDate = or_else end_date (getToday P);
          startDate = or_else start_date (daysAgo P 90) in
      await (for_each (filter (\<lambda>a. \<not> or_false (a_closed a)) accounts) (\<lambda>acc.
               await (getTransactions C (a_id acc) startDate endDate) (\<lambda>transactions.
               ret (map (\<lambda>t. Transaction.extend t \<lparr>accountId = a_id acc\<rparr>) transactions))))
        (\<lambda>fetched.
      (let allTransactions = concat fetched;
           filtered = search_results P payeeMap payee notes min_amount max_amount limit
                        allTransactions;
           formattedTransactions =
             map (format_search_result accountMap payeeMap categoryMap) filtered in
       ret (tool_result P (J_object
         [(''transactions'', J_array formattedTransactions),
          (''total_count'', J_number (of_nat (length formattedTransactions)))]))))))))"

definition no_fields :: TransactionFields where
  "no_fields =
     \<lparr>f_id = None, f_account = None, f_date = None, f_amount = None, f_payee = None,
      f_payee_name = None, f_category = None, f_notes = None, f_imported_id = None,
      f_cleared = None\<rparr>"

definition update_transaction ::
  "Platform \<Rightarrow> Client \<Rightarrow> string \<Rightarrow> rat option \<Rightarrow> string option \<Rightarrow> string option \<Rightarrow> string option
     \<Rightarrow> string option \<Rightarrow> bool option \<Rightarrow> ToolResult io" where
  "update_transaction P C ident amount category payee_name notes date cleared =
     (let updates = no_fields;
          updates = (case amount of
                       None \<Rightarrow> updates
                     | Some a \<Rightarrow> updates\<lparr>f_amount := Some (toAmount a)\<rparr>) in
      await (case category of
               None \<Rightarrow> ret updates
             | Some c \<Rightarrow>
                 if c = [] then ret updates
                 else await (getCategories C) (\<lambda>categories.
                      case find_category c categories of
                        None \<Rightarrow> ret updates
                      | Some foundCategory \<Rightarrow>
                          ret (updates\<lparr>f_category := Some (c_id foundCategory)\<rparr>))) (\<lambda>updates.
      (let updates = (case payee_name of
                        None \<Rightarrow> updates
                      | Some p \<Rightarrow> updates\<lparr>f_payee_name := Some p\<rparr>);
           updates = (case notes of
                        None \<Rightarrow> updates
                      | Some n \<Rightarrow> updates\<lparr>f_notes := Some n\<rparr>);
           updates = (case date of
                        None \<Rightarrow> updates
                      | Some d \<Rightarrow> updates\<lparr>f_date := Some d\<rparr>);
           updates = (case cleared of
                        None \<Rightarrow> updates
                      | Some b \<Rightarrow> updates\<lparr>f_cleared := Some b\<rparr>) in
       await (updateTransaction C ident updates) (\<lambda>_.
       ret (tool_result P (J_object
         [(''success'', J_bool True),
          (''message'', J_string (''Transaction '' @ ident @ '' updated successfully''))]))))))"

definition delete_transaction :: "Platform \<Rightarrow> Client \<Rightarrow> string \<Rightarrow> ToolResult io" where
  "delete_transaction P C ident =
     await (deleteTransaction C ident) (\<lambda>_.
     ret (tool_result P (J_object
       [(''success'', J_bool True),
        (''message'', J_string (''Transaction '' @ ident @ '' deleted successfully''))])))"

section \<open>Category tools\<close>

definition get_categories :: "Platform \<Rightarrow> Client \<Rightarrow> ToolResult io" where
  "get_categories P C =
     await (getCategoryGroups C) (\<lambda>groups.
     await (getCategories C) (\<lambda>categories.
     ret (tool_result P (J_object
       [(''category_groups'', J_array (map (\<lambda>g.
           J_object
             [(''id'', J_string (g_id g)),
              (''name'', J_string (g_name g)),
              (''is_income'', J_bool (or_false (g_is_income g))),
              (''categories'', J_array
                 (map (\<lambda>c. J_object [(''id'', J_string (c_id c)), (''name'', J_string (c_name c))])
                    (filter (\<lambda>c. c_group_id c = Some (g_id g)) categories)))]) groups))]))))"


section \<open>Budget tools\<close>

record CategoryOut =
  co_name :: string
  co_budgeted :: rat
  co_spent :: rat
  co_balance :: rat

record GroupOut =
  go_name :: string
  go_budgeted :: rat
  go_spent :: rat
  go_balance :: rat
  go_categories :: "CategoryOut list"

record BudgetMonthOut =
  bo_month :: string
  bo_to_budget :: rat
  bo_total_budgeted :: rat
  bo_total_spent :: rat
  bo_category_groups :: "GroupOut list"

text \<open>\<open>g.categories.reduce((sum, c) => sum + Math.abs(c.spent), 0)\<close>\<close>

definition groupSpent :: "CategoryGroupBudget \<Rightarrow> int" where
  "groupSpent g = foldl (\<lambda>sum c. add64 sum \<bar>cb_spent c\<bar>) 0 (gb_categories g)"

definition group_out :: "CategoryGroupBudget \<Rightarrow> GroupOut" where
  "group_out g =
     \<lparr>go_name = gb_name g,
      go_budgeted = fromAmount (gb_budgeted g),
      go_spent = fromAmount (groupSpent g),
      go_balance = fromAmount (gb_balance g),
      go_categories = map (\<lambda>c.
        \<lparr>co_name = cb_name c,
         co_budgeted = fromAmount (cb_budgeted c),
         co_spent = fromAmount \<bar>cb_spent c\<bar>,
         co_balance = fromAmount (cb_balance c)\<rparr>) (gb_categories g)\<rparr>"

text \<open>
  The callback of \<open>budget.categoryGroups.map\<close> also adds each \<open>groupSpent\<close> to the
  variable \<open>totalSpent\<close>; the pair is the variable and the array built so far.
\<close>

definition rollup_groups :: "CategoryGroupBudget list \<Rightarrow> int \<times> GroupOut list" where
  "rollup_groups gs =
     foldl (\<lambda>(totalSpent, groups) g. (add64 totalSpent (groupSpent g), groups @ [group_out g]))
       (0, []) gs"

definition budget_month_output :: "string \<Rightarrow> BudgetMonth \<Rightarrow> BudgetMonthOut" where
  "budget_month_output targetMonth budget =
     (case rollup_groups (bm_categoryGroups budget) of (totalSpent, groups) \<Rightarrow>
        \<lparr>bo_month = targetMonth,
         bo_to_budget = fromAmount (bm_toBudget budget),
         bo_total_budgeted = fromAmount (bm_totalBudgeted budget),
         bo_total_spent = fromAmount totalSpent,
         bo_category_groups = groups\<rparr>)"

definition budget_month_json :: "BudgetMonthOut \<Rightarrow> json" where
  "budget_month_json out =
     J_object
       [(''month'', J_string (bo_month out)),
        (''to_budget'', J_number (bo_to_budget out)),
        (''total_budgeted'', J_number (bo_total_budgeted out)),
        (''total_spent'', J_number (bo_total_spent out)),
        (''category_groups'', J_array (map (\<lambda>g.
           J_object
             [(''name'', J_string (go_name g)),
              (''budgeted'', J_number (go_budgeted g)),
              (''spent'', J_number (go_spent g)),
              (''balance'', J_number (go_balance g)),
              (''categories'', J_array (map (\<lambda>c.
                 J_object
                   [(''name'', J_string (co_name c)),
                    (''budgeted'', J_number (co_budgeted c)),
                    (''spent'', J_number (co_spent c)),
                    (''balance'', J_number (co_balance c))]) (go_categories g)))])
           (bo_category_groups out)))]"

definition get_budget_month :: "Platform \<Rightarrow> Client \<Rightarrow> string option \<Rightarrow> ToolResult io" where
  "get_budget_month P C month =
     (let targetMonth = or_else month (getCurrentMonth P) in
      await (getBudgetMonth C targetMonth) (\<lambda>budget.
      ret (tool_result P (budget_month_json (budget_month_output targetMonth budget)))))"

definition set_budget_amount ::
  "Platform \<Rightarrow> Client \<Rightarrow> string option \<Rightarrow> string \<Rightarrow> rat \<Rightarrow> ToolResult io" where
  "set_budget_amount P C month category amount =
     (let targetMonth = or_else month (getCurrentMonth P) in
      await (getCategories C) (\<lambda>categories.
      case find_category category categories of
        None \<Rightarrow> throw (Error (''Category not found: '' @ category))
      | Some foundCategory \<Rightarrow>
          await (setBudgetAmount C targetMonth (c_id foundCategory) (toAmount amount)) (\<lambda>_.
          ret (tool_result P (J_object
            [(''success'', J_bool True),
             (''message'', J_string (''Set budget for \"'' @ c_name foundCategory @ ''\" to ''
                @ Number_toString P amount @ '' for '' @ targetMonth))])))))"

section \<open>Payee tools\<close>

definition get_payees :: "Platform \<Rightarrow> Client \<Rightarrow> string option \<Rightarrow> ToolResult io" where
  "get_payees P C search =
     await (getPayees C) (\<lambda>payees.
     (let payees = filter (\<lambda>p. \<not> truthy (p_transfer_acct p)) payees;
          payees = (case search of
                      None \<Rightarrow> payees
                    | Some s \<Rightarrow>
                        if s = [] then payees
                        else filter (\<lambda>p. includes_str (toLowerCase (p_name p)) (toLowerCase s))
                               payees) in
      ret (tool_result P (J_object
        [(''payees'', J_array
            (map (\<lambda>p. J_object [(''id'', J_string (p_id p)), (''name'', J_string (p_name p))])
               payees)),
         (''total_count'', J_number (of_nat (length payees)))]))))"

section \<open>Summary tools\<close>

record CategorySpending =
  bc_category :: string
  bc_amount :: rat
  bc_percentage :: "int option"

record Totals =
  categoryTotals :: "(string \<times> int) list"
  totalSpent :: int
  totalIncome :: int

text \<open>One round of the loop over the fetched transactions.\<close>

definition tally :: "(string \<Rightarrow> string option) \<Rightarrow> Totals \<Rightarrow> Transaction \<Rightarrow> Totals" where
  "tally categoryMap acc t =
     (let amount = t_amount t in
      if amount < 0 then
        (let catName = (case get_if_truthy categoryMap (t_category t) of
                          None \<Rightarrow> ''Uncategorized''
                        | Some n \<Rightarrow> if n = [] then ''Uncategorized'' else n) in
         acc\<lparr>totalSpent := add64 (totalSpent acc) \<bar>amount\<bar>,
             categoryTotals :=
               Map_set catName
                 (add64 (case map_of (categoryTotals acc) catName of None \<Rightarrow> 0 | Some v \<Rightarrow> v)
                    \<bar>amount\<bar>)
                 (categoryTotals acc)\<rparr>)
      else acc\<lparr>totalIncome := add64 (totalIncome acc) amount\<rparr>)"

definition tally_all :: "(string \<Rightarrow> string option) \<Rightarrow> Transaction list \<Rightarrow> Totals" where
  "tally_all categoryMap allTransactions =
     foldl (tally categoryMap) \<lparr>categoryTotals = [], totalSpent = 0, totalIncome = 0\<rparr>
       allTransactions"

text \<open>
  \<open>totalSpent > 0 ? Math.round((amount / totalSpent) * 100) : 0\<close>; the quotient and
  the product are rounded to binary64. The result is \<open>None\<close> when it is not a finite
  number, which a division by zero would make it.
\<close>

definition percentage_of :: "int \<Rightarrow> int \<Rightarrow> int option" where
  "percentage_of total_spent amount =
     (if 0 < total_spent
      then map_option (\<lambda>q. Math_round (fl (q * 100)))
             (divide64 (of_int amount) (of_int total_spent))
      else Some 0)"

fun percentage_json :: "int option \<Rightarrow> json" where
  "percentage_json None = J_nonfinite"
| "percentage_json (Some n) = J_number (of_int n)"

definition byCategory :: "Totals \<Rightarrow> CategorySpending list" where
  "byCategory tot =
     sort_by (\<lambda>a b. bc_amount b < bc_amount a)
       (map (\<lambda>(category, amount).
               \<lparr>bc_category = category,
                bc_amount = fromAmount amount,
                bc_percentage = percentage_of (totalSpent tot) amount\<rparr>)
          (categoryTotals tot))"

definition get_spending_summary ::
  "Platform \<Rightarrow> Client \<Rightarrow> string option \<Rightarrow> string option \<Rightarrow> ToolResult io" where
  "get_spending_summary P C start_date end_date =
     (let endDate = or_else end_date (getToday P);
          startDate = or_else start_date (firstOfMonth P) in
      await (getAccounts C) (\<lambda>accounts.
      await (getCategories C) (\<lambda>categories.
      (let categoryMap = new_Map (map (\<lambda>c. (c_id c, c_name c)) categories) in
       await (for_each
                (filter (\<lambda>a. \<not> or_false (a_closed a) \<and> \<not> or_false (a_offbudget a)) accounts)
                (\<lambda>acc. getTransactions C (a_id acc) startDate endDate)) (\<lambda>fetched.
       (let allTransactions = concat fetched;
            tot = tally_all categoryMap allTransactions in
        ret (tool_result P (J_object
          [(''period'', J_object [(''start'', J_string startDate), (''end'', J_string endDate)]),
           (''total_spent'', J_number (fromAmount (totalSpent tot))),
           (''total_income'', J_number (fromAmount (totalIncome tot))),
           (''net'', J_number (fromAmount (sub64 (totalIncome tot) (totalSpent tot)))),
           (''by_category'', J_array (map (\<lambda>e.
              J_object
                [(''category'', J_string (bc_category e)),
                 (''amount'', J_number (bc_amount e)),
                 (''percentage'', percentage_json (bc_percentage e))])
              (byCategory tot)))]))))))))"

section \<open>Schedule tools\<close>

fun frequency_name :: "Frequency \<Rightarrow> string" where
  "frequency_name daily = ''daily''"
| "frequency_name weekly = ''weekly''"
| "frequency_name monthly = ''monthly''"
| "frequency_name yearly = ''yearly''"

text \<open>The displayed amount: a plain number, or the first endpoint of a range.\<close>

fun schedule_amount :: "ScheduleAmount option \<Rightarrow> rat option" where
  "schedule_amount None = None"
| "schedule_amount (Some (Amount n)) = Some (fromAmount n)"
| "schedule_amount (Some (AmountRange n1 n2)) = Some (fromAmount n1)"

text \<open>\<open>x || 1\<close> on an optional number.\<close>

fun or_one :: "rat option \<Rightarrow> rat" where
  "or_one None = 1"
| "or_one (Some i) = (if i = 0 then 1 else i)"

definition schedule_frequency :: "Platform \<Rightarrow> ScheduleDate option \<Rightarrow> string option" where
  "schedule_frequency P d =
     (case d of
        None \<Rightarrow> None
      | Some cfg \<Rightarrow>
          (case sd_frequency cfg of
             None \<Rightarrow> None
           | Some freq \<Rightarrow>
               (let interval = or_one (sd_interval cfg) in
                if interval = 1 then Some (frequency_name freq)
                else Some (''every '' @ Number_toString P interval @ '' '' @ frequency_name freq))))"

definition get_schedules :: "Platform \<Rightarrow> Client \<Rightarrow> ToolResult io" where
  "get_schedules P C =
     await (getSchedules C) (\<lambda>schedules.
     await (getAccounts C) (\<lambda>accounts.
     await (getPayees C) (\<lambda>payees.
     (let accountMap = new_Map (map (\<lambda>a. (a_id a, a_name a)) accounts);
          payeeMap = new_Map (map (\<lambda>p. (p_id p, p_name p)) payees);
          formattedSchedules = map (\<lambda>s.
            J_object
              [(''id'', J_string (s_id s)),
               (''name'', opt_string (s_name s)),
               (''next_date'', opt_string (s_next_date s)),
               (''frequency'', opt_string (schedule_frequency P (s_date s))),
               (''amount'', opt_number (schedule_amount (s_amount s))),
               (''payee'', opt_string (get_if_truthy payeeMap (s_payee s))),
               (''account'', opt_string (get_if_truthy accountMap (s_account s))),
               (''completed'', opt_bool (s_completed s))]) schedules in
      ret (tool_result P (J_object
        [(''schedules'', J_array formattedSchedules),
         (''total_count'', J_number (of_nat (length formattedSchedules)))]))))))"

fun end_mode_or_never :: "EndMode option \<Rightarrow> EndMode" where
  "end_mode_or_never None = never"
| "end_mode_or_never (Some m) = m"

text \<open>
  The payee of a new schedule is looked up by name only, and created when no payee has
  that name.
\<close>

definition find_or_create_payee :: "Client \<Rightarrow> string option \<Rightarrow> string option io" where
  "find_or_create_payee C payee =
     (case payee of
        None \<Rightarrow> ret None
      | Some p \<Rightarrow>
          if p = [] then ret None
          else await (getPayees C) (\<lambda>payees.
               case List.find (\<lambda>x. toLowerCase (p_name x) = toLowerCase p) payees of
                 Some foundPayee \<Rightarrow> ret (Some (p_id foundPayee))
               | None \<Rightarrow> await (createPayee C p) (\<lambda>ident. ret (Some ident))))"

definition create_schedule ::
  "Platform \<Rightarrow> Client \<Rightarrow> string option \<Rightarrow> string \<Rightarrow> string option \<Rightarrow> rat \<Rightarrow> string \<Rightarrow> Frequency
     \<Rightarrow> rat option \<Rightarrow> EndMode option \<Rightarrow> rat option \<Rightarrow> string option \<Rightarrow> bool option
     \<Rightarrow> ToolResult io" where
  "create_schedule P C name account payee amount start_date frequency interval end_mode
       end_occurrences end_date posts_transaction =
     await (getAccounts C) (\<lambda>accounts.
     case find_account account accounts of
       None \<Rightarrow> throw (Error (''Account not found: '' @ account))
     | Some foundAccount \<Rightarrow>
         await (find_or_create_payee C payee) (\<lambda>payeeId.
         (let scheduleInput =
                \<lparr>cs_name = name,
                 cs_posts_transaction = Some (or_false posts_transaction),
                 cs_payee = payeeId,
                 cs_account = Some (a_id foundAccount),
                 cs_amount = Some (Amount (toAmount amount)),
                 cs_amountOp = None,
                 cs_date = Some (DateConfig
                   \<lparr>sd_frequency = Some frequency,
                    sd_interval = Some (or_one interval),
                    sd_start = Some start_date,
                    sd_endMode = Some (end_mode_or_never end_mode),
                    sd_endOccurrences = end_occurrences,
                    sd_endDate = end_date,
                    sd_skipWeekend = None,
                    sd_weekendSolveMode = None,
                    sd_patterns = None\<rparr>)\<rparr> in
          await (createSchedule C scheduleInput) (\<lambda>scheduleId.
          ret (tool_result P (J_object
            [(''success'', J_bool True),
             (''schedule_id'', J_string scheduleId),
             (''message'', J_string (''Created '' @ frequency_name frequency @ '' schedule \"''
                @ or_else name ''Unnamed'' @ ''\" starting '' @ start_date))]))))))"

definition delete_schedule :: "Platform \<Rightarrow> Client \<Rightarrow> string \<Rightarrow> ToolResult io" where
  "delete_schedule P C ident =
     await (deleteSchedule C ident) (\<lambda>_.
     ret (tool_result P (J_object
       [(''success'', J_bool True),
        (''message'', J_string (''Schedule '' @ ident @ '' deleted successfully''))])))"

section \<open>Sync tool\<close>

definition sync_budget :: "Platform \<Rightarrow> Client \<Rightarrow> ToolResult io" where
  "sync_budget P C =
     await (sync C) (\<lambda>_.
     ret (tool_result P (J_object
       [(''success'', J_bool True),
        (''message'', J_string ''Budget synchronized successfully'')])))"


section \<open>The registered tools\<close>

text \<open>
  \<open>registerTools\<close> registers sixteen tools; a call names one of them and carries its
  validated arguments, in the order of the handler's parameter list.
\<close>

datatype tool_call =
    Get_accounts
  | Get_account_balance string
  | Add_transaction string rat "string option" "string option" "string option" "string option"
  | Get_transactions string "string option" "string option"
  | Search_transactions "string option" "string option" "rat option" "rat option"
      "string option" "string option" "rat option"
  | Update_transaction string "rat option" "string option" "string option" "string option"
      "string option" "bool option"
  | Delete_transaction string
  | Get_categories
  | Get_budget_month "string option"
  | Set_budget_amount "string option" string rat
  | Get_payees "string option"
  | Get_spending_summary "string option" "string option"
  | Get_schedules
  | Create_schedule "string option" string "string option" rat string Frequency "rat option"
      "EndMode option" "rat option" "string option" "bool option"
  | Delete_schedule string
  | Sync_budget

fun call_tool :: "Platform \<Rightarrow> Client \<Rightarrow> tool_call \<Rightarrow> ToolResult io" where
  "call_tool P C Get_accounts = get_accounts P C"
| "call_tool P C (Get_account_balance account) = get_account_balance P C account"
| "call_tool P C (Add_transaction account amount payee_name category notes date) =
     add_transaction P C account amount payee_name category notes date"
| "call_tool P C (Get_transactions account start_date end_date) =
     get_transactions P C account start_date end_date"
| "call_tool P C (Search_transactions payee notes min_amount max_amount start_date end_date limit) =
     search_transactions P C payee notes min_amount max_amount start_date end_date limit"
| "call_tool P C (Update_transaction ident amount category payee_name notes date cleared) =
     update_transaction P C ident amount category payee_name notes date cleared"
| "call_tool P C (Delete_transaction ident) = delete_transaction P C ident"
| "call_tool P C Get_categories = get_categories P C"
| "call_tool P C (Get_budget_month month) = get_budget_month P C month"
| "call_tool P C (Set_budget_amount month category amount) =
     set_budget_amount P C month category amount"
| "call_tool P C (Get_payees search) = get_payees P C search"
| "call_tool P C (Get_spending_summary start_date end_date) =
     get_spending_summary P C start_date end_date"
| "call_tool P C Get_schedules = get_schedules P C"
| "call_tool P C (Create_schedule name account payee amount start_date frequency interval
     end_mode end_occurrences end_date posts_transaction) =
     create_schedule P C name account payee amount start_date frequency interval end_mode
       end_occurrences end_date posts_transaction"
| "call_tool P C (Delete_schedule ident) = delete_schedule P C ident"
| "call_tool P C Sync_budget = sync_budget P C"


section \<open>Call sequences\<close>

text \<open>The calls that \<open>ensureInitialized\<close> issues when it succeeds.\<close>

definition init_calls :: "Client \<Rightarrow> World \<Rightarrow> api_call list" where
  "init_calls C w =
     (if initialized w then []
      else [ApiInit (serverURL (config C)) (password (config C))
              (or_else (dataDir (config C)) ''/tmp/actual-data''),
            ApiDownloadBudget (budgetId (config C))
              (if truthy (encryptionPassword (config C)) then encryptionPassword (config C)
               else None)])"

section \<open>A sample ledger\<close>

text \<open>A small backend that answers every call, for concrete runs of the handlers.\<close>

definition sample_accounts :: "Account list" where
  "sample_accounts =
     [\<lparr>a_id = ''acc_1'', a_name = ''Checking'', a_offbudget = None, a_closed = None\<rparr>,
      \<lparr>a_id = ''acc_2'', a_name = ''Savings'', a_offbudget = Some True, a_closed = None\<rparr>]"

definition sample_categories :: "Category list" where
  "sample_categories =
     [\<lparr>c_id = ''cat_1'', c_name = ''Groceries'', c_group_id = Some ''grp_1'', c_is_income = None\<rparr>,
      \<lparr>c_id = ''cat_2'', c_name = ''Dining'', c_group_id = Some ''grp_1'', c_is_income = None\<rparr>]"

definition sample_payees :: "Payee list" where
  "sample_payees =
     [\<lparr>p_id = ''pay_1'', p_name = ''Costco'', p_category = None, p_transfer_acct = None\<rparr>,
      \<lparr>p_id = ''pay_2'', p_name = ''Bistro'', p_category = None, p_transfer_acct = None\<rparr>]"

definition sample_transaction :: "string \<Rightarrow> string \<Rightarrow> int \<Rightarrow> string \<Rightarrow> string \<Rightarrow> Transaction" where
  "sample_transaction ident date amount payee category =
     \<lparr>t_id = Some ident, t_account = ''acc_1'', t_date = date, t_amount = amount,
      t_payee = Some payee, t_payee_name = None, t_category = Some category, t_notes = None,
      t_imported_id = None, t_cleared = None\<rparr>"

definition sample_transactions :: "Transaction list" where
  "sample_transactions =
     [sample_transaction ''t1'' ''2024-01-01'' (- 3500) ''pay_1'' ''cat_1'',
      sample_transaction ''t2'' ''2024-03-01'' (- 1200) ''pay_2'' ''cat_2'',
      sample_transaction ''t3'' ''2024-02-01'' (- 8000) ''pay_1'' ''cat_1'']"

definition sample_budget :: RawBudgetMonth where
  "sample_budget =
     \<lparr>rb_month = Some ''2024-03'', rb_incomeAvailable = None, rb_lastMonthOverspent = None,
      rb_forNextMonth = None, rb_totalBudgeted = Some (- 90000), rb_toBudget = Some 1000,
      rb_categoryGroups = Some
        [\<lparr>rg_id = Some ''grp_1'', rg_name = Some ''Food'', rg_budgeted = Some 90000,
          rg_spent = Some (- 12345), rg_balance = Some 89200,
          rg_categories = Some
            [\<lparr>rc_id = Some ''cat_1'', rc_name = Some ''Groceries'', rc_budgeted = Some 60000,
              rc_spent = Some (- 500), rc_balance = Some 59500, rc_carryover = None\<rparr>,
             \<lparr>rc_id = Some ''cat_2'', rc_name = Some ''Dining'', rc_budgeted = Some 30000,
              rc_spent = Some (- 300), rc_balance = Some 29700, rc_carryover = None\<rparr>]\<rparr>]\<rparr>"

definition sample_schedules :: "Schedule list" where
  "sample_schedules =
     [\<lparr>s_id = ''sch_1'', s_name = Some ''Rent'', s_rule = None, s_next_date = Some ''2024-04-01'',
       s_completed = Some False, s_posts_transaction = None, s_payee = Some ''pay_1'',
       s_account = Some ''acc_1'', s_amount = Some (Amount (- 120000)), s_amountOp = None,
       s_date = Some \<lparr>sd_frequency = Some monthly, sd_interval = Some 1, sd_start = None,
                      sd_endMode = None, sd_endOccurrences = None, sd_endDate = None,
                      sd_skipWeekend = None, sd_weekendSolveMode = None, sd_patterns = None\<rparr>\<rparr>]"

definition sample_api :: Api where
  "sample_api =
     \<lparr>api_init = (\<lambda>h url pw dir. Inr ()),
      api_downloadBudget = (\<lambda>h b pw. Inr ()),
      api_shutdown = (\<lambda>h. Inr ()),
      api_sync = (\<lambda>h. Inr ()),
      api_getAccounts = (\<lambda>h. Inr sample_accounts),
      api_getAccountBalance = (\<lambda>h a. Inr (if a = ''acc_1'' then 123456 else 0)),
      api_getTransactions = (\<lambda>h a s e. Inr (if a = ''acc_1'' then sample_transactions else [])),
      api_importTransactions = (\<lambda>h a ts. Inr \<lparr>added = [''tx_new''], updated = []\<rparr>),
      api_updateTransaction = (\<lambda>h i fs. Inr ()),
      api_deleteTransaction = (\<lambda>h i. Inr ()),
      api_getCategories = (\<lambda>h. Inr sample_categories),
      api_getCategoryGroups = (\<lambda>h. Inr
        [\<lparr>g_id = ''grp_1'', g_name = ''Food'', g_is_income = None, g_categories = None\<rparr>]),
      api_getPayees = (\<lambda>h. Inr sample_payees),
      api_createPayee = (\<lambda>h n. Inr ''pay_new''),
      api_getBudgetMonths = (\<lambda>h. Inr [''2024-03'']),
      api_getBudgetMonth = (\<lambda>h m. Inr sample_budget),
      api_setBudgetAmount = (\<lambda>h m c n. Inr ()),
      api_getSchedules = (\<lambda>h. Inr sample_schedules),
      api_createSchedule = (\<lambda>h s. Inr ''sch_new''),
      api_updateSchedule = (\<lambda>h i s. Inr ()),
      api_deleteSchedule = (\<lambda>h i. Inr ())\<rparr>"

definition sample_client :: Client where
  "sample_client =
     \<lparr>config = \<lparr>serverURL = ''http://localhost:5006'', password = ''secret'', budgetId = ''b-1'',
                 encryptionPassword = None, dataDir = None\<rparr>,
      api = sample_api\<rparr>"

text \<open>
  A comparison in the manner of a locale: letters are compared without regard to case
  first, and a lower-case letter goes before the same letter in upper case.
\<close>

definition sample_localeCompare :: "string \<Rightarrow> string \<Rightarrow> int" where
  "sample_localeCompare a b =
     (if toLowerCase a < toLowerCase b then - 1
      else if toLowerCase b < toLowerCase a then 1
      else if a = b then 0
      else if b < a then - 1 else 1)"

definition sample_platform :: Platform where
  "sample_platform =
     \<lparr>getToday = ''2024-03-15'', getCurrentMonth = ''2024-03'',
      daysAgo = (\<lambda>n. ''2023-12-16''), firstOfMonth = ''2024-03-01'',
      Number_toString = (\<lambda>x. ''#''), JSON_stringify = (\<lambda>j. ''{}''),
      localeCompare = sample_localeCompare\<rparr>"

text \<open>The sample client with a ledger that holds a single income transaction.\<close>

definition income_client :: Client where
  "income_client =
     sample_client\<lparr>api := sample_api\<lparr>api_getTransactions :=
       (\<lambda>h a s e. Inr (if a = ''acc_1''
                        then [sample_transaction ''t7'' ''2024-03-02'' 250000 ''pay_1'' ''cat_1'']
                        else []))\<rparr>\<rparr>"

definition fresh :: World where
  "fresh = \<lparr>initialized = False, calls = []\<rparr>"

definition ready :: World where
  "ready = \<lparr>initialized = True, calls = []\<rparr>"


text \<open>The sample client with a backend whose import reports no added id.\<close>

definition no_id_client :: Client where
  "no_id_client =
     sample_client\<lparr>api := sample_api\<lparr>api_importTransactions :=
       (\<lambda>h a ts. Inr \<lparr>added = [], updated = [''tx_old'']\<rparr>)\<rparr>\<rparr>"


text \<open>The sample transactions as \<open>search_transactions\<close> tags them.\<close>

definition tagged_sample :: "TaggedTransaction list" where
  "tagged_sample = map (\<lambda>t. Transaction.extend t \<lparr>accountId = ''acc_1''\<rparr>) sample_transactions"


text \<open>
  The sample client with a backend that reports another \<open>spent\<close> value for the group,
  and one whose group has the category values \<open>- 2 ^ 53\<close>, \<open>- 1\<close> and \<open>- 1\<close>.
\<close>

definition regrouped_client :: Client where
  "regrouped_client =
     sample_client\<lparr>api := sample_api\<lparr>api_getBudgetMonth :=
       (\<lambda>h m. Inr (sample_budget\<lparr>rb_categoryGroups :=
          Some (map (\<lambda>g. g\<lparr>rg_spent := Some 777\<rparr>) (or_nil (rb_categoryGroups sample_budget)))\<rparr>))\<rparr>\<rparr>"

definition large_budget :: RawBudgetMonth where
  "large_budget =
     \<lparr>rb_month = Some ''2024-03'', rb_incomeAvailable = None, rb_lastMonthOverspent = None,
      rb_forNextMonth = None, rb_totalBudgeted = None, rb_toBudget = None,
      rb_categoryGroups = Some
        [\<lparr>rg_id = Some ''grp_1'', rg_name = Some ''Food'', rg_budgeted = None,
          rg_spent = None, rg_balance = None,
          rg_categories = Some
            [\<lparr>rc_id = Some ''cat_1'', rc_name = Some ''Groceries'', rc_budgeted = None,
              rc_spent = Some (- 9007199254740992), rc_balance = None, rc_carryover = None\<rparr>,
             \<lparr>rc_id = Some ''cat_2'', rc_name = Some ''Dining'', rc_budgeted = None,
              rc_spent = Some (- 1), rc_balance = None, rc_carryover = None\<rparr>,
             \<lparr>rc_id = Some ''cat_3'', rc_name = Some ''Snacks'', rc_budgeted = None,
              rc_spent = Some (- 1), rc_balance = None, rc_carryover = None\<rparr>]\<rparr>]\<rparr>"

definition large_client :: Client where
  "large_client = sample_client\<lparr>api := sample_api\<lparr>api_getBudgetMonth := (\<lambda>h m. Inr large_budget)\<rparr>\<rparr>"


section \<open>Properties of the numbers\<close>

text \<open>
  \<open>fl\<close> is the rounding of binary64: the result has a significand of at most 53 bits
  at the exponent of its argument (\<open>fl_representable\<close>) and differs from the argument by
  at most half a unit in the last place (\<open>fl_err\<close>).
\<close>

lemma halvings_bounds: "1 \<le> x \<Longrightarrow> 2 ^ halvings x \<le> x \<and> x < 2 ^ Suc (halvings x)"
proof (induction x rule: halvings.induct)
  case (1 x)
  show ?case
  proof (cases "x < 2")
    case True
    with 1 show ?thesis by (simp add: halvings.simps[of x])
  next
    case False
    then have "1 \<le> x / 2" by simp
    with 1 False have "2 ^ halvings (x / 2) \<le> x / 2 \<and> x / 2 < 2 ^ Suc (halvings (x / 2))" by blast
    with False show ?thesis by (simp add: halvings.simps[of x])
  qed
qed

lemma doublings_bounds: "0 < x \<Longrightarrow> x < 1 \<Longrightarrow> 1 \<le> x * 2 ^ doublings x \<and> x * 2 ^ doublings x < 2"
proof (induction x rule: doublings.induct)
  case (1 x)
  show ?case
  proof (cases "2 * x < 1")
    case True
    with 1 have "1 \<le> 2 * x * 2 ^ doublings (2 * x) \<and> 2 * x * 2 ^ doublings (2 * x) < 2" by simp
    with 1 show ?thesis by (simp add: doublings.simps[of x] mult_ac)
  next
    case False
    then have "doublings (2 * x) = 0" by (simp add: doublings.simps[of "2 * x"])
    with 1 False show ?thesis by (simp add: doublings.simps[of x])
  qed
qed

lemma ilog2_lower: assumes "x \<noteq> 0" shows "2 powi ilog2 x \<le> \<bar>x\<bar>"
proof (cases "1 \<le> \<bar>x\<bar>")
  case True
  then show ?thesis using halvings_bounds[of "\<bar>x\<bar>"] by (simp add: ilog2_def)
next
  case False
  with assms have "0 < \<bar>x\<bar>" "\<bar>x\<bar> < 1" by simp_all
  from doublings_bounds[OF this] have "1 \<le> \<bar>x\<bar> * 2 ^ doublings \<bar>x\<bar>" by simp
  then have "1 / 2 ^ doublings \<bar>x\<bar> \<le> \<bar>x\<bar>" by (simp add: field_simps)
  with False show ?thesis by (simp add: ilog2_def power_int_minus field_simps)
qed

lemma round_ties_even_err: "\<bar>of_int (round_ties_even y) - y\<bar> \<le> 1 / 2"
proof -
  define f where "f = \<lfloor>y\<rfloor>"
  define r where "r = y - of_int f"
  have r: "0 \<le> r" "r < 1" unfolding r_def f_def by linarith+
  have y: "y = of_int f + r" by (simp add: r_def)
  have rte: "round_ties_even y =
     (if r < 1 / 2 then f else if 1 / 2 < r then f + 1 else if even f then f else f + 1)"
    unfolding round_ties_even_def Let_def r_def f_def ..
  have lo: "r \<le> 1 / 2 \<Longrightarrow> \<bar>of_int f - y\<bar> \<le> 1 / 2" using y r by linarith
  have hi: "1 / 2 \<le> r \<Longrightarrow> \<bar>of_int (f + 1) - y\<bar> \<le> 1 / 2" using y r by simp
  consider "r < 1 / 2" | "1 / 2 < r" | "r = 1 / 2" by linarith
  then show ?thesis
  proof cases
    case 1
    then show ?thesis using lo by (simp add: rte)
  next
    case 2
    then show ?thesis using hi by (simp add: rte)
  next
    case 3
    then show ?thesis using lo hi by (simp add: rte)
  qed
qed

lemma fl_err: "\<bar>fl x - x\<bar> \<le> \<bar>x\<bar> / 2 ^ 53"
proof (cases "x = 0")
  case True
  then show ?thesis by (simp add: fl_def)
next
  case False
  define u :: rat where "u = 2 powi (ilog2 x - 52)"
  have u: "0 < u" by (simp add: u_def)
  have "fl x - x = (of_int (round_ties_even (x / u)) - x / u) * u"
    using False u by (simp add: fl_def u_def[symmetric] Let_def field_simps)
  then have "\<bar>fl x - x\<bar> = \<bar>of_int (round_ties_even (x / u)) - x / u\<bar> * u"
    using u by (simp add: abs_mult)
  also have "\<dots> \<le> (1 / 2) * u"
    using round_ties_even_err[of "x / u"] u by (intro mult_right_mono) simp_all
  also have "\<dots> = 2 powi ilog2 x / 2 ^ 53"
    by (simp add: u_def power_int_diff)
  also have "\<dots> \<le> \<bar>x\<bar> / 2 ^ 53"
    using ilog2_lower[OF False] by (simp add: divide_right_mono)
  finally show ?thesis .
qed

lemma roundtrip_int:
  assumes "\<bar>n\<bar> < 2 ^ 51"
  shows "toAmount (fromAmount n) = n"
proof -
  define x :: rat where "x = of_int n"
  define a where "a = fl (x / 100)"
  define b where "b = fl (a * 100)"
  define e :: rat where "e = 1 / 2 ^ 53"
  have e: "0 \<le> e" by (simp add: e_def)
  have "\<bar>n\<bar> \<le> 2 ^ 51 - 1" using assms by simp
  then have "rat_of_int \<bar>n\<bar> \<le> rat_of_int (2 ^ 51 - 1)" by (simp only: of_int_le_iff)
  then have xb: "\<bar>x\<bar> \<le> 2 ^ 51 - 1" by (simp add: x_def)
  have a_err: "\<bar>a - x / 100\<bar> \<le> \<bar>x / 100\<bar> / 2 ^ 53"
    unfolding a_def by (rule fl_err)
  have "a * 100 - x = 100 * (a - x / 100)" by simp
  then have "\<bar>a * 100 - x\<bar> = \<bar>100 * (a - x / 100)\<bar>" by (rule arg_cong)
  also have "\<dots> = 100 * \<bar>a - x / 100\<bar>" by (simp only: abs_mult abs_numeral)
  also have "\<dots> \<le> 100 * (\<bar>x / 100\<bar> / 2 ^ 53)"
    using a_err by (rule mult_left_mono) simp
  also have "\<dots> = \<bar>x\<bar> * e" by (simp add: e_def)
  finally have t1: "\<bar>a * 100 - x\<bar> \<le> \<bar>x\<bar> * e" .
  have t2: "\<bar>a * 100\<bar> \<le> \<bar>x\<bar> + \<bar>x\<bar> * e" using t1 by linarith
  have "\<bar>b - a * 100\<bar> \<le> \<bar>a * 100\<bar> / 2 ^ 53"
    unfolding b_def by (rule fl_err)
  then have "\<bar>b - a * 100\<bar> \<le> \<bar>a * 100\<bar> * e" by (simp add: e_def)
  also have "\<dots> \<le> (\<bar>x\<bar> + \<bar>x\<bar> * e) * e" using t2 e by (rule mult_right_mono)
  finally have t3: "\<bar>b - a * 100\<bar> \<le> (\<bar>x\<bar> + \<bar>x\<bar> * e) * e" .
  have "\<bar>b - x\<bar> \<le> \<bar>b - a * 100\<bar> + \<bar>a * 100 - x\<bar>" by linarith
  also have "\<dots> \<le> (\<bar>x\<bar> + \<bar>x\<bar> * e) * e + \<bar>x\<bar> * e" using t1 t3 by linarith
  also have "\<dots> = \<bar>x\<bar> * (2 * e + e * e)" by (simp add: algebra_simps)
  also have "\<dots> \<le> (2 ^ 51 - 1) * (2 * e + e * e)"
    using xb by (rule mult_right_mono) (simp add: e)
  also have "\<dots> < 1 / 2" by (simp add: e_def)
  finally have "\<bar>b - x\<bar> < 1 / 2" .
  then have "of_int n \<le> b + 1 / 2" "b + 1 / 2 < of_int n + 1"
    unfolding x_def by linarith+
  then have "\<lfloor>b + 1 / 2\<rfloor> = n" by (simp add: floor_unique)
  then show ?thesis by (simp add: toAmount_def fromAmount_def Math_round_def b_def a_def x_def)
qed


lemma ilog2_upper: assumes "x \<noteq> 0" shows "\<bar>x\<bar> < 2 powi (ilog2 x + 1)"
proof (cases "1 \<le> \<bar>x\<bar>")
  case True
  have "int (halvings \<bar>x\<bar>) + 1 = int (Suc (halvings \<bar>x\<bar>))" by simp
  then have "(2::rat) powi (int (halvings \<bar>x\<bar>) + 1) = 2 ^ Suc (halvings \<bar>x\<bar>)"
    by (simp only: power_int_of_nat)
  moreover have "\<bar>x\<bar> < 2 ^ Suc (halvings \<bar>x\<bar>)"
    using halvings_bounds[OF True] by blast
  ultimately show ?thesis using True by (simp only: ilog2_def if_True)
next
  case False
  with assms have x: "0 < \<bar>x\<bar>" "\<bar>x\<bar> < 1" by simp_all
  define k where "k = doublings (2 * \<bar>x\<bar>)"
  have d: "doublings \<bar>x\<bar> = Suc k"
    using x by (simp add: doublings.simps[of "\<bar>x\<bar>"] k_def)
  have "\<bar>x\<bar> * 2 ^ doublings \<bar>x\<bar> < 2" using doublings_bounds[OF x] by blast
  then have "\<bar>x\<bar> * 2 ^ Suc k < 2" by (simp only: d)
  then have "\<bar>x\<bar> * 2 ^ k < 1" by simp
  then have "\<bar>x\<bar> < 1 / 2 ^ k" by (simp add: field_simps)
  moreover have "ilog2 x + 1 = - int k" using False by (simp add: ilog2_def d)
  moreover have "(2::rat) powi (- int k) = 1 / 2 ^ k"
    by (simp only: power_int_minus_divide power_int_of_nat)
  ultimately show ?thesis by simp
qed

lemma ilog2_unique:
  assumes "2 powi e \<le> \<bar>x\<bar>" "\<bar>x\<bar> < 2 powi (e + 1)"
  shows "ilog2 x = e"
proof -
  have "(0::rat) < 2 powi e" by simp
  then have "0 < \<bar>x\<bar>" using assms(1) by (rule less_le_trans)
  then have nz: "x \<noteq> 0" by simp
  have "2 powi ilog2 x < (2::rat) powi (e + 1)"
    using ilog2_lower[OF nz] assms(2) by (rule le_less_trans)
  then have "ilog2 x < e + 1"
    using power_int_increasing[of "e + 1" "ilog2 x" "2::rat"] by (cases "ilog2 x < e + 1") simp_all
  moreover have "2 powi e < (2::rat) powi (ilog2 x + 1)"
    using assms(1) ilog2_upper[OF nz] by (rule le_less_trans)
  then have "e < ilog2 x + 1"
    using power_int_increasing[of "ilog2 x + 1" e "2::rat"] by (cases "e < ilog2 x + 1") simp_all
  ultimately show ?thesis by simp
qed

lemma fl_eval:
  assumes "2 powi e \<le> \<bar>x\<bar>" "\<bar>x\<bar> < 2 powi (e + 1)"
  shows "fl x = of_int (round_ties_even (x / 2 powi (e - 52))) * 2 powi (e - 52)"
proof -
  have "(0::rat) < 2 powi e" by simp
  then have "0 < \<bar>x\<bar>" using assms(1) by (rule less_le_trans)
  then have "x \<noteq> 0" by simp
  then show ?thesis by (simp add: fl_def Let_def ilog2_unique[OF assms])
qed

lemma fl_representable:
  "\<exists>m. fl x = of_int m * 2 powi (ilog2 x - 52) \<and> \<bar>m\<bar> \<le> 2 ^ 53"
proof (cases "x = 0")
  case True
  then show ?thesis by (intro exI[of _ 0]) (simp add: fl_def)
next
  case False
  define u :: rat where "u = 2 powi (ilog2 x - 52)"
  have u: "0 < u" by (simp add: u_def)
  have "\<bar>x\<bar> < 2 powi (ilog2 x + 1)" by (rule ilog2_upper[OF False])
  also have "\<dots> = u * 2 ^ 53" by (simp add: u_def power_int_diff power_int_add)
  finally have "\<bar>x / u\<bar> < 2 ^ 53" using u by (simp add: field_simps)
  moreover have "\<bar>of_int (round_ties_even (x / u)) - x / u\<bar> \<le> 1 / 2"
    by (rule round_ties_even_err)
  ultimately have "\<bar>rat_of_int (round_ties_even (x / u))\<bar> < 2 ^ 53 + 1 / 2" by linarith
  then have "rat_of_int \<bar>round_ties_even (x / u)\<bar> < rat_of_int (2 ^ 53 + 1)" by simp
  then have "\<bar>round_ties_even (x / u)\<bar> < 2 ^ 53 + 1" by (simp only: of_int_less_iff)
  then have "\<bar>round_ties_even (x / u)\<bar> \<le> 2 ^ 53" by simp
  then show ?thesis
    using False by (intro exI[of _ "round_ties_even (x / u)"]) (simp add: fl_def Let_def u_def)
qed

lemma fl_large_quotient: "fl (4273250911593945 / 100) = 2734880583420125 / 64"
proof -
  have "fl (4273250911593945 / 100)
          = of_int (round_ties_even (4273250911593945 / 100 / 2 powi (45 - 52))) * 2 powi (45 - 52)"
    by (rule fl_eval) simp_all
  moreover have "round_ties_even (4273250911593945 / 100 / 2 powi (45 - 52)) = 5469761166840250"
    by code_simp
  ultimately show ?thesis by simp
qed

lemma fl_large_product: "fl (2734880583420125 / 64 * 100) = 8546501823187891 / 2"
proof -
  have "fl (2734880583420125 / 64 * 100)
          = of_int (round_ties_even (2734880583420125 / 64 * 100 / 2 powi (51 - 52))) * 2 powi (51 - 52)"
    by (rule fl_eval) simp_all
  moreover have "round_ties_even (2734880583420125 / 64 * 100 / 2 powi (51 - 52)) = 8546501823187891"
    by code_simp
  ultimately show ?thesis by simp
qed

lemma fl_one_tenth: "fl (1 / 10) = 3602879701896397 / 36028797018963968"
proof -
  have "fl (1 / 10) = of_int (round_ties_even (1 / 10 / 2 powi (- 4 - 52))) * 2 powi (- 4 - 52)"
    by (rule fl_eval) simp_all
  moreover have "round_ties_even (1 / 10 / 2 powi (- 4 - 52)) = 7205759403792794"
    by code_simp
  ultimately show ?thesis by simp
qed

text \<open>
  C2 (counterexample). The integer \<open>4273250911593945\<close> is below \<open>2 ^ 53\<close>, so it is
  a JavaScript number; dividing it by 100 and multiplying the quotient by 100 gives
  \<open>4273250911593945.5\<close>, which \<open>Math.round\<close> turns into the next integer.
\<close>

theorem C2_roundtrip_large_counterexample:
  "toAmount (fromAmount 4273250911593945) = 4273250911593946
   \<and> toAmount (fromAmount 4273250911593945) \<noteq> 4273250911593945"
proof -
  have "fromAmount 4273250911593945 = fl (4273250911593945 / 100)"
    by (simp only: fromAmount_def of_int_numeral)
  then have "toAmount (fromAmount 4273250911593945)
               = Math_round (fl (2734880583420125 / 64 * 100))"
    by (simp only: toAmount_def fl_large_quotient)
  also have "\<dots> = Math_round (8546501823187891 / 2)" by (simp only: fl_large_product)
  also have "\<dots> = 4273250911593946" by code_simp
  finally show ?thesis by simp
qed

text \<open>
  C2 (amended). For every integer \<open>n\<close> of minor units with \<open>\<bar>n\<bar> < 2 ^ 51\<close>,
  \<open>toAmount (fromAmount n) = n\<close>; and for the decimal with two fractional digits
  \<open>n / 100\<close>, as the number \<open>d\<close> that represents it (the binary64 value nearest to
  it), \<open>fromAmount (toAmount d) = d\<close>.
\<close>

theorem C2_roundtrip_below_2_51:
  assumes "\<bar>n\<bar> < 2 ^ 51"
  shows "toAmount (fromAmount n) = n
         \<and> fromAmount (toAmount (fl (of_int n / 100))) = fl (of_int n / 100)"
proof -
  have 1: "toAmount (fromAmount n) = n" using assms by (rule roundtrip_int)
  have "toAmount (fl (of_int n / 100)) = n" using 1 by (simp only: fromAmount_def)
  then have "fromAmount (toAmount (fl (of_int n / 100))) = fromAmount n" by simp
  then have 2: "fromAmount (toAmount (fl (of_int n / 100))) = fl (of_int n / 100)"
    by (simp only: fromAmount_def)
  from 1 2 show ?thesis ..
qed

text \<open>The example of the specification: 1234 minor units and the number 12.34.\<close>

theorem C2_roundtrip_below_2_51_witness:
  "toAmount (fromAmount 1234) = 1234
   \<and> fromAmount (toAmount (fl (of_int 1234 / 100))) = fl (of_int 1234 / 100)"
proof -
  have h: "\<bar>1234::int\<bar> < 2 ^ 51" by simp
  from C2_roundtrip_below_2_51[OF h] show ?thesis .
qed

text \<open>
  Integers in binary64: an integer below \<open>2 ^ 53\<close> is a binary64 value, the rounding
  of an integer is an integer, and the binary64 sum of two integers is their sum as long
  as that is below \<open>2 ^ 53\<close>.
\<close>

lemma round_ties_even_of_int: "round_ties_even (of_int k) = k"
  by (simp add: round_ties_even_def)

lemma ilog2_nonneg: "1 \<le> \<bar>x\<bar> \<Longrightarrow> 0 \<le> ilog2 x"
  by (simp add: ilog2_def)

lemma ilog2_less:
  assumes "x \<noteq> 0" "\<bar>x\<bar> < 2 powi k"
  shows "ilog2 x < k"
proof -
  have "2 powi ilog2 x < (2::rat) powi k"
    using ilog2_lower[OF assms(1)] assms(2) by (rule le_less_trans)
  then show ?thesis
    using power_int_increasing[of k "ilog2 x" "2::rat"] by (cases "ilog2 x < k") simp_all
qed

lemma fl_of_int_low:
  assumes "n \<noteq> 0" "ilog2 (of_int n) \<le> 52"
  shows "fl (of_int n) = of_int n"
proof -
  define e where "e = ilog2 (rat_of_int n)"
  define k where "k = nat (52 - e)"
  have e52: "e - 52 = - int k" using assms(2) by (simp add: k_def e_def)
  have u: "(2::rat) powi (e - 52) = 1 / 2 ^ k"
    unfolding e52 by (simp only: power_int_minus_divide power_int_of_nat)
  have "rat_of_int n / (1 / 2 ^ k) = of_int (n * 2 ^ k)" by simp
  then have "round_ties_even (rat_of_int n / (1 / 2 ^ k)) = n * 2 ^ k"
    by (simp only: round_ties_even_of_int)
  then have "of_int (round_ties_even (rat_of_int n / (1 / 2 ^ k))) * (1 / 2 ^ k) = rat_of_int n"
    by simp
  then show ?thesis
    using assms(1) by (simp add: fl_def Let_def e_def[symmetric] u)
qed

lemma fl_of_int_exact:
  assumes "\<bar>n\<bar> < 2 ^ 53"
  shows "fl (of_int n) = of_int n"
proof (cases "n = 0")
  case True
  then show ?thesis by (simp add: fl_def)
next
  case False
  have "rat_of_int \<bar>n\<bar> < rat_of_int (2 ^ 53)" using assms by (simp only: of_int_less_iff)
  then have "\<bar>rat_of_int n\<bar> < 2 powi 53" by simp
  then have "ilog2 (rat_of_int n) < 53" using False by (intro ilog2_less) simp_all
  then show ?thesis using False by (intro fl_of_int_low) simp_all
qed

lemma fl_of_int_integral: "\<exists>m. fl (of_int n) = of_int m"
proof (cases "n = 0 \<or> ilog2 (of_int n) \<le> 52")
  case True
  then show ?thesis
  proof
    assume "n = 0"
    then show ?thesis by (intro exI[of _ 0]) (simp add: fl_def)
  next
    assume low: "ilog2 (rat_of_int n) \<le> 52"
    show ?thesis
    proof (cases "n = 0")
      case True
      then show ?thesis by (intro exI[of _ 0]) (simp add: fl_def)
    next
      case False
      then have "fl (of_int n) = of_int n" using low by (rule fl_of_int_low)
      then show ?thesis by blast
    qed
  qed
next
  case False
  define e where "e = ilog2 (rat_of_int n)"
  define k where "k = nat (e - 52)"
  have "e - 52 = int k" using False by (simp add: k_def e_def)
  then have u: "(2::rat) powi (e - 52) = 2 ^ k" by (simp only: power_int_of_nat)
  have "fl (of_int n) = of_int (round_ties_even (rat_of_int n / 2 ^ k) * 2 ^ k)"
    using False by (simp add: fl_def Let_def e_def[symmetric] u)
  then show ?thesis by blast
qed

lemma add64_exact:
  assumes "\<bar>a + b\<bar> < 2 ^ 53"
  shows "add64 a b = a + b"
proof -
  have "fl (of_int a + of_int b) = of_int (a + b)"
    using fl_of_int_exact[OF assms] by simp
  then show ?thesis by (simp add: add64_def)
qed

lemma sub64_exact:
  assumes "\<bar>a - b\<bar> < 2 ^ 53"
  shows "sub64 a b = a - b"
proof -
  have "fl (of_int a - of_int b) = of_int (a - b)"
    using fl_of_int_exact[OF assms] by simp
  then show ?thesis by (simp add: sub64_def)
qed

lemma round_ties_even_ge: "\<lfloor>y\<rfloor> \<le> round_ties_even y"
  by (simp add: round_ties_even_def Let_def)

lemma fl_ge_one:
  assumes "1 \<le> x"
  shows "1 \<le> fl x"
proof -
  have nz: "x \<noteq> 0" using assms by simp
  define e where "e = ilog2 x"
  define u :: rat where "u = 2 powi (e - 52)"
  have u: "0 < u" by (simp add: u_def)
  have e0: "0 \<le> e" using assms by (simp add: e_def ilog2_def)
  have "2 powi e \<le> \<bar>x\<bar>" unfolding e_def by (rule ilog2_lower[OF nz])
  then have "2 powi e \<le> x" using assms by simp
  then have "2 powi e / u \<le> x / u" using u by (simp add: divide_right_mono)
  moreover have "2 powi e / u = (2::rat) ^ 52" by (simp add: u_def power_int_diff)
  ultimately have "rat_of_int (2 ^ 52) \<le> x / u" by simp
  then have "2 ^ 52 \<le> \<lfloor>x / u\<rfloor>" by (simp only: le_floor_iff)
  then have "2 ^ 52 \<le> round_ties_even (x / u)"
    using round_ties_even_ge[of "x / u"] by linarith
  then have "rat_of_int (2 ^ 52) \<le> rat_of_int (round_ties_even (x / u))"
    by (simp only: of_int_le_iff)
  then have "rat_of_int (2 ^ 52) * u \<le> rat_of_int (round_ties_even (x / u)) * u"
    using u by (intro mult_right_mono) simp_all
  moreover have "rat_of_int (2 ^ 52) * u = 2 powi e" by (simp add: u_def power_int_diff)
  moreover have "(1::rat) \<le> 2 powi e" using e0 by simp
  moreover have "fl x = rat_of_int (round_ties_even (x / u)) * u"
    using nz by (simp add: fl_def Let_def u_def e_def)
  ultimately show ?thesis by simp
qed

lemma add64_pos:
  assumes "0 \<le> a" "0 < b"
  shows "0 < add64 a b"
proof -
  have "(1::rat) \<le> of_int a + of_int b"
  proof -
    have "1 \<le> a + b" using assms by simp
    then have "rat_of_int 1 \<le> rat_of_int (a + b)" by (simp only: of_int_le_iff)
    then show ?thesis by simp
  qed
  then have "1 \<le> fl (of_int a + of_int b)" by (rule fl_ge_one)
  then have "1 \<le> \<lfloor>fl (of_int a + of_int b)\<rfloor>" by (simp add: le_floor_iff)
  then show ?thesis by (simp add: add64_def)
qed

section \<open>Properties of entity resolution\<close>

lemma find_by_id_or_name_first:
  assumes "\<forall>x \<in> set pre. idf x \<noteq> token \<and> toLowerCase (namef x) \<noteq> toLowerCase token"
    and "idf r = token \<or> toLowerCase (namef r) = toLowerCase token"
  shows "find_by_id_or_name idf namef token (pre @ r # post) = Some r"
  using assms unfolding find_by_id_or_name_def
  by (induction pre) auto

lemma find_by_id_or_name_None:
  "find_by_id_or_name idf namef token xs = None \<longleftrightarrow>
     (\<forall>x \<in> set xs. idf x \<noteq> token \<and> toLowerCase (namef x) \<noteq> toLowerCase token)"
  unfolding find_by_id_or_name_def by (auto simp: find_None_iff)

lemma find_by_id_or_name_Some:
  assumes "find_by_id_or_name idf namef token xs = Some r"
  shows "r \<in> set xs \<and> (idf r = token \<or> toLowerCase (namef r) = toLowerCase token)"
  using assms unfolding find_by_id_or_name_def
  by (auto simp: find_Some_iff)

text \<open>
  C1 (counterexample). The token \<open>acc_2\<close> is the id of the second account and, up to
  case, the name of the first one. The single pass returns the first account: the id
  match further down the list does not take precedence over the earlier name match.
  And the token \<open>pay_1\<close> is the id of the first payee of the sample ledger, but the
  lookup of a payee reads names only: it finds no payee and a new one is created.
\<close>

theorem C1_id_precedence_counterexample:
  "a_id \<lparr>a_id = ''acc_2'', a_name = ''Savings'', a_offbudget = None, a_closed = None\<rparr> = ''acc_2''
   \<and> find_account ''acc_2''
       [\<lparr>a_id = ''acc_1'', a_name = ''ACC_2'', a_offbudget = None, a_closed = None\<rparr>,
        \<lparr>a_id = ''acc_2'', a_name = ''Savings'', a_offbudget = None, a_closed = None\<rparr>]
     = Some \<lparr>a_id = ''acc_1'', a_name = ''ACC_2'', a_offbudget = None, a_closed = None\<rparr>
   \<and> find_account ''acc_2''
       [\<lparr>a_id = ''acc_1'', a_name = ''ACC_2'', a_offbudget = None, a_closed = None\<rparr>,
        \<lparr>a_id = ''acc_2'', a_name = ''Savings'', a_offbudget = None, a_closed = None\<rparr>]
     \<noteq> Some \<lparr>a_id = ''acc_2'', a_name = ''Savings'', a_offbudget = None, a_closed = None\<rparr>
   \<and> getPayees sample_client ready
     = (Inr [\<lparr>p_id = ''pay_1'', p_name = ''Costco'', p_category = None, p_transfer_acct = None\<rparr>,
             \<lparr>p_id = ''pay_2'', p_name = ''Bistro'', p_category = None, p_transfer_acct = None\<rparr>],
        \<lparr>initialized = True, calls = [ApiGetPayees]\<rparr>)
   \<and> find_or_create_payee sample_client (Some ''pay_1'') ready
     = (Inr (Some ''pay_new''),
        \<lparr>initialized = True, calls = [ApiGetPayees, ApiCreatePayee ''pay_1'', ApiSync]\<rparr>)"
proof -
  have "find_or_create_payee sample_client (Some ''pay_1'') ready
     = (Inr (Some ''pay_new''),
        \<lparr>initialized = True, calls = [ApiGetPayees, ApiCreatePayee ''pay_1'', ApiSync]\<rparr>)"
    by (simp add: find_or_create_payee_def getPayees_def createPayee_def await_def invoke_def
          ret_def ensureInitialized_def sample_client_def sample_api_def ready_def
          sample_payees_def toLowerCase_def lower_char_def)
  moreover have "getPayees sample_client ready
     = (Inr [\<lparr>p_id = ''pay_1'', p_name = ''Costco'', p_category = None, p_transfer_acct = None\<rparr>,
             \<lparr>p_id = ''pay_2'', p_name = ''Bistro'', p_category = None, p_transfer_acct = None\<rparr>],
        \<lparr>initialized = True, calls = [ApiGetPayees]\<rparr>)"
    by (simp add: getPayees_def await_def invoke_def ret_def ensureInitialized_def
          sample_client_def sample_api_def ready_def sample_payees_def)
  ultimately show ?thesis
    by (simp add: find_account_def find_by_id_or_name_def toLowerCase_def lower_char_def)
qed

text \<open>
  C1 (amended). For accounts and for categories: if a record's id equals the token and
  no record before it in the list matches the token by id or by case-insensitive name,
  resolution returns that record, whatever the names and ids of the records after it;
  and in any case a token equal to the id of some record of the list resolves to the
  first record of the list that matches the token by id or by name. Payees are resolved
  by case-insensitive name only (\<open>find_or_create_payee\<close>, for a non-empty token): the
  first payee whose name matches the token is the result, and when no name matches, a
  payee with the token as its name is created and its new id is the result, whether or
  not the token is the id of a payee.
\<close>

theorem C1_id_match_resolves:
  "(a_id r = token
      \<and> (\<forall>x \<in> set pre. a_id x \<noteq> token \<and> toLowerCase (a_name x) \<noteq> toLowerCase token)
      \<longrightarrow> find_account token (pre @ r # post) = Some r)
   \<and> (c_id c = token
      \<and> (\<forall>x \<in> set cpre. c_id x \<noteq> token \<and> toLowerCase (c_name x) \<noteq> toLowerCase token)
      \<longrightarrow> find_category token (cpre @ c # cpost) = Some c)
   \<and> (r \<in> set accounts \<and> a_id r = token
      \<longrightarrow> (\<exists>found i. find_account token accounts = Some found
            \<and> i < length accounts \<and> accounts ! i = found
            \<and> (a_id found = token \<or> toLowerCase (a_name found) = toLowerCase token)
            \<and> (\<forall>j<i. a_id (accounts ! j) \<noteq> token
                    \<and> toLowerCase (a_name (accounts ! j)) \<noteq> toLowerCase token)))
   \<and> (c \<in> set categories \<and> c_id c = token
      \<longrightarrow> (\<exists>found i. find_category token categories = Some found
            \<and> i < length categories \<and> categories ! i = found
            \<and> (c_id found = token \<or> toLowerCase (c_name found) = toLowerCase token)
            \<and> (\<forall>j<i. c_id (categories ! j) \<noteq> token
                    \<and> toLowerCase (c_name (categories ! j)) \<noteq> toLowerCase token)))
   \<and> (token \<noteq> [] \<and> getPayees C w = (Inr (ppre @ p # ppost), w1)
      \<and> toLowerCase (p_name p) = toLowerCase token
      \<and> (\<forall>x \<in> set ppre. toLowerCase (p_name x) \<noteq> toLowerCase token)
      \<longrightarrow> find_or_create_payee C (Some token) w = (Inr (Some (p_id p)), w1))
   \<and> (token \<noteq> [] \<and> getPayees C w = (Inr payees, w1)
      \<and> (\<forall>x \<in> set payees. toLowerCase (p_name x) \<noteq> toLowerCase token)
      \<and> createPayee C token w1 = (Inr ident, w2)
      \<longrightarrow> find_or_create_payee C (Some token) w = (Inr (Some ident), w2))"
proof (intro conjI impI)
  assume "a_id r = token
      \<and> (\<forall>x \<in> set pre. a_id x \<noteq> token \<and> toLowerCase (a_name x) \<noteq> toLowerCase token)"
  then show "find_account token (pre @ r # post) = Some r"
    unfolding find_account_def by (intro find_by_id_or_name_first) auto
next
  assume "c_id c = token
      \<and> (\<forall>x \<in> set cpre. c_id x \<noteq> token \<and> toLowerCase (c_name x) \<noteq> toLowerCase token)"
  then show "find_category token (cpre @ c # cpost) = Some c"
    unfolding find_category_def by (intro find_by_id_or_name_first) auto
next
  assume a: "r \<in> set accounts \<and> a_id r = token"
  then have "find_account token accounts \<noteq> None"
    by (auto simp: find_account_def find_by_id_or_name_None)
  then obtain found where f: "find_account token accounts = Some found" by auto
  then obtain i where "i < length accounts" "accounts ! i = found"
      "a_id found = token \<or> toLowerCase (a_name found) = toLowerCase token"
      "\<forall>j<i. a_id (accounts ! j) \<noteq> token
              \<and> toLowerCase (a_name (accounts ! j)) \<noteq> toLowerCase token"
    unfolding find_account_def find_by_id_or_name_def find_Some_iff by blast
  with f show "\<exists>found i. find_account token accounts = Some found
            \<and> i < length accounts \<and> accounts ! i = found
            \<and> (a_id found = token \<or> toLowerCase (a_name found) = toLowerCase token)
            \<and> (\<forall>j<i. a_id (accounts ! j) \<noteq> token
                    \<and> toLowerCase (a_name (accounts ! j)) \<noteq> toLowerCase token)"
    by blast
next
  assume a: "c \<in> set categories \<and> c_id c = token"
  then have "find_category token categories \<noteq> None"
    by (auto simp: find_category_def find_by_id_or_name_None)
  then obtain found where f: "find_category token categories = Some found" by auto
  then obtain i where "i < length categories" "categories ! i = found"
      "c_id found = token \<or> toLowerCase (c_name found) = toLowerCase token"
      "\<forall>j<i. c_id (categories ! j) \<noteq> token
              \<and> toLowerCase (c_name (categories ! j)) \<noteq> toLowerCase token"
    unfolding find_category_def find_by_id_or_name_def find_Some_iff by blast
  with f show "\<exists>found i. find_category token categories = Some found
            \<and> i < length categories \<and> categories ! i = found
            \<and> (c_id found = token \<or> toLowerCase (c_name found) = toLowerCase token)
            \<and> (\<forall>j<i. c_id (categories ! j) \<noteq> token
                    \<and> toLowerCase (c_name (categories ! j)) \<noteq> toLowerCase token)"
    by blast
next
  assume a: "token \<noteq> [] \<and> getPayees C w = (Inr (ppre @ p # ppost), w1)
      \<and> toLowerCase (p_name p) = toLowerCase token
      \<and> (\<forall>x \<in> set ppre. toLowerCase (p_name x) \<noteq> toLowerCase token)"
  then have "\<forall>x \<in> set ppre. toLowerCase (p_name x) \<noteq> toLowerCase token"
    and "toLowerCase (p_name p) = toLowerCase token" by simp_all
  then have "List.find (\<lambda>x. toLowerCase (p_name x) = toLowerCase token) (ppre @ p # ppost) = Some p"
    by (induction ppre) simp_all
  with a show "find_or_create_payee C (Some token) w = (Inr (Some (p_id p)), w1)"
    by (simp add: find_or_create_payee_def await_def ret_def)
next
  assume a: "token \<noteq> [] \<and> getPayees C w = (Inr payees, w1)
      \<and> (\<forall>x \<in> set payees. toLowerCase (p_name x) \<noteq> toLowerCase token)
      \<and> createPayee C token w1 = (Inr ident, w2)"
  then have "List.find (\<lambda>x. toLowerCase (p_name x) = toLowerCase token) payees = None"
    by (simp add: find_None_iff)
  with a show "find_or_create_payee C (Some token) w = (Inr (Some ident), w2)"
    by (simp add: find_or_create_payee_def await_def ret_def)
qed

text \<open>
  An account and a category found by id although a later record has the token as its
  name; the token of the counterexample, which still resolves to a matching account,
  and a category token that is the id of the second category and the name of the first;
  the payee \<open>Costco\<close> found by the name \<open>costco\<close>, and the token \<open>pay_1\<close>, the id of
  that payee, for which a payee is created.
\<close>

theorem C1_id_match_resolves_witness:
  "find_account ''acc_2''
     ([\<lparr>a_id = ''acc_1'', a_name = ''Checking'', a_offbudget = None, a_closed = None\<rparr>]
      @ \<lparr>a_id = ''acc_2'', a_name = ''Savings'', a_offbudget = None, a_closed = None\<rparr>
      # [\<lparr>a_id = ''acc_3'', a_name = ''ACC_2'', a_offbudget = None, a_closed = None\<rparr>])
   = Some \<lparr>a_id = ''acc_2'', a_name = ''Savings'', a_offbudget = None, a_closed = None\<rparr>
   \<and> find_category ''cat_1''
     ([] @ \<lparr>c_id = ''cat_1'', c_name = ''Groceries'', c_group_id = None, c_is_income = None\<rparr>
      # [\<lparr>c_id = ''cat_2'', c_name = ''Cat_1'', c_group_id = None, c_is_income = None\<rparr>])
   = Some \<lparr>c_id = ''cat_1'', c_name = ''Groceries'', c_group_id = None, c_is_income = None\<rparr>
   \<and> (\<exists>found. find_account ''acc_2''
          [\<lparr>a_id = ''acc_1'', a_name = ''ACC_2'', a_offbudget = None, a_closed = None\<rparr>,
           \<lparr>a_id = ''acc_2'', a_name = ''Savings'', a_offbudget = None, a_closed = None\<rparr>]
        = Some found
        \<and> (a_id found = ''acc_2'' \<or> toLowerCase (a_name found) = toLowerCase ''acc_2''))
   \<and> (\<exists>found. find_category ''cat_2''
          [\<lparr>c_id = ''cat_1'', c_name = ''CAT_2'', c_group_id = None, c_is_income = None\<rparr>,
           \<lparr>c_id = ''cat_2'', c_name = ''Dining'', c_group_id = None, c_is_income = None\<rparr>]
        = Some found
        \<and> (c_id found = ''cat_2'' \<or> toLowerCase (c_name found) = toLowerCase ''cat_2''))
   \<and> find_or_create_payee sample_client (Some ''costco'') ready
     = (Inr (Some ''pay_1''), \<lparr>initialized = True, calls = [ApiGetPayees]\<rparr>)
   \<and> find_or_create_payee sample_client (Some ''pay_1'') ready
     = (Inr (Some ''pay_new''),
        \<lparr>initialized = True, calls = [ApiGetPayees, ApiCreatePayee ''pay_1'', ApiSync]\<rparr>)"
proof -
  let ?r = "\<lparr>a_id = ''acc_2'', a_name = ''Savings'', a_offbudget = None, a_closed = None\<rparr>"
  let ?pre = "[\<lparr>a_id = ''acc_1'', a_name = ''Checking'', a_offbudget = None, a_closed = None\<rparr>]"
  let ?c = "\<lparr>c_id = ''cat_1'', c_name = ''Groceries'', c_group_id = None, c_is_income = None\<rparr>"
  let ?xs = "[\<lparr>a_id = ''acc_1'', a_name = ''ACC_2'', a_offbudget = None, a_closed = None\<rparr>, ?r]"
  let ?d = "\<lparr>c_id = ''cat_2'', c_name = ''Dining'', c_group_id = None, c_is_income = None\<rparr>"
  let ?ys = "[\<lparr>c_id = ''cat_1'', c_name = ''CAT_2'', c_group_id = None, c_is_income = None\<rparr>, ?d]"
  let ?p = "\<lparr>p_id = ''pay_1'', p_name = ''Costco'', p_category = None, p_transfer_acct = None\<rparr>"
  let ?q = "\<lparr>p_id = ''pay_2'', p_name = ''Bistro'', p_category = None, p_transfer_acct = None\<rparr>"
  let ?w1 = "\<lparr>initialized = True, calls = [ApiGetPayees]\<rparr>"
  have g: "getPayees sample_client ready = (Inr ([] @ ?p # [?q]), ?w1)"
    by (simp add: getPayees_def await_def invoke_def ret_def ensureInitialized_def
          sample_client_def sample_api_def ready_def sample_payees_def)
  have h1: "a_id ?r = ''acc_2''
      \<and> (\<forall>x \<in> set ?pre. a_id x \<noteq> ''acc_2'' \<and> toLowerCase (a_name x) \<noteq> toLowerCase ''acc_2'')"
    by (simp add: toLowerCase_def lower_char_def)
  have h2: "c_id ?c = ''cat_1''
      \<and> (\<forall>x \<in> set ([] :: Category list).
            c_id x \<noteq> ''cat_1'' \<and> toLowerCase (c_name x) \<noteq> toLowerCase ''cat_1'')"
    by simp
  have h3: "?r \<in> set ?xs \<and> a_id ?r = ''acc_2''" by simp
  have h4: "?d \<in> set ?ys \<and> c_id ?d = ''cat_2''" by simp
  have h5: "''costco'' \<noteq> [] \<and> getPayees sample_client ready = (Inr ([] @ ?p # [?q]), ?w1)
      \<and> toLowerCase (p_name ?p) = toLowerCase ''costco''
      \<and> (\<forall>x \<in> set ([] :: Payee list). toLowerCase (p_name x) \<noteq> toLowerCase ''costco'')"
    using g by (simp add: toLowerCase_def lower_char_def)
  have h6: "''pay_1'' \<noteq> [] \<and> getPayees sample_client ready = (Inr ([] @ ?p # [?q]), ?w1)
      \<and> (\<forall>x \<in> set ([] @ ?p # [?q]). toLowerCase (p_name x) \<noteq> toLowerCase ''pay_1'')
      \<and> createPayee sample_client ''pay_1'' ?w1
        = (Inr ''pay_new'',
           \<lparr>initialized = True, calls = [ApiGetPayees, ApiCreatePayee ''pay_1'', ApiSync]\<rparr>)"
    using g
    by (simp add: createPayee_def await_def invoke_def ret_def ensureInitialized_def
          sample_client_def sample_api_def toLowerCase_def lower_char_def)
  note t = C1_id_match_resolves[where token = "''acc_2''" and r = ?r]
  note u = C1_id_match_resolves[where token = "''cat_1''" and c = ?c]
  note v = C1_id_match_resolves[where token = "''cat_2''" and c = ?d]
  note x = C1_id_match_resolves[where token = "''costco''" and p = ?p]
  note y = C1_id_match_resolves[where token = "''pay_1''"]
  from t[THEN conjunct1, rule_format, OF h1]
       u[THEN conjunct2, THEN conjunct1, rule_format, OF h2]
       t[THEN conjunct2, THEN conjunct2, THEN conjunct1, rule_format, OF h3]
       v[THEN conjunct2, THEN conjunct2, THEN conjunct2, THEN conjunct1, rule_format, OF h4]
       x[THEN conjunct2, THEN conjunct2, THEN conjunct2, THEN conjunct2, THEN conjunct1,
         rule_format, OF h5]
       y[THEN conjunct2, THEN conjunct2, THEN conjunct2, THEN conjunct2, THEN conjunct2,
         rule_format, OF h6]
  show ?thesis by simp blast
qed

section \<open>Properties of the effects\<close>

lemmas sample_defs = sample_client_def sample_api_def sample_platform_def fresh_def ready_def
  sample_accounts_def sample_categories_def sample_payees_def

lemmas run_defs = await_def invoke_def ret_def throw_def ensureInitialized_def init_def

lemma await_Inr:
  "await m f w = (Inr y, w') \<longleftrightarrow> (\<exists>x w1. m w = (Inr x, w1) \<and> f x w1 = (Inr y, w'))"
  by (auto simp: await_def split: prod.splits sum.splits)

lemma await_Inl:
  "await m f w = (Inl e, w') \<longleftrightarrow>
     m w = (Inl e, w') \<or> (\<exists>x w1. m w = (Inr x, w1) \<and> f x w1 = (Inl e, w'))"
  by (auto simp: await_def split: prod.splits sum.splits)

lemma invoke_eq:
  "invoke c answer w = (r, w') \<longleftrightarrow> r = answer (calls w) \<and> w' = w\<lparr>calls := calls w @ [c]\<rparr>"
  by (auto simp: invoke_def)

lemma ret_eq: "ret x w = (r, w') \<longleftrightarrow> r = Inr x \<and> w' = w"
  by (auto simp: ret_def)

lemma throw_eq: "throw e w = (r, w') \<longleftrightarrow> r = Inl e \<and> w' = w"
  by (auto simp: throw_def)

lemma ensureInitialized_Inr:
  assumes "ensureInitialized C w = (Inr u, w')"
  shows "calls w' = calls w @ init_calls C w \<and> initialized w'"
  using assms
  by (auto simp: ensureInitialized_def init_def init_calls_def await_Inr invoke_eq
           split: if_splits)

text \<open>
  C8. Each of the nine mutating operations of the client, when it returns normally, has
  issued its mutation and then \<open>api.sync\<close>, in this order, as its last two calls
  (after the calls of the initialisation, if the client was not initialised).
\<close>

theorem C8_mutation_then_sync:
  "(addTransaction C t w = (Inr r1, w') \<longrightarrow>
      calls w' = calls w @ init_calls C w
        @ [ApiImportTransactions (t_account t) [t\<lparr>t_id := None, t_imported_id := None\<rparr>], ApiSync])
   \<and> (importTransactions C acc ts w = (Inr r2, w') \<longrightarrow>
      calls w' = calls w @ init_calls C w
        @ [ApiImportTransactions acc (map (\<lambda>t. t\<lparr>t_account := acc\<rparr>) ts), ApiSync])
   \<and> (updateTransaction C i fs w = (Inr r3, w') \<longrightarrow>
      calls w' = calls w @ init_calls C w @ [ApiUpdateTransaction i fs, ApiSync])
   \<and> (deleteTransaction C i w = (Inr r4, w') \<longrightarrow>
      calls w' = calls w @ init_calls C w @ [ApiDeleteTransaction i, ApiSync])
   \<and> (setBudgetAmount C m cat n w = (Inr r5, w') \<longrightarrow>
      calls w' = calls w @ init_calls C w @ [ApiSetBudgetAmount m cat n, ApiSync])
   \<and> (createPayee C nm w = (Inr r6, w') \<longrightarrow>
      calls w' = calls w @ init_calls C w @ [ApiCreatePayee nm, ApiSync])
   \<and> (createSchedule C sch w = (Inr r7, w') \<longrightarrow>
      calls w' = calls w @ init_calls C w @ [ApiCreateSchedule sch, ApiSync])
   \<and> (updateSchedule C i sf w = (Inr r8, w') \<longrightarrow>
      calls w' = calls w @ init_calls C w @ [ApiUpdateSchedule i sf, ApiSync])
   \<and> (deleteSchedule C i w = (Inr r9, w') \<longrightarrow>
      calls w' = calls w @ init_calls C w @ [ApiDeleteSchedule i, ApiSync])"
  by (auto simp: addTransaction_def importTransactions_def updateTransaction_def
        deleteTransaction_def setBudgetAmount_def createPayee_def createSchedule_def
        updateSchedule_def deleteSchedule_def await_Inr invoke_eq ret_eq
      dest!: ensureInitialized_Inr)


lemma getCategories_Inr:
  assumes "getCategories C w = (Inr cs, w')"
  shows "calls w' = calls w @ init_calls C w @ [ApiGetCategories]"
  using assms
  by (auto simp: getCategories_def await_Inr invoke_eq ret_eq dest!: ensureInitialized_Inr)

lemma find_category_None:
  "find_category category categories = None \<longleftrightarrow>
     (\<forall>c \<in> set categories. c_id c \<noteq> category \<and> toLowerCase (c_name c) \<noteq> toLowerCase category)"
  by (simp add: find_category_def find_by_id_or_name_None)

text \<open>
  C6. When the categories have been fetched and none of them has the token as its id or,
  up to case, as its name, \<open>set_budget_amount\<close> fails with the error
  \<open>Category not found: <token>\<close>. The state is the one left by the read of the
  categories: the calls issued are those of the initialisation (if the client was not
  initialised) and \<open>getCategories\<close>; neither \<open>setBudgetAmount\<close> nor \<open>sync\<close> is among
  them.
\<close>

theorem C6_unresolved_category_no_write:
  assumes "getCategories C w = (Inr categories, w1)"
    and "\<forall>c \<in> set categories. c_id c \<noteq> category \<and> toLowerCase (c_name c) \<noteq> toLowerCase category"
  shows "set_budget_amount P C month category amount w
           = (Inl (Error (''Category not found: '' @ category)), w1)
         \<and> calls w1 = calls w @ init_calls C w @ [ApiGetCategories]
         \<and> ApiSync \<notin> set (init_calls C w @ [ApiGetCategories])
         \<and> ApiSetBudgetAmount m c n \<notin> set (init_calls C w @ [ApiGetCategories])"
proof -
  have "find_category category categories = None"
    using assms(2) by (simp add: find_category_None)
  then have "set_budget_amount P C month category amount w
           = (Inl (Error (''Category not found: '' @ category)), w1)"
    using assms(1) by (simp add: set_budget_amount_def Let_def await_def throw_def)
  moreover have "calls w1 = calls w @ init_calls C w @ [ApiGetCategories]"
    using assms(1) by (rule getCategories_Inr)
  ultimately show ?thesis by (simp add: init_calls_def)
qed

lemma resolve_optional_category_unresolved:
  assumes "category \<noteq> []"
    and "getCategories C w = (Inr categories, w1)"
    and "\<forall>c \<in> set categories. c_id c \<noteq> category \<and> toLowerCase (c_name c) \<noteq> toLowerCase category"
  shows "resolve_optional_category C (Some category) w = (Inr None, w1)"
  using assms
  by (simp add: resolve_optional_category_def await_def ret_def find_category_None[symmetric])

text \<open>
  C7. A non-empty category token that matches no category by id or by case-insensitive
  name aborts neither \<open>add_transaction\<close> nor \<open>update_transaction\<close>. For
  \<open>add_transaction\<close>: when the account resolves and the backend accepts the transaction
  without a category, the handler issues exactly that write and reports
  \<open>success: true\<close>. For \<open>update_transaction\<close>, independently: when the backend accepts
  the update without a category field, the handler issues exactly that write and
  reports \<open>success: true\<close>.
\<close>

theorem C7_unresolved_category_omitted:
  "(category \<noteq> []
      \<and> (\<forall>c \<in> set categories. c_id c \<noteq> category \<and> toLowerCase (c_name c) \<noteq> toLowerCase category)
      \<and> getAccounts C w = (Inr accounts, w1)
      \<and> find_account account accounts = Some foundAccount
      \<and> getCategories C w1 = (Inr categories, w2)
      \<and> addTransaction C
           \<lparr>t_id = None, t_account = a_id foundAccount, t_date = or_else date (getToday P),
            t_amount = toAmount amount, t_payee = None, t_payee_name = payee_name,
            t_category = None, t_notes = notes, t_imported_id = None, t_cleared = None\<rparr> w2
         = (Inr transactionId, w3)
      \<longrightarrow> add_transaction P C account amount payee_name (Some category) notes date w
           = (Inr (tool_result P (J_object
                [(''success'', J_bool True),
                 (''transaction_id'', J_string transactionId),
                 (''message'', J_string (''Transaction added: '' @ Number_toString P \<bar>amount\<bar> @ '' ''
                    @ (if amount < 0 then ''expense'' else ''income'') @ '' to ''
                    @ a_name foundAccount))])), w3))
   \<and> (category' \<noteq> []
      \<and> (\<forall>c \<in> set categories'.
            c_id c \<noteq> category' \<and> toLowerCase (c_name c) \<noteq> toLowerCase category')
      \<and> getCategories C' v = (Inr categories', v1)
      \<and> updateTransaction C' ident
           \<lparr>f_id = None, f_account = None, f_date = date', f_amount = map_option toAmount amount',
            f_payee = None, f_payee_name = payee_name', f_category = None, f_notes = notes',
            f_imported_id = None, f_cleared = cleared\<rparr> v1
         = (Inr (), v2)
      \<longrightarrow> update_transaction P' C' ident amount' (Some category') payee_name' notes' date' cleared v
           = (Inr (tool_result P' (J_object
                [(''success'', J_bool True),
                 (''message'', J_string (''Transaction '' @ ident @ '' updated successfully''))])), v2))"
proof (intro conjI impI)
  assume a: "category \<noteq> []
      \<and> (\<forall>c \<in> set categories. c_id c \<noteq> category \<and> toLowerCase (c_name c) \<noteq> toLowerCase category)
      \<and> getAccounts C w = (Inr accounts, w1)
      \<and> find_account account accounts = Some foundAccount
      \<and> getCategories C w1 = (Inr categories, w2)
      \<and> addTransaction C
           \<lparr>t_id = None, t_account = a_id foundAccount, t_date = or_else date (getToday P),
            t_amount = toAmount amount, t_payee = None, t_payee_name = payee_name,
            t_category = None, t_notes = notes, t_imported_id = None, t_cleared = None\<rparr> w2
         = (Inr transactionId, w3)"
  then have "category \<noteq> []" and "getCategories C w1 = (Inr categories, w2)"
    and "\<forall>c \<in> set categories. c_id c \<noteq> category \<and> toLowerCase (c_name c) \<noteq> toLowerCase category"
    by simp_all
  then have r: "resolve_optional_category C (Some category) w1 = (Inr None, w2)"
    by (rule resolve_optional_category_unresolved)
  show "add_transaction P C account amount payee_name (Some category) notes date w
           = (Inr (tool_result P (J_object
                [(''success'', J_bool True),
                 (''transaction_id'', J_string transactionId),
                 (''message'', J_string (''Transaction added: '' @ Number_toString P \<bar>amount\<bar> @ '' ''
                    @ (if amount < 0 then ''expense'' else ''income'') @ '' to ''
                    @ a_name foundAccount))])), w3)"
    using a r by (simp add: add_transaction_def await_def ret_def)
next
  assume a: "category' \<noteq> []
      \<and> (\<forall>c \<in> set categories'.
            c_id c \<noteq> category' \<and> toLowerCase (c_name c) \<noteq> toLowerCase category')
      \<and> getCategories C' v = (Inr categories', v1)
      \<and> updateTransaction C' ident
           \<lparr>f_id = None, f_account = None, f_date = date', f_amount = map_option toAmount amount',
            f_payee = None, f_payee_name = payee_name', f_category = None, f_notes = notes',
            f_imported_id = None, f_cleared = cleared\<rparr> v1
         = (Inr (), v2)"
  then have none: "find_category category' categories' = None"
    by (simp add: find_category_None)
  show "update_transaction P' C' ident amount' (Some category') payee_name' notes' date' cleared v
           = (Inr (tool_result P' (J_object
                [(''success'', J_bool True),
                 (''message'', J_string (''Transaction '' @ ident @ '' updated successfully''))])), v2)"
    using a none
    by (cases amount'; cases payee_name'; cases notes'; cases date'; cases cleared)
       (simp_all add: update_transaction_def Let_def await_def ret_def no_fields_def)
qed


text \<open>A run of C6 on the sample ledger, from a client that is not yet initialised.\<close>

theorem C6_unresolved_category_no_write_witness:
  "set_budget_amount sample_platform sample_client None ''Travel'' 50 fresh
     = (Inl (Error ''Category not found: Travel''),
        \<lparr>initialized = True,
          calls = [ApiInit ''http://localhost:5006'' ''secret'' ''/tmp/actual-data'',
                   ApiDownloadBudget ''b-1'' None, ApiGetCategories]\<rparr>)"
proof -
  have h1: "getCategories sample_client fresh
     = (Inr sample_categories,
        \<lparr>initialized = True,
          calls = [ApiInit ''http://localhost:5006'' ''secret'' ''/tmp/actual-data'',
                   ApiDownloadBudget ''b-1'' None, ApiGetCategories]\<rparr>)"
    by (simp add: getCategories_def run_defs sample_defs)
  have h2: "\<forall>c \<in> set sample_categories.
              c_id c \<noteq> ''Travel'' \<and> toLowerCase (c_name c) \<noteq> toLowerCase ''Travel''"
    by (simp add: sample_categories_def toLowerCase_def lower_char_def)
  from C6_unresolved_category_no_write[OF h1 h2] show ?thesis by simp
qed


text \<open>A run of C7 on the sample ledger with the unknown category \<open>Travel\<close>.\<close>

theorem C7_unresolved_category_omitted_witness:
  "add_transaction sample_platform sample_client ''checking'' (- 35) (Some ''Costco'')
       (Some ''Travel'') None None ready
     = (Inr (tool_result sample_platform (J_object
          [(''success'', J_bool True),
           (''transaction_id'', J_string ''tx_new''),
           (''message'', J_string ''Transaction added: # expense to Checking'')])),
        \<lparr>initialized = True,
          calls = [ApiGetAccounts, ApiGetCategories,
                   ApiImportTransactions ''acc_1''
                     [\<lparr>t_id = None, t_account = ''acc_1'', t_date = ''2024-03-15'',
                       t_amount = toAmount (- 35), t_payee = None, t_payee_name = Some ''Costco'',
                       t_category = None, t_notes = None, t_imported_id = None,
                       t_cleared = None\<rparr>],
                   ApiSync]\<rparr>)
   \<and> update_transaction sample_platform sample_client ''t1'' None (Some ''Travel'') None
       (Some ''weekly shop'') None None ready
     = (Inr (tool_result sample_platform (J_object
          [(''success'', J_bool True),
           (''message'', J_string ''Transaction t1 updated successfully'')])),
        \<lparr>initialized = True,
          calls = [ApiGetCategories,
                   ApiUpdateTransaction ''t1''
                     \<lparr>f_id = None, f_account = None, f_date = None, f_amount = None,
                      f_payee = None, f_payee_name = None, f_category = None,
                      f_notes = Some ''weekly shop'', f_imported_id = None, f_cleared = None\<rparr>,
                   ApiSync]\<rparr>)"
proof -
  have h1: "''Travel'' \<noteq> []" by simp
  have h2: "\<forall>c \<in> set sample_categories.
              c_id c \<noteq> ''Travel'' \<and> toLowerCase (c_name c) \<noteq> toLowerCase ''Travel''"
    by (simp add: sample_categories_def toLowerCase_def lower_char_def)
  have h3: "getAccounts sample_client ready
              = (Inr sample_accounts, \<lparr>initialized = True, calls = [ApiGetAccounts]\<rparr>)"
    by (simp add: getAccounts_def run_defs sample_defs)
  have h4: "find_account ''checking'' sample_accounts
              = Some \<lparr>a_id = ''acc_1'', a_name = ''Checking'', a_offbudget = None, a_closed = None\<rparr>"
    by (simp add: find_account_def find_by_id_or_name_def sample_accounts_def toLowerCase_def
          lower_char_def)
  have h5: "getCategories sample_client \<lparr>initialized = True, calls = [ApiGetAccounts]\<rparr>
              = (Inr sample_categories,
                 \<lparr>initialized = True, calls = [ApiGetAccounts, ApiGetCategories]\<rparr>)"
    by (simp add: getCategories_def run_defs sample_defs)
  have h6: "addTransaction sample_client
           \<lparr>t_id = None,
            t_account = a_id \<lparr>a_id = ''acc_1'', a_name = ''Checking'', a_offbudget = None, a_closed = None\<rparr>,
            t_date = or_else None (getToday sample_platform),
            t_amount = toAmount (- 35), t_payee = None, t_payee_name = Some ''Costco'',
            t_category = None, t_notes = None, t_imported_id = None, t_cleared = None\<rparr>
           \<lparr>initialized = True, calls = [ApiGetAccounts, ApiGetCategories]\<rparr>
         = (Inr ''tx_new'',
            \<lparr>initialized = True,
              calls = [ApiGetAccounts, ApiGetCategories,
                   ApiImportTransactions ''acc_1''
                     [\<lparr>t_id = None, t_account = ''acc_1'', t_date = ''2024-03-15'',
                       t_amount = toAmount (- 35), t_payee = None, t_payee_name = Some ''Costco'',
                       t_category = None, t_notes = None, t_imported_id = None,
                       t_cleared = None\<rparr>],
                   ApiSync]\<rparr>)"
    by (simp add: addTransaction_def run_defs sample_defs)
  have h7: "getCategories sample_client ready
              = (Inr sample_categories, \<lparr>initialized = True, calls = [ApiGetCategories]\<rparr>)"
    by (simp add: getCategories_def run_defs sample_defs)
  have h8: "updateTransaction sample_client ''t1''
           \<lparr>f_id = None, f_account = None, f_date = None, f_amount = map_option toAmount None,
            f_payee = None, f_payee_name = None, f_category = None, f_notes = Some ''weekly shop'',
            f_imported_id = None, f_cleared = None\<rparr>
           \<lparr>initialized = True, calls = [ApiGetCategories]\<rparr>
         = (Inr (),
            \<lparr>initialized = True,
              calls = [ApiGetCategories,
                   ApiUpdateTransaction ''t1''
                     \<lparr>f_id = None, f_account = None, f_date = None, f_amount = None,
                      f_payee = None, f_payee_name = None, f_category = None,
                      f_notes = Some ''weekly shop'', f_imported_id = None, f_cleared = None\<rparr>,
                   ApiSync]\<rparr>)"
    by (simp add: updateTransaction_def run_defs sample_defs)
  from C7_unresolved_category_omitted[THEN conjunct1, rule_format, OF conjI[OF h1 conjI[OF h2
           conjI[OF h3 conjI[OF h4 conjI[OF h5 h6]]]]]]
       C7_unresolved_category_omitted[THEN conjunct2, rule_format, OF conjI[OF h1 conjI[OF h2
           conjI[OF h7 h8]]]]
  show ?thesis
    by (simp add: sample_platform_def)
qed


text \<open>
  C10. When the import answers with an empty \<open>added\<close> list (and the following sync
  succeeds), \<open>addTransaction\<close> returns the string \<open>unknown\<close>, and \<open>add_transaction\<close>
  reports \<open>success: true\<close> with \<open>transaction_id: unknown\<close>.
\<close>

theorem C10_no_added_id_unknown:
  assumes "getAccounts C w0 = (Inr accounts, wa)"
    and "find_account account accounts = Some foundAccount"
    and "resolve_optional_category C category wa = (Inr categoryId, w)"
    and "t = \<lparr>t_id = None, t_account = a_id foundAccount, t_date = or_else date (getToday P),
              t_amount = toAmount amount, t_payee = None, t_payee_name = payee_name,
              t_category = categoryId, t_notes = notes, t_imported_id = None, t_cleared = None\<rparr>"
    and "ensureInitialized C w = (Inr (), w1)"
    and "api_importTransactions (api C) (calls w1) (t_account t)
           [t\<lparr>t_id := None, t_imported_id := None\<rparr>] = Inr result"
    and "added result = []"
    and "api_sync (api C)
           (calls w1 @ [ApiImportTransactions (t_account t) [t\<lparr>t_id := None, t_imported_id := None\<rparr>]])
         = Inr ()"
  shows "addTransaction C t w
           = (Inr ''unknown'',
              w1\<lparr>calls := calls w1
                   @ [ApiImportTransactions (t_account t) [t\<lparr>t_id := None, t_imported_id := None\<rparr>],
                      ApiSync]\<rparr>)
         \<and> add_transaction P C account amount payee_name category notes date w0
           = (Inr (tool_result P (J_object
                [(''success'', J_bool True),
                 (''transaction_id'', J_string ''unknown''),
                 (''message'', J_string (''Transaction added: '' @ Number_toString P \<bar>amount\<bar> @ '' ''
                    @ (if amount < 0 then ''expense'' else ''income'') @ '' to ''
                    @ a_name foundAccount))])),
              w1\<lparr>calls := calls w1
                   @ [ApiImportTransactions (t_account t) [t\<lparr>t_id := None, t_imported_id := None\<rparr>],
                      ApiSync]\<rparr>)"
proof -
  have a: "addTransaction C t w
           = (Inr ''unknown'',
              w1\<lparr>calls := calls w1
                   @ [ApiImportTransactions (t_account t) [t\<lparr>t_id := None, t_imported_id := None\<rparr>],
                      ApiSync]\<rparr>)"
    using assms(5-8) by (simp add: addTransaction_def await_def invoke_def ret_def)
  then show ?thesis
    using assms(1-3) unfolding assms(4)
    by (simp add: add_transaction_def await_def ret_def)
qed

text \<open>A run of C10 against a backend whose import reports no added id.\<close>

theorem C10_no_added_id_unknown_witness:
  "addTransaction no_id_client
     \<lparr>t_id = None, t_account = ''acc_1'', t_date = ''2024-03-15'', t_amount = toAmount 20,
      t_payee = None, t_payee_name = None, t_category = None, t_notes = None,
      t_imported_id = None, t_cleared = None\<rparr>
     \<lparr>initialized = True, calls = [ApiGetAccounts]\<rparr>
     = (Inr ''unknown'',
        \<lparr>initialized = True,
          calls = [ApiGetAccounts,
                   ApiImportTransactions ''acc_1''
                     [\<lparr>t_id = None, t_account = ''acc_1'', t_date = ''2024-03-15'',
                       t_amount = toAmount 20, t_payee = None, t_payee_name = None,
                       t_category = None, t_notes = None, t_imported_id = None,
                       t_cleared = None\<rparr>],
                   ApiSync]\<rparr>)
   \<and> add_transaction sample_platform no_id_client ''acc_1'' 20 None None None None ready
     = (Inr (tool_result sample_platform (J_object
          [(''success'', J_bool True),
           (''transaction_id'', J_string ''unknown''),
           (''message'', J_string ''Transaction added: # income to Checking'')])),
        \<lparr>initialized = True,
          calls = [ApiGetAccounts,
                   ApiImportTransactions ''acc_1''
                     [\<lparr>t_id = None, t_account = ''acc_1'', t_date = ''2024-03-15'',
                       t_amount = toAmount 20, t_payee = None, t_payee_name = None,
                       t_category = None, t_notes = None, t_imported_id = None,
                       t_cleared = None\<rparr>],
                   ApiSync]\<rparr>)"
proof -
  let ?wa = "\<lparr>initialized = True, calls = [ApiGetAccounts]\<rparr>"
  let ?t = "\<lparr>t_id = None,
      t_account = a_id \<lparr>a_id = ''acc_1'', a_name = ''Checking'', a_offbudget = None, a_closed = None\<rparr>,
      t_date = or_else None (getToday sample_platform), t_amount = toAmount 20,
      t_payee = None, t_payee_name = None, t_category = None, t_notes = None,
      t_imported_id = None, t_cleared = None\<rparr>"
  have h1: "getAccounts no_id_client ready = (Inr sample_accounts, ?wa)"
    by (simp add: getAccounts_def run_defs sample_defs no_id_client_def)
  have h2: "find_account ''acc_1'' sample_accounts
              = Some \<lparr>a_id = ''acc_1'', a_name = ''Checking'', a_offbudget = None, a_closed = None\<rparr>"
    by (simp add: find_account_def find_by_id_or_name_def sample_accounts_def)
  have h3: "resolve_optional_category no_id_client None ?wa = (Inr None, ?wa)"
    by (simp add: resolve_optional_category_def ret_def)
  have h4: "?t = ?t" ..
  have h5: "ensureInitialized no_id_client ?wa = (Inr (), ?wa)"
    by (simp add: ensureInitialized_def)
  have h6: "api_importTransactions (api no_id_client) (calls ?wa) (t_account ?t)
              [?t\<lparr>t_id := None, t_imported_id := None\<rparr>]
            = Inr \<lparr>added = [], updated = [''tx_old'']\<rparr>"
    by (simp add: no_id_client_def)
  have h7: "added \<lparr>added = [], updated = [''tx_old'']\<rparr> = []" by simp
  have h8: "api_sync (api no_id_client)
              (calls ?wa @ [ApiImportTransactions (t_account ?t) [?t\<lparr>t_id := None, t_imported_id := None\<rparr>]])
            = Inr ()"
    by (simp add: no_id_client_def sample_defs)
  from C10_no_added_id_unknown[OF h1 h2 h3 h4 h5 h6 h7 h8] show ?thesis
    by (simp add: sample_platform_def)
qed

text \<open>The nine operations of C8 on the sample ledger.\<close>

theorem C8_mutation_then_sync_witness:
  "calls (snd (addTransaction sample_client (sample_transaction ''t9'' ''2024-03-15'' 100 ''pay_1'' ''cat_1'') fresh))
     = [ApiInit ''http://localhost:5006'' ''secret'' ''/tmp/actual-data'',
        ApiDownloadBudget ''b-1'' None,
        ApiImportTransactions ''acc_1''
          [(sample_transaction ''t9'' ''2024-03-15'' 100 ''pay_1'' ''cat_1'')\<lparr>t_id := None\<rparr>],
        ApiSync]
   \<and> calls (snd (importTransactions sample_client ''acc_2'' [] ready))
     = [ApiImportTransactions ''acc_2'' [], ApiSync]
   \<and> calls (snd (updateTransaction sample_client ''t1'' no_fields ready))
     = [ApiUpdateTransaction ''t1'' no_fields, ApiSync]
   \<and> calls (snd (deleteTransaction sample_client ''t1'' ready))
     = [ApiDeleteTransaction ''t1'', ApiSync]
   \<and> calls (snd (setBudgetAmount sample_client ''2024-03'' ''cat_1'' 5000 ready))
     = [ApiSetBudgetAmount ''2024-03'' ''cat_1'' 5000, ApiSync]
   \<and> calls (snd (createPayee sample_client ''Bakery'' ready))
     = [ApiCreatePayee ''Bakery'', ApiSync]
   \<and> calls (snd (createSchedule sample_client
        \<lparr>cs_name = None, cs_posts_transaction = None, cs_payee = None, cs_account = None,
         cs_amount = None, cs_amountOp = None, cs_date = Some (DateString ''2024-04-01'')\<rparr> ready))
     = [ApiCreateSchedule
          \<lparr>cs_name = None, cs_posts_transaction = None, cs_payee = None, cs_account = None,
           cs_amount = None, cs_amountOp = None, cs_date = Some (DateString ''2024-04-01'')\<rparr>,
        ApiSync]
   \<and> calls (snd (updateSchedule sample_client ''sch_1''
        \<lparr>cs_name = Some ''Rent'', cs_posts_transaction = None, cs_payee = None, cs_account = None,
         cs_amount = None, cs_amountOp = None, cs_date = None\<rparr> ready))
     = [ApiUpdateSchedule ''sch_1''
          \<lparr>cs_name = Some ''Rent'', cs_posts_transaction = None, cs_payee = None, cs_account = None,
           cs_amount = None, cs_amountOp = None, cs_date = None\<rparr>,
        ApiSync]
   \<and> calls (snd (deleteSchedule sample_client ''sch_1'' ready))
     = [ApiDeleteSchedule ''sch_1'', ApiSync]"
proof -
  let ?t = "sample_transaction ''t9'' ''2024-03-15'' 100 ''pay_1'' ''cat_1''"
  let ?s = "\<lparr>cs_name = None, cs_posts_transaction = None, cs_payee = None, cs_account = None,
         cs_amount = None, cs_amountOp = None, cs_date = Some (DateString ''2024-04-01'')\<rparr>"
  let ?u = "\<lparr>cs_name = Some ''Rent'', cs_posts_transaction = None, cs_payee = None, cs_account = None,
         cs_amount = None, cs_amountOp = None, cs_date = None\<rparr>"
  have e1: "addTransaction sample_client ?t fresh
              = (Inr ''tx_new'', snd (addTransaction sample_client ?t fresh))"
    by (simp add: addTransaction_def run_defs sample_defs)
  have e2: "importTransactions sample_client ''acc_2'' [] ready
              = (Inr \<lparr>added = [''tx_new''], updated = []\<rparr>,
                 snd (importTransactions sample_client ''acc_2'' [] ready))"
    by (simp add: importTransactions_def run_defs sample_defs)
  have e3: "updateTransaction sample_client ''t1'' no_fields ready
              = (Inr (), snd (updateTransaction sample_client ''t1'' no_fields ready))"
    by (simp add: updateTransaction_def run_defs sample_defs)
  have e4: "deleteTransaction sample_client ''t1'' ready
              = (Inr (), snd (deleteTransaction sample_client ''t1'' ready))"
    by (simp add: deleteTransaction_def run_defs sample_defs)
  have e5: "setBudgetAmount sample_client ''2024-03'' ''cat_1'' 5000 ready
              = (Inr (), snd (setBudgetAmount sample_client ''2024-03'' ''cat_1'' 5000 ready))"
    by (simp add: setBudgetAmount_def run_defs sample_defs)
  have e6: "createPayee sample_client ''Bakery'' ready
              = (Inr ''pay_new'', snd (createPayee sample_client ''Bakery'' ready))"
    by (simp add: createPayee_def run_defs sample_defs)
  have e7: "createSchedule sample_client ?s ready
              = (Inr ''sch_new'', snd (createSchedule sample_client ?s ready))"
    by (simp add: createSchedule_def run_defs sample_defs)
  have e8: "updateSchedule sample_client ''sch_1'' ?u ready
              = (Inr (), snd (updateSchedule sample_client ''sch_1'' ?u ready))"
    by (simp add: updateSchedule_def run_defs sample_defs)
  have e9: "deleteSchedule sample_client ''sch_1'' ready
              = (Inr (), snd (deleteSchedule sample_client ''sch_1'' ready))"
    by (simp add: deleteSchedule_def run_defs sample_defs)
  note c = C8_mutation_then_sync[THEN conjunct1, rule_format, OF e1]
    C8_mutation_then_sync[THEN conjunct2, THEN conjunct1, rule_format, OF e2]
    C8_mutation_then_sync[THEN conjunct2, THEN conjunct2, THEN conjunct1, rule_format, OF e3]
    C8_mutation_then_sync[THEN conjunct2, THEN conjunct2, THEN conjunct2, THEN conjunct1, rule_format, OF e4]
    C8_mutation_then_sync[THEN conjunct2, THEN conjunct2, THEN conjunct2, THEN conjunct2, THEN conjunct1,
       rule_format, OF e5]
    C8_mutation_then_sync[THEN conjunct2, THEN conjunct2, THEN conjunct2, THEN conjunct2, THEN conjunct2,
       THEN conjunct1, rule_format, OF e6]
    C8_mutation_then_sync[THEN conjunct2, THEN conjunct2, THEN conjunct2, THEN conjunct2, THEN conjunct2,
       THEN conjunct2, THEN conjunct1, rule_format, OF e7]
    C8_mutation_then_sync[THEN conjunct2, THEN conjunct2, THEN conjunct2, THEN conjunct2, THEN conjunct2,
       THEN conjunct2, THEN conjunct2, THEN conjunct1, rule_format, OF e8]
    C8_mutation_then_sync[THEN conjunct2, THEN conjunct2, THEN conjunct2, THEN conjunct2, THEN conjunct2,
       THEN conjunct2, THEN conjunct2, THEN conjunct2, rule_format, OF e9]
  show ?thesis
    using c by (simp add: init_calls_def sample_defs sample_transaction_def)
qed

section \<open>Properties of the aggregations\<close>

lemma sum_list_nonneg_int:
  fixes xs :: "int list"
  shows "\<forall>x \<in> set xs. 0 \<le> x \<Longrightarrow> 0 \<le> sum_list xs"
  by (induction xs) simp_all

lemma member_le_sum_list_int:
  fixes xs :: "int list"
  shows "\<forall>x \<in> set xs. 0 \<le> x \<Longrightarrow> y \<in> set xs \<Longrightarrow> y \<le> sum_list xs"
proof (induction xs)
  case Nil
  then show ?case by simp
next
  case (Cons x xs)
  have "0 \<le> sum_list xs" using Cons.prems(1) by (intro sum_list_nonneg_int) simp
  with Cons show ?case by auto
qed

lemma foldl_add64_exact:
  assumes "0 \<le> a" "\<forall>x \<in> set xs. 0 \<le> f x" "a + sum_list (map f xs) < 2 ^ 53"
  shows "foldl (\<lambda>s c. add64 s (f c)) a xs = a + sum_list (map f xs)"
  using assms
proof (induction xs arbitrary: a)
  case Nil
  then show ?case by simp
next
  case (Cons x xs)
  have rest: "0 \<le> sum_list (map f xs)"
    using Cons.prems(2) by (intro sum_list_nonneg_int) simp
  have fx: "0 \<le> f x" using Cons.prems(2) by simp
  have "\<bar>a + f x\<bar> < 2 ^ 53" using Cons.prems(1,3) rest fx by simp
  then have step: "add64 a (f x) = a + f x" by (rule add64_exact)
  have "foldl (\<lambda>s c. add64 s (f c)) (a + f x) xs = (a + f x) + sum_list (map f xs)"
    using Cons.prems fx by (intro Cons.IH) simp_all
  then show ?case by (simp add: step)
qed

lemma groupSpent_exact:
  assumes "(\<Sum>c\<leftarrow>gb_categories g. \<bar>cb_spent c\<bar>) < 2 ^ 53"
  shows "groupSpent g = (\<Sum>c\<leftarrow>gb_categories g. \<bar>cb_spent c\<bar>)"
  using foldl_add64_exact[of 0 "gb_categories g" "\<lambda>c. \<bar>cb_spent c\<bar>"] assms
  by (simp add: groupSpent_def)

lemma rollup_groups_foldl:
  "foldl (\<lambda>(totalSpent, groups) g. (add64 totalSpent (groupSpent g), groups @ [group_out g]))
     (a, out) gs
   = (foldl (\<lambda>s g. add64 s (groupSpent g)) a gs, out @ map group_out gs)"
  by (induction gs arbitrary: a out) simp_all

lemma groupSpent_ignores_spent: "groupSpent (g\<lparr>gb_spent := x\<rparr>) = groupSpent g"
  by (simp add: groupSpent_def)

lemma groupSpent_exact_each:
  fixes gs :: "CategoryGroupBudget list"
  assumes "(\<Sum>g\<leftarrow>gs. \<Sum>c\<leftarrow>gb_categories g. \<bar>cb_spent c\<bar>) < 2 ^ 53" and "g \<in> set gs"
  shows "groupSpent g = (\<Sum>c\<leftarrow>gb_categories g. \<bar>cb_spent c\<bar>)"
proof -
  let ?s = "\<lambda>g. \<Sum>c\<leftarrow>gb_categories g. \<bar>cb_spent c\<bar>"
  have "\<And>h. 0 \<le> ?s h" by (rule sum_list_nonneg_int) simp
  then have nn: "\<forall>x \<in> set (map ?s gs). 0 \<le> x" by auto
  have "?s g \<in> set (map ?s gs)" using assms(2) by (rule imageI[of g "set gs" ?s, simplified set_map[symmetric]])
  then have "?s g \<le> sum_list (map ?s gs)" using nn by (intro member_le_sum_list_int)
  then have "?s g < 2 ^ 53" using assms(1) by linarith
  then show ?thesis by (rule groupSpent_exact)
qed

lemma map_groupSpent_exact:
  fixes gs :: "CategoryGroupBudget list"
  assumes "(\<Sum>g\<leftarrow>gs. \<Sum>c\<leftarrow>gb_categories g. \<bar>cb_spent c\<bar>) < 2 ^ 53"
  shows "map groupSpent gs = map (\<lambda>g. \<Sum>c\<leftarrow>gb_categories g. \<bar>cb_spent c\<bar>) gs"
  by (rule map_cong[OF refl]) (rule groupSpent_exact_each[OF assms])

lemma rollup_groups_exact:
  fixes gs :: "CategoryGroupBudget list"
  assumes "(\<Sum>g\<leftarrow>gs. \<Sum>c\<leftarrow>gb_categories g. \<bar>cb_spent c\<bar>) < 2 ^ 53"
  shows "rollup_groups gs
           = (\<Sum>g\<leftarrow>gs. \<Sum>c\<leftarrow>gb_categories g. \<bar>cb_spent c\<bar>, map group_out gs)"
proof -
  let ?s = "\<lambda>g. \<Sum>c\<leftarrow>gb_categories g. \<bar>cb_spent c\<bar>"
  have m: "map groupSpent gs = map ?s gs" by (rule map_groupSpent_exact[OF assms])
  have "foldl (\<lambda>s g. add64 s (groupSpent g)) 0 gs = 0 + sum_list (map groupSpent gs)"
  proof (rule foldl_add64_exact)
    show "(0::int) \<le> 0" by simp
    show "\<forall>x \<in> set gs. 0 \<le> groupSpent x"
    proof
      fix x assume "x \<in> set gs"
      then have "groupSpent x = ?s x" by (rule groupSpent_exact_each[OF assms])
      moreover have "0 \<le> ?s x" by (rule sum_list_nonneg_int) simp
      ultimately show "0 \<le> groupSpent x" by simp
    qed
    show "0 + sum_list (map groupSpent gs) < 2 ^ 53" using assms by (simp only: m add_0)
  qed
  then have "foldl (\<lambda>s g. add64 s (groupSpent g)) 0 gs = sum_list (map ?s gs)"
    by (simp only: m add_0)
  then show ?thesis
    by (simp only: rollup_groups_def rollup_groups_foldl append_Nil)
qed

lemma fromAmount_800: "fromAmount 800 = 8"
  by code_simp

lemma add64_big_zero: "add64 0 9007199254740992 = 9007199254740992"
proof -
  have "fl 9007199254740992
          = of_int (round_ties_even (9007199254740992 / 2 powi (53 - 52))) * 2 powi (53 - 52)"
    by (rule fl_eval) simp_all
  moreover have "round_ties_even (9007199254740992 / 2 powi (53 - 52)) = 4503599627370496"
    by code_simp
  ultimately have "fl 9007199254740992 = 9007199254740992" by simp
  then show ?thesis by (simp add: add64_def)
qed

lemma add64_big_one: "add64 9007199254740992 1 = 9007199254740992"
proof -
  have "fl 9007199254740993
          = of_int (round_ties_even (9007199254740993 / 2 powi (53 - 52))) * 2 powi (53 - 52)"
    by (rule fl_eval) simp_all
  moreover have "round_ties_even (9007199254740993 / 2 powi (53 - 52)) = 4503599627370496"
    by code_simp
  ultimately have "fl 9007199254740993 = 9007199254740992" by simp
  then show ?thesis by (simp add: add64_def)
qed

lemma fromAmount_2_53: "fromAmount 9007199254740992 = 5764607523034235 / 64"
proof -
  have "fl (9007199254740992 / 100)
          = of_int (round_ties_even (9007199254740992 / 100 / 2 powi (46 - 52))) * 2 powi (46 - 52)"
    by (rule fl_eval) simp_all
  moreover have "round_ties_even (9007199254740992 / 100 / 2 powi (46 - 52)) = 5764607523034235"
    by code_simp
  ultimately have "fl (9007199254740992 / 100) = 5764607523034235 / 64" by simp
  then show ?thesis by (simp only: fromAmount_def of_int_numeral)
qed

lemma fromAmount_2_53_plus_2: "fromAmount 9007199254740994 = 5764607523034236 / 64"
proof -
  have "fl (9007199254740994 / 100)
          = of_int (round_ties_even (9007199254740994 / 100 / 2 powi (46 - 52))) * 2 powi (46 - 52)"
    by (rule fl_eval) simp_all
  moreover have "round_ties_even (9007199254740994 / 100 / 2 powi (46 - 52)) = 5764607523034236"
    by code_simp
  ultimately have "fl (9007199254740994 / 100) = 5764607523034236 / 64" by simp
  then show ?thesis by (simp only: fromAmount_def of_int_numeral)
qed

lemma get_budget_month_Inr:
  assumes "getBudgetMonth C (or_else month (getCurrentMonth P)) w = (Inr budget, w')"
  shows "get_budget_month P C month w
           = (Inr (tool_result P (budget_month_json
                (budget_month_output (or_else month (getCurrentMonth P)) budget))), w')"
  using assms by (simp add: get_budget_month_def Let_def await_def ret_def)

lemma budget_month_json_exact:
  assumes "(\<Sum>g\<leftarrow>bm_categoryGroups budget. \<Sum>c\<leftarrow>gb_categories g. \<bar>cb_spent c\<bar>) < 2 ^ 53"
  shows "budget_month_json (budget_month_output targetMonth budget)
     = J_object
         [(''month'', J_string targetMonth),
          (''to_budget'', J_number (fromAmount (bm_toBudget budget))),
          (''total_budgeted'', J_number (fromAmount (bm_totalBudgeted budget))),
          (''total_spent'', J_number (fromAmount
             (\<Sum>g\<leftarrow>bm_categoryGroups budget. \<Sum>c\<leftarrow>gb_categories g. \<bar>cb_spent c\<bar>))),
          (''category_groups'', J_array (map (\<lambda>g.
             J_object
               [(''name'', J_string (gb_name g)),
                (''budgeted'', J_number (fromAmount (gb_budgeted g))),
                (''spent'', J_number (fromAmount (\<Sum>c\<leftarrow>gb_categories g. \<bar>cb_spent c\<bar>))),
                (''balance'', J_number (fromAmount (gb_balance g))),
                (''categories'', J_array (map (\<lambda>c.
                   J_object
                     [(''name'', J_string (cb_name c)),
                      (''budgeted'', J_number (fromAmount (cb_budgeted c))),
                      (''spent'', J_number (fromAmount \<bar>cb_spent c\<bar>)),
                      (''balance'', J_number (fromAmount (cb_balance c)))]) (gb_categories g)))])
             (bm_categoryGroups budget)))]"
proof -
  have each: "groupSpent g = (\<Sum>c\<leftarrow>gb_categories g. \<bar>cb_spent c\<bar>)"
    if "g \<in> set (bm_categoryGroups budget)" for g
    using assms that by (rule groupSpent_exact_each)
  show ?thesis
    by (simp add: budget_month_json_def budget_month_output_def rollup_groups_exact[OF assms]
          group_out_def o_def each cong: map_cong)
qed

text \<open>
  C3 (counterexample). For the sample budget, whose only group has the category values
  \<open>- 500\<close> and \<open>- 300\<close>, the reported \<open>spent\<close> of the group and the reported
  \<open>total_spent\<close> are 8, the currency value of 800 minor units, and not the sum 800.
  And for a group with the category values \<open>- 2 ^ 53\<close>, \<open>- 1\<close> and \<open>- 1\<close> the
  additions of the handler, which are additions of binary64 numbers, give \<open>2 ^ 53\<close>:
  the reported value is the currency value of \<open>2 ^ 53\<close> and not that of the sum
  \<open>2 ^ 53 + 2\<close>.
\<close>

theorem C3_reported_spent_counterexample:
  "get_budget_month sample_platform sample_client None ready
     = (Inr (tool_result sample_platform (J_object
          [(''month'', J_string ''2024-03''),
           (''to_budget'', J_number (fromAmount 1000)),
           (''total_budgeted'', J_number (fromAmount (- 90000))),
           (''total_spent'', J_number 8),
           (''category_groups'', J_array
              [J_object
                 [(''name'', J_string ''Food''),
                  (''budgeted'', J_number (fromAmount 90000)),
                  (''spent'', J_number 8),
                  (''balance'', J_number (fromAmount 89200)),
                  (''categories'', J_array
                     [J_object
                        [(''name'', J_string ''Groceries''),
                         (''budgeted'', J_number (fromAmount 60000)),
                         (''spent'', J_number (fromAmount 500)),
                         (''balance'', J_number (fromAmount 59500))],
                      J_object
                        [(''name'', J_string ''Dining''),
                         (''budgeted'', J_number (fromAmount 30000)),
                         (''spent'', J_number (fromAmount 300)),
                         (''balance'', J_number (fromAmount 29700))]])]])])),
        \<lparr>initialized = True, calls = [ApiGetBudgetMonth ''2024-03'']\<rparr>)
   \<and> J_number 8 \<noteq> J_number (\<bar>- 500\<bar> + \<bar>- 300\<bar>)
   \<and> get_budget_month sample_platform large_client None ready
     = (Inr (tool_result sample_platform (J_object
          [(''month'', J_string ''2024-03''),
           (''to_budget'', J_number (fromAmount 0)),
           (''total_budgeted'', J_number (fromAmount 0)),
           (''total_spent'', J_number (5764607523034235 / 64)),
           (''category_groups'', J_array
              [J_object
                 [(''name'', J_string ''Food''),
                  (''budgeted'', J_number (fromAmount 0)),
                  (''spent'', J_number (5764607523034235 / 64)),
                  (''balance'', J_number (fromAmount 0)),
                  (''categories'', J_array
                     [J_object
                        [(''name'', J_string ''Groceries''),
                         (''budgeted'', J_number (fromAmount 0)),
                         (''spent'', J_number (fromAmount 9007199254740992)),
                         (''balance'', J_number (fromAmount 0))],
                      J_object
                        [(''name'', J_string ''Dining''),
                         (''budgeted'', J_number (fromAmount 0)),
                         (''spent'', J_number (fromAmount 1)),
                         (''balance'', J_number (fromAmount 0))],
                      J_object
                        [(''name'', J_string ''Snacks''),
                         (''budgeted'', J_number (fromAmount 0)),
                         (''spent'', J_number (fromAmount 1)),
                         (''balance'', J_number (fromAmount 0))]])]])])),
        \<lparr>initialized = True, calls = [ApiGetBudgetMonth ''2024-03'']\<rparr>)
   \<and> fromAmount (\<bar>- 9007199254740992\<bar> + \<bar>- 1\<bar> + \<bar>- 1\<bar>) = 5764607523034236 / 64
   \<and> J_number (5764607523034235 / 64) \<noteq> J_number (fromAmount (\<bar>- 9007199254740992\<bar> + \<bar>- 1\<bar> + \<bar>- 1\<bar>))"
proof -
  have a: "add64 0 500 = 500" "add64 500 300 = 800" "add64 0 800 = 800"
    by (simp_all add: add64_exact)
  have s: "get_budget_month sample_platform sample_client None ready
     = (Inr (tool_result sample_platform (J_object
          [(''month'', J_string ''2024-03''),
           (''to_budget'', J_number (fromAmount 1000)),
           (''total_budgeted'', J_number (fromAmount (- 90000))),
           (''total_spent'', J_number 8),
           (''category_groups'', J_array
              [J_object
                 [(''name'', J_string ''Food''),
                  (''budgeted'', J_number (fromAmount 90000)),
                  (''spent'', J_number 8),
                  (''balance'', J_number (fromAmount 89200)),
                  (''categories'', J_array
                     [J_object
                        [(''name'', J_string ''Groceries''),
                         (''budgeted'', J_number (fromAmount 60000)),
                         (''spent'', J_number (fromAmount 500)),
                         (''balance'', J_number (fromAmount 59500))],
                      J_object
                        [(''name'', J_string ''Dining''),
                         (''budgeted'', J_number (fromAmount 30000)),
                         (''spent'', J_number (fromAmount 300)),
                         (''balance'', J_number (fromAmount 29700))]])]])])),
        \<lparr>initialized = True, calls = [ApiGetBudgetMonth ''2024-03'']\<rparr>)"
    by (simp add: get_budget_month_def getBudgetMonth_def budget_month_json_def
          budget_month_output_def rollup_groups_def group_out_def groupSpent_def
          transform_group_def transform_category_def sample_budget_def
          await_def invoke_def ret_def ensureInitialized_def sample_client_def sample_api_def
          sample_platform_def ready_def a fromAmount_800 Let_def)
  have b: "add64 0 9007199254740992 = 9007199254740992"
      "add64 9007199254740992 1 = 9007199254740992"
    by (rule add64_big_zero, rule add64_big_one)
  have l: "get_budget_month sample_platform large_client None ready
     = (Inr (tool_result sample_platform (J_object
          [(''month'', J_string ''2024-03''),
           (''to_budget'', J_number (fromAmount 0)),
           (''total_budgeted'', J_number (fromAmount 0)),
           (''total_spent'', J_number (5764607523034235 / 64)),
           (''category_groups'', J_array
              [J_object
                 [(''name'', J_string ''Food''),
                  (''budgeted'', J_number (fromAmount 0)),
                  (''spent'', J_number (5764607523034235 / 64)),
                  (''balance'', J_number (fromAmount 0)),
                  (''categories'', J_array
                     [J_object
                        [(''name'', J_string ''Groceries''),
                         (''budgeted'', J_number (fromAmount 0)),
                         (''spent'', J_number (fromAmount 9007199254740992)),
                         (''balance'', J_number (fromAmount 0))],
                      J_object
                        [(''name'', J_string ''Dining''),
                         (''budgeted'', J_number (fromAmount 0)),
                         (''spent'', J_number (fromAmount 1)),
                         (''balance'', J_number (fromAmount 0))],
                      J_object
                        [(''name'', J_string ''Snacks''),
                         (''budgeted'', J_number (fromAmount 0)),
                         (''spent'', J_number (fromAmount 1)),
                         (''balance'', J_number (fromAmount 0))]])]])])),
        \<lparr>initialized = True, calls = [ApiGetBudgetMonth ''2024-03'']\<rparr>)"
    by (simp add: get_budget_month_def getBudgetMonth_def budget_month_json_def
          budget_month_output_def rollup_groups_def group_out_def groupSpent_def
          transform_group_def transform_category_def large_budget_def large_client_def
          await_def invoke_def ret_def ensureInitialized_def sample_client_def sample_api_def
          sample_platform_def ready_def b fromAmount_2_53 Let_def)
  have f: "fromAmount (\<bar>- 9007199254740992\<bar> + \<bar>- 1\<bar> + \<bar>- 1\<bar>) = 5764607523034236 / 64"
    using fromAmount_2_53_plus_2 by simp
  from s l f show ?thesis by simp
qed

text \<open>
  C3 (amended). When the sum of the absolute values of all category \<open>spent\<close> fields of
  the month is below \<open>2 ^ 53\<close> minor units, \<open>get_budget_month\<close> returns the payload in
  which the \<open>spent\<close> of every group is the currency value (\<open>fromAmount\<close>, minor units
  divided by 100) of the sum of the absolute values of the \<open>spent\<close> fields of its
  categories, and \<open>total_spent\<close> is the currency value of the sum of these group sums.
  The group-level \<open>spent\<close> of the data source is not read: a client whose budget month
  differs only in these values returns the same result.
\<close>

theorem C3_group_spent_recomputed:
  assumes "getBudgetMonth C (or_else month (getCurrentMonth P)) w = (Inr budget, w')"
    and "(\<Sum>g\<leftarrow>bm_categoryGroups budget. \<Sum>c\<leftarrow>gb_categories g. \<bar>cb_spent c\<bar>) < 2 ^ 53"
  shows "get_budget_month P C month w
     = (Inr (tool_result P (J_object
         [(''month'', J_string (or_else month (getCurrentMonth P))),
          (''to_budget'', J_number (fromAmount (bm_toBudget budget))),
          (''total_budgeted'', J_number (fromAmount (bm_totalBudgeted budget))),
          (''total_spent'', J_number (fromAmount
             (\<Sum>g\<leftarrow>bm_categoryGroups budget. \<Sum>c\<leftarrow>gb_categories g. \<bar>cb_spent c\<bar>))),
          (''category_groups'', J_array (map (\<lambda>g.
             J_object
               [(''name'', J_string (gb_name g)),
                (''budgeted'', J_number (fromAmount (gb_budgeted g))),
                (''spent'', J_number (fromAmount (\<Sum>c\<leftarrow>gb_categories g. \<bar>cb_spent c\<bar>))),
                (''balance'', J_number (fromAmount (gb_balance g))),
                (''categories'', J_array (map (\<lambda>c.
                   J_object
                     [(''name'', J_string (cb_name c)),
                      (''budgeted'', J_number (fromAmount (cb_budgeted c))),
                      (''spent'', J_number (fromAmount \<bar>cb_spent c\<bar>)),
                      (''balance'', J_number (fromAmount (cb_balance c)))]) (gb_categories g)))])
             (bm_categoryGroups budget)))])), w')
   \<and> (getBudgetMonth C' (or_else month (getCurrentMonth P)) v
        = (Inr (budget\<lparr>bm_categoryGroups :=
                   map (\<lambda>g. g\<lparr>gb_spent := raw g\<rparr>) (bm_categoryGroups budget)\<rparr>), v')
      \<longrightarrow> fst (get_budget_month P C' month v) = fst (get_budget_month P C month w))"
proof (intro conjI impI)
  show 1: "get_budget_month P C month w
     = (Inr (tool_result P (J_object
         [(''month'', J_string (or_else month (getCurrentMonth P))),
          (''to_budget'', J_number (fromAmount (bm_toBudget budget))),
          (''total_budgeted'', J_number (fromAmount (bm_totalBudgeted budget))),
          (''total_spent'', J_number (fromAmount
             (\<Sum>g\<leftarrow>bm_categoryGroups budget. \<Sum>c\<leftarrow>gb_categories g. \<bar>cb_spent c\<bar>))),
          (''category_groups'', J_array (map (\<lambda>g.
             J_object
               [(''name'', J_string (gb_name g)),
                (''budgeted'', J_number (fromAmount (gb_budgeted g))),
                (''spent'', J_number (fromAmount (\<Sum>c\<leftarrow>gb_categories g. \<bar>cb_spent c\<bar>))),
                (''balance'', J_number (fromAmount (gb_balance g))),
                (''categories'', J_array (map (\<lambda>c.
                   J_object
                     [(''name'', J_string (cb_name c)),
                      (''budgeted'', J_number (fromAmount (cb_budgeted c))),
                      (''spent'', J_number (fromAmount \<bar>cb_spent c\<bar>)),
                      (''balance'', J_number (fromAmount (cb_balance c)))]) (gb_categories g)))])
             (bm_categoryGroups budget)))])), w')"
    by (simp only: get_budget_month_Inr[OF assms(1)] budget_month_json_exact[OF assms(2)])
  let ?b = "budget\<lparr>bm_categoryGroups :=
                   map (\<lambda>g. g\<lparr>gb_spent := raw g\<rparr>) (bm_categoryGroups budget)\<rparr>"
  assume r: "getBudgetMonth C' (or_else month (getCurrentMonth P)) v = (Inr ?b, v')"
  have bound: "(\<Sum>g\<leftarrow>bm_categoryGroups ?b. \<Sum>c\<leftarrow>gb_categories g. \<bar>cb_spent c\<bar>) < 2 ^ 53"
    using assms(2) by (simp add: o_def)
  have "fst (get_budget_month P C' month v)
          = Inr (tool_result P (budget_month_json
                  (budget_month_output (or_else month (getCurrentMonth P)) ?b)))"
    by (simp only: get_budget_month_Inr[OF r] fst_conv)
  also have "budget_month_json (budget_month_output (or_else month (getCurrentMonth P)) ?b)
          = budget_month_json (budget_month_output (or_else month (getCurrentMonth P)) budget)"
    by (simp add: budget_month_json_exact[OF bound] budget_month_json_exact[OF assms(2)] o_def)
  also have "Inr (tool_result P (budget_month_json
                  (budget_month_output (or_else month (getCurrentMonth P)) budget)))
          = fst (get_budget_month P C month w)"
    by (simp only: get_budget_month_Inr[OF assms(1)] fst_conv)
  finally show "fst (get_budget_month P C' month v) = fst (get_budget_month P C month w)" .
qed

text \<open>
  The sample budget, read through the sample client and through the client whose
  backend reports another group-level value.
\<close>

theorem C3_group_spent_recomputed_witness:
  "get_budget_month sample_platform sample_client None ready
     = (Inr (tool_result sample_platform (J_object
          [(''month'', J_string ''2024-03''),
           (''to_budget'', J_number (fromAmount 1000)),
           (''total_budgeted'', J_number (fromAmount (- 90000))),
           (''total_spent'', J_number (fromAmount 800)),
           (''category_groups'', J_array
              [J_object
                 [(''name'', J_string ''Food''),
                  (''budgeted'', J_number (fromAmount 90000)),
                  (''spent'', J_number (fromAmount 800)),
                  (''balance'', J_number (fromAmount 89200)),
                  (''categories'', J_array
                     [J_object
                        [(''name'', J_string ''Groceries''),
                         (''budgeted'', J_number (fromAmount 60000)),
                         (''spent'', J_number (fromAmount 500)),
                         (''balance'', J_number (fromAmount 59500))],
                      J_object
                        [(''name'', J_string ''Dining''),
                         (''budgeted'', J_number (fromAmount 30000)),
                         (''spent'', J_number (fromAmount 300)),
                         (''balance'', J_number (fromAmount 29700))]])]])])),
        \<lparr>initialized = True, calls = [ApiGetBudgetMonth ''2024-03'']\<rparr>)
   \<and> fst (get_budget_month sample_platform regrouped_client None ready)
     = fst (get_budget_month sample_platform sample_client None ready)"
proof -
  let ?cats = "[\<lparr>cb_id = ''cat_1'', cb_name = ''Groceries'', cb_budgeted = 60000,
                  cb_spent = - 500, cb_balance = 59500, cb_carryover = False\<rparr>,
                \<lparr>cb_id = ''cat_2'', cb_name = ''Dining'', cb_budgeted = 30000,
                  cb_spent = - 300, cb_balance = 29700, cb_carryover = False\<rparr>]"
  let ?g = "\<lparr>gb_id = ''grp_1'', gb_name = ''Food'', gb_budgeted = 90000, gb_spent = - 12345,
             gb_balance = 89200, gb_categories = ?cats\<rparr>"
  let ?b = "\<lparr>bm_month = ''2024-03'', bm_incomeAvailable = 0, bm_lastMonthOverspent = 0,
             bm_forNextMonth = 0, bm_totalBudgeted = - 90000, bm_toBudget = 1000,
             bm_categoryGroups = [?g]\<rparr>"
  let ?w = "\<lparr>initialized = True, calls = [ApiGetBudgetMonth ''2024-03'']\<rparr>"
  have h1: "getBudgetMonth sample_client (or_else None (getCurrentMonth sample_platform)) ready
              = (Inr ?b, ?w)"
    by (simp add: getBudgetMonth_def transform_group_def transform_category_def
          sample_budget_def await_def invoke_def ret_def ensureInitialized_def
          sample_client_def sample_api_def sample_platform_def ready_def)
  have h2: "(\<Sum>g\<leftarrow>bm_categoryGroups ?b. \<Sum>c\<leftarrow>gb_categories g. \<bar>cb_spent c\<bar>) < 2 ^ 53"
    by simp
  have h3: "getBudgetMonth regrouped_client (or_else None (getCurrentMonth sample_platform)) ready
              = (Inr (?b\<lparr>bm_categoryGroups :=
                        map (\<lambda>g. g\<lparr>gb_spent := 777\<rparr>) (bm_categoryGroups ?b)\<rparr>), ?w)"
    by (simp add: getBudgetMonth_def transform_group_def transform_category_def
          sample_budget_def regrouped_client_def await_def invoke_def ret_def
          ensureInitialized_def sample_client_def sample_api_def sample_platform_def ready_def)
  from C3_group_spent_recomputed[OF h1 h2, THEN conjunct1]
       C3_group_spent_recomputed[OF h1 h2, THEN conjunct2, rule_format, OF h3]
  show ?thesis by (simp add: sample_platform_def)
qed

lemma tally_invariant:
  assumes "0 \<le> totalSpent acc" "totalSpent acc = 0 \<longrightarrow> categoryTotals acc = []"
  shows "0 \<le> totalSpent (foldl (tally cm) acc ts)
         \<and> (totalSpent (foldl (tally cm) acc ts) = 0 \<longrightarrow> categoryTotals (foldl (tally cm) acc ts) = [])"
  using assms
proof (induction ts arbitrary: acc)
  case Nil
  then show ?case by simp
next
  case (Cons t ts)
  have step: "0 \<le> totalSpent (tally cm acc t)
              \<and> (totalSpent (tally cm acc t) = 0 \<longrightarrow> categoryTotals (tally cm acc t) = [])"
  proof (cases "t_amount t < 0")
    case True
    then have "0 < add64 (totalSpent acc) \<bar>t_amount t\<bar>"
      using Cons.prems(1) by (intro add64_pos) simp_all
    then show ?thesis using True by (simp add: tally_def Let_def)
  next
    case False
    then show ?thesis using Cons.prems by (simp add: tally_def Let_def)
  qed
  then show ?case using Cons.IH[of "tally cm acc t"] by simp
qed

lemma no_spending_no_categories:
  assumes "totalSpent (tally_all cm ts) = 0"
  shows "categoryTotals (tally_all cm ts) = []"
  using tally_invariant[of "\<lparr>categoryTotals = [], totalSpent = 0, totalIncome = 0\<rparr>" cm ts] assms
  by (simp add: tally_all_def)

lemma percentage_of_eq:
  "percentage_of total_spent amount
     = (if 0 < total_spent
        then Some (Math_round (fl (fl (of_int amount / of_int total_spent) * 100)))
        else Some 0)"
  by (simp add: percentage_of_def divide64_def)

lemma get_spending_summary_Inr:
  assumes "getAccounts C w = (Inr accounts, w1)"
    and "getCategories C w1 = (Inr categories, w2)"
    and "for_each
           (filter (\<lambda>a. \<not> or_false (a_closed a) \<and> \<not> or_false (a_offbudget a)) accounts)
           (\<lambda>acc. getTransactions C (a_id acc) (or_else start_date (firstOfMonth P))
                    (or_else end_date (getToday P))) w2
         = (Inr fetched, w3)"
    and "tot = tally_all (new_Map (map (\<lambda>c. (c_id c, c_name c)) categories)) (concat fetched)"
  shows "get_spending_summary P C start_date end_date w
     = (Inr (tool_result P (J_object
          [(''period'', J_object [(''start'', J_string (or_else start_date (firstOfMonth P))),
                                  (''end'', J_string (or_else end_date (getToday P)))]),
           (''total_spent'', J_number (fromAmount (totalSpent tot))),
           (''total_income'', J_number (fromAmount (totalIncome tot))),
           (''net'', J_number (fromAmount (sub64 (totalIncome tot) (totalSpent tot)))),
           (''by_category'', J_array (map (\<lambda>e.
              J_object
                [(''category'', J_string (bc_category e)),
                 (''amount'', J_number (bc_amount e)),
                 (''percentage'', percentage_json (bc_percentage e))])
              (sort_by (\<lambda>a b. bc_amount b < bc_amount a)
                 (map (\<lambda>(category, amount).
                         \<lparr>bc_category = category,
                          bc_amount = fromAmount amount,
                          bc_percentage = percentage_of (totalSpent tot) amount\<rparr>)
                    (categoryTotals tot)))))])), w3)"
  using assms(1-3) unfolding assms(4)
  by (simp add: get_spending_summary_def Let_def await_def ret_def byCategory_def)

text \<open>
  C5. \<open>get_spending_summary\<close> reports, for each category of the tally, the percentage
  \<open>percentage_of total amount\<close>, where \<open>total\<close> is the total spent. This percentage
  is always a number: it is 0 when the total is not positive, and only for a positive
  total is it the rounded quotient \<open>amount / total * 100\<close>, so no division by zero is
  evaluated (a division by zero would give \<open>None\<close>, reported as \<open>J_nonfinite\<close>). When
  the total spent is 0, every reported percentage is the number 0; the tally then has
  no category at all, and \<open>by_category\<close> is the empty array.
\<close>

theorem C5_zero_spent_zero_percentage:
  assumes "getAccounts C w = (Inr accounts, w1)"
    and "getCategories C w1 = (Inr categories, w2)"
    and "for_each
           (filter (\<lambda>a. \<not> or_false (a_closed a) \<and> \<not> or_false (a_offbudget a)) accounts)
           (\<lambda>acc. getTransactions C (a_id acc) (or_else start_date (firstOfMonth P))
                    (or_else end_date (getToday P))) w2
         = (Inr fetched, w3)"
    and "tot = tally_all (new_Map (map (\<lambda>c. (c_id c, c_name c)) categories)) (concat fetched)"
  shows "get_spending_summary P C start_date end_date w
     = (Inr (tool_result P (J_object
          [(''period'', J_object [(''start'', J_string (or_else start_date (firstOfMonth P))),
                                  (''end'', J_string (or_else end_date (getToday P)))]),
           (''total_spent'', J_number (fromAmount (totalSpent tot))),
           (''total_income'', J_number (fromAmount (totalIncome tot))),
           (''net'', J_number (fromAmount (sub64 (totalIncome tot) (totalSpent tot)))),
           (''by_category'', J_array (map (\<lambda>e.
              J_object
                [(''category'', J_string (bc_category e)),
                 (''amount'', J_number (bc_amount e)),
                 (''percentage'', percentage_json (bc_percentage e))])
              (sort_by (\<lambda>a b. bc_amount b < bc_amount a)
                 (map (\<lambda>(category, amount).
                         \<lparr>bc_category = category,
                          bc_amount = fromAmount amount,
                          bc_percentage = percentage_of (totalSpent tot) amount\<rparr>)
                    (categoryTotals tot)))))])), w3)
   \<and> percentage_of total_spent amount
     = (if 0 < total_spent
        then Some (Math_round (fl (fl (of_int amount / of_int total_spent) * 100)))
        else Some 0)
   \<and> percentage_of total_spent amount \<noteq> None
   \<and> percentage_json (percentage_of total_spent amount) \<noteq> J_nonfinite
   \<and> percentage_of 0 amount = Some 0
   \<and> (totalSpent tot = 0 \<longrightarrow>
        get_spending_summary P C start_date end_date w
          = (Inr (tool_result P (J_object
               [(''period'', J_object [(''start'', J_string (or_else start_date (firstOfMonth P))),
                                       (''end'', J_string (or_else end_date (getToday P)))]),
                (''total_spent'', J_number (fromAmount 0)),
                (''total_income'', J_number (fromAmount (totalIncome tot))),
                (''net'', J_number (fromAmount (sub64 (totalIncome tot) 0))),
                (''by_category'', J_array (map (\<lambda>e.
                   J_object
                     [(''category'', J_string (bc_category e)),
                      (''amount'', J_number (bc_amount e)),
                      (''percentage'', J_number 0)])
                   (sort_by (\<lambda>a b. bc_amount b < bc_amount a)
                      (map (\<lambda>(category, amount).
                              \<lparr>bc_category = category,
                               bc_amount = fromAmount amount,
                               bc_percentage = Some 0\<rparr>)
                         (categoryTotals tot)))))])), w3)
        \<and> categoryTotals tot = [])"
proof -
  note run = get_spending_summary_Inr[OF assms]
  have p: "percentage_of total_spent amount
     = (if 0 < total_spent
        then Some (Math_round (fl (fl (of_int amount / of_int total_spent) * 100)))
        else Some 0)" for total_spent amount
    by (rule percentage_of_eq)
  have z: "categoryTotals tot = []" if "totalSpent tot = 0"
    using that unfolding assms(4) by (rule no_spending_no_categories)
  have zero: "get_spending_summary P C start_date end_date w
          = (Inr (tool_result P (J_object
               [(''period'', J_object [(''start'', J_string (or_else start_date (firstOfMonth P))),
                                       (''end'', J_string (or_else end_date (getToday P)))]),
                (''total_spent'', J_number (fromAmount 0)),
                (''total_income'', J_number (fromAmount (totalIncome tot))),
                (''net'', J_number (fromAmount (sub64 (totalIncome tot) 0))),
                (''by_category'', J_array (map (\<lambda>e.
                   J_object
                     [(''category'', J_string (bc_category e)),
                      (''amount'', J_number (bc_amount e)),
                      (''percentage'', J_number 0)])
                   (sort_by (\<lambda>a b. bc_amount b < bc_amount a)
                      (map (\<lambda>(category, amount).
                              \<lparr>bc_category = category,
                               bc_amount = fromAmount amount,
                               bc_percentage = Some 0\<rparr>)
                         (categoryTotals tot)))))])), w3)"
    if t: "totalSpent tot = 0"
    unfolding run by (simp add: t z[OF t] sort_by_def)
  have q: "percentage_json (percentage_of total_spent amount) \<noteq> J_nonfinite"
    by (simp add: p)
  from run p[of total_spent amount] p[of 0 amount] q zero z show ?thesis by simp
qed

text \<open>
  The spending summary of the sample ledger, with a total spent of 127.00, and that of
  the ledger with a single income transaction, with a total spent of 0.
\<close>

theorem C5_zero_spent_zero_percentage_witness:
  "get_spending_summary sample_platform sample_client None None ready
     = (Inr (tool_result sample_platform (J_object
          [(''period'', J_object [(''start'', J_string ''2024-03-01''),
                                  (''end'', J_string ''2024-03-15'')]),
           (''total_spent'', J_number (fromAmount 12700)),
           (''total_income'', J_number (fromAmount 0)),
           (''net'', J_number (fromAmount (- 12700))),
           (''by_category'', J_array
              [J_object
                 [(''category'', J_string ''Groceries''),
                  (''amount'', J_number (fromAmount 11500)),
                  (''percentage'', J_number 91)],
               J_object
                 [(''category'', J_string ''Dining''),
                  (''amount'', J_number (fromAmount 1200)),
                  (''percentage'', J_number 9)]])])),
        \<lparr>initialized = True,
          calls = [ApiGetAccounts, ApiGetCategories,
                   ApiGetTransactions ''acc_1'' ''2024-03-01'' ''2024-03-15'']\<rparr>)
   \<and> get_spending_summary sample_platform income_client None None ready
     = (Inr (tool_result sample_platform (J_object
          [(''period'', J_object [(''start'', J_string ''2024-03-01''),
                                  (''end'', J_string ''2024-03-15'')]),
           (''total_spent'', J_number (fromAmount 0)),
           (''total_income'', J_number (fromAmount 250000)),
           (''net'', J_number (fromAmount 250000)),
           (''by_category'', J_array [])])),
        \<lparr>initialized = True,
          calls = [ApiGetAccounts, ApiGetCategories,
                   ApiGetTransactions ''acc_1'' ''2024-03-01'' ''2024-03-15'']\<rparr>)
   \<and> percentage_of 12700 11500 = Some 91
   \<and> percentage_of 0 11500 = Some 0"
proof -
  let ?cm = "new_Map (map (\<lambda>c. (c_id c, c_name c)) sample_categories)"
  let ?w1 = "\<lparr>initialized = True, calls = [ApiGetAccounts]\<rparr>"
  let ?w2 = "\<lparr>initialized = True, calls = [ApiGetAccounts, ApiGetCategories]\<rparr>"
  let ?w3 = "\<lparr>initialized = True,
          calls = [ApiGetAccounts, ApiGetCategories,
                   ApiGetTransactions ''acc_1'' ''2024-03-01'' ''2024-03-15'']\<rparr>"
  let ?income = "[sample_transaction ''t7'' ''2024-03-02'' 250000 ''pay_1'' ''cat_1'']"
  let ?on_budget = "filter (\<lambda>a. \<not> or_false (a_closed a) \<and> \<not> or_false (a_offbudget a))
                      sample_accounts"
  have a1: "getAccounts sample_client ready = (Inr sample_accounts, ?w1)"
    by (simp add: getAccounts_def run_defs sample_defs)
  have a2: "getCategories sample_client ?w1 = (Inr sample_categories, ?w2)"
    by (simp add: getCategories_def run_defs sample_defs)
  have a3: "for_each ?on_budget
           (\<lambda>acc. getTransactions sample_client (a_id acc)
                    (or_else None (firstOfMonth sample_platform))
                    (or_else None (getToday sample_platform))) ?w2
         = (Inr [sample_transactions], ?w3)"
    by (simp add: getTransactions_def run_defs sample_defs)
  have a4: "tally_all ?cm (concat [sample_transactions]) = tally_all ?cm (concat [sample_transactions])" ..
  have b1: "getAccounts income_client ready = (Inr sample_accounts, ?w1)"
    by (simp add: getAccounts_def run_defs sample_defs income_client_def)
  have b2: "getCategories income_client ?w1 = (Inr sample_categories, ?w2)"
    by (simp add: getCategories_def run_defs sample_defs income_client_def)
  have b3: "for_each ?on_budget
           (\<lambda>acc. getTransactions income_client (a_id acc)
                    (or_else None (firstOfMonth sample_platform))
                    (or_else None (getToday sample_platform))) ?w2
         = (Inr [?income], ?w3)"
    by (simp add: getTransactions_def run_defs sample_defs income_client_def)
  have b4: "tally_all ?cm (concat [?income]) = tally_all ?cm (concat [?income])" ..
  have t1: "tally_all ?cm (concat [sample_transactions])
              = \<lparr>categoryTotals = [(''Groceries'', 11500), (''Dining'', 1200)],
                 totalSpent = 12700, totalIncome = 0\<rparr>"
    by code_simp
  have t2: "tally_all ?cm (concat [?income])
              = \<lparr>categoryTotals = [], totalSpent = 0, totalIncome = 250000\<rparr>"
    by code_simp
  have s: "sort_by (\<lambda>a b. bc_amount b < bc_amount a)
             [\<lparr>bc_category = ''Groceries'', bc_amount = fromAmount 11500,
               bc_percentage = percentage_of 12700 11500\<rparr>,
              \<lparr>bc_category = ''Dining'', bc_amount = fromAmount 1200,
               bc_percentage = percentage_of 12700 1200\<rparr>]
           = [\<lparr>bc_category = ''Groceries'', bc_amount = fromAmount 11500,
               bc_percentage = Some 91\<rparr>,
              \<lparr>bc_category = ''Dining'', bc_amount = fromAmount 1200,
               bc_percentage = Some 9\<rparr>]"
    by code_simp
  have n: "sub64 0 12700 = - 12700" "sub64 250000 0 = 250000"
    by (simp_all add: sub64_exact)
  have p: "percentage_of 12700 11500 = Some 91" by code_simp
  have z: "totalSpent (tally_all ?cm (concat [?income])) = 0" unfolding t2 by simp
  note r1 = C5_zero_spent_zero_percentage[OF a1 a2 a3 a4, THEN conjunct1]
  note r2 = C5_zero_spent_zero_percentage[OF b1 b2 b3 b4, THEN conjunct2, THEN conjunct2,
              THEN conjunct2, THEN conjunct2, THEN conjunct2, rule_format, OF z, THEN conjunct1]
  note r3 = C5_zero_spent_zero_percentage[OF b1 b2 b3 b4, THEN conjunct2, THEN conjunct2,
              THEN conjunct2, THEN conjunct2, THEN conjunct1, of 11500]
  have 1: "get_spending_summary sample_platform sample_client None None ready
     = (Inr (tool_result sample_platform (J_object
          [(''period'', J_object [(''start'', J_string ''2024-03-01''),
                                  (''end'', J_string ''2024-03-15'')]),
           (''total_spent'', J_number (fromAmount 12700)),
           (''total_income'', J_number (fromAmount 0)),
           (''net'', J_number (fromAmount (- 12700))),
           (''by_category'', J_array
              [J_object
                 [(''category'', J_string ''Groceries''),
                  (''amount'', J_number (fromAmount 11500)),
                  (''percentage'', J_number 91)],
               J_object
                 [(''category'', J_string ''Dining''),
                  (''amount'', J_number (fromAmount 1200)),
                  (''percentage'', J_number 9)]])])), ?w3)"
    unfolding r1 t1 by (simp add: s n sample_platform_def)
  have 2: "get_spending_summary sample_platform income_client None None ready
     = (Inr (tool_result sample_platform (J_object
          [(''period'', J_object [(''start'', J_string ''2024-03-01''),
                                  (''end'', J_string ''2024-03-15'')]),
           (''total_spent'', J_number (fromAmount 0)),
           (''total_income'', J_number (fromAmount 250000)),
           (''net'', J_number (fromAmount 250000)),
           (''by_category'', J_array [])])), ?w3)"
    unfolding r2 t2 by (simp add: n sort_by_def sample_platform_def)
  from 1 2 p r3 show ?thesis by simp
qed

lemma set_insert_by: "set (insert_by before x ys) = insert x (set ys)"
  by (induction ys) auto

lemma set_sort_by: "set (sort_by before xs) = set xs"
  by (induction xs) (simp_all add: sort_by_def set_insert_by)

lemma mset_insert_by: "mset (insert_by before x ys) = add_mset x (mset ys)"
  by (induction ys) auto

lemma mset_sort_by: "mset (sort_by before xs) = mset xs"
  by (induction xs) (simp_all add: sort_by_def mset_insert_by)

lemma sorted_insert_by:
  fixes f :: "'a \<Rightarrow> 'b::linorder"
  assumes "sorted_wrt (\<lambda>a b. f b \<le> f a) ys"
  shows "sorted_wrt (\<lambda>a b. f b \<le> f a) (insert_by (\<lambda>a b. f b < f a) x ys)"
  using assms by (induction ys) (auto simp: set_insert_by)

lemma sorted_sort_by:
  fixes f :: "'a \<Rightarrow> 'b::linorder"
  shows "sorted_wrt (\<lambda>a b. f b \<le> f a) (sort_by (\<lambda>a b. f b < f a) xs)"
  by (induction xs) (simp_all add: sort_by_def sorted_insert_by)

lemma insert_by_cong:
  assumes "\<forall>y \<in> set ys. before y x = before' y x"
  shows "insert_by before x ys = insert_by before' x ys"
  using assms by (induction ys) simp_all

lemma sort_by_cong:
  assumes "\<forall>a \<in> set xs. \<forall>b \<in> set xs. before a b = before' a b"
  shows "sort_by before xs = sort_by before' xs"
  using assms
proof (induction xs)
  case Nil
  then show ?case by (simp add: sort_by_def)
next
  case (Cons x xs)
  have ih: "sort_by before xs = sort_by before' xs"
    using Cons.prems by (intro Cons.IH) simp
  have "insert_by before x (sort_by before' xs) = insert_by before' x (sort_by before' xs)"
    using Cons.prems by (intro insert_by_cong) (simp add: set_sort_by)
  then show ?case using ih by (simp add: sort_by_def)
qed

lemma filters_compose:
  "filter_max_amount max_amount
     (filter_min_amount min_amount (filter_notes notes' (filter_payee payeeMap payee xs)))
   = filter (\<lambda>t.
       (case payee of None \<Rightarrow> True | Some p \<Rightarrow> p = [] \<or> matches_payee payeeMap (toLowerCase p) t)
       \<and> (case notes' of None \<Rightarrow> True | Some n \<Rightarrow> n = [] \<or> matches_notes (toLowerCase n) t)
       \<and> (case min_amount of None \<Rightarrow> True | Some m \<Rightarrow> toAmount m \<le> \<bar>t_amount t\<bar>)
       \<and> (case max_amount of None \<Rightarrow> True | Some m \<Rightarrow> \<bar>t_amount t\<bar> \<le> toAmount m)) xs"
  by (cases payee; cases notes'; cases min_amount; cases max_amount)
     (auto simp: filter_payee_def filter_notes_def filter_min_amount_def filter_max_amount_def
           intro: filter_cong)

lemma slice0_nonneg: "0 \<le> e \<Longrightarrow> slice0 xs e = take (nat \<lfloor>e\<rfloor>) xs"
  by (simp add: slice0_def)

lemma slice0_limit:
  assumes "case limit of None \<Rightarrow> True | Some l \<Rightarrow> 0 \<le> l"
  shows "slice0 xs (limit_or_50 limit)
           = take (case limit of None \<Rightarrow> 50 | Some l \<Rightarrow> if l = 0 then 50 else nat \<lfloor>l\<rfloor>) xs"
  using assms by (cases limit) (simp_all add: slice0_nonneg)

lemma iso_date_chars:
  assumes "iso_date s" "c \<in> set s"
  shows "is_digit c \<or> c = CHR ''-''"
proof -
  from assms(2) obtain i where i: "i < length s" "s ! i = c" by (auto simp: in_set_conv_nth)
  then have "(i, c) \<in> set (enumerate 0 s)" by (simp add: in_set_enumerate_eq)
  moreover have "\<forall>p \<in> set (enumerate 0 s).
                   (case p of (i, c) \<Rightarrow> if i = 4 \<or> i = 7 then c = CHR ''-'' else is_digit c)"
    using assms(1) by (simp add: iso_date_def list_all_iff)
  ultimately have "if i = 4 \<or> i = 7 then c = CHR ''-'' else is_digit c" by blast
  then show ?thesis by (simp split: if_splits)
qed

lemma lower_char_digit:
  assumes "is_digit c \<or> c = CHR ''-''"
  shows "lower_char c = c"
proof -
  have "list_all (\<lambda>d. lower_char d = d) (''0123456789'' @ [CHR ''-''])" by code_simp
  then have all: "\<forall>d \<in> set (''0123456789'' @ [CHR ''-'']). lower_char d = d"
    by (simp only: list_all_iff)
  have "c \<in> set ''0123456789'' \<union> {CHR ''-''}"
    using assms unfolding is_digit_def by blast
  then have "c \<in> set (''0123456789'' @ [CHR ''-''])"
    by (simp only: set_append list.set)
  with all show ?thesis by blast
qed

lemma toLowerCase_iso_date: "iso_date s \<Longrightarrow> toLowerCase s = s"
  unfolding toLowerCase_def
  by (rule map_idI) (rule lower_char_digit, rule iso_date_chars)

lemma sample_localeCompare_iso:
  "iso_date a \<Longrightarrow> iso_date b \<Longrightarrow> (sample_localeCompare a b < 0) = (a < b)"
  by (auto simp: sample_localeCompare_def toLowerCase_iso_date)

lemma search_transactions_Inr:
  assumes "getAccounts C w = (Inr accounts, w1)"
    and "getPayees C w1 = (Inr payees, w2)"
    and "getCategories C w2 = (Inr categories, w3)"
    and "for_each (filter (\<lambda>a. \<not> or_false (a_closed a)) accounts) (\<lambda>acc.
           await (getTransactions C (a_id acc) (or_else start_date (daysAgo P 90))
                    (or_else end_date (getToday P))) (\<lambda>transactions.
           ret (map (\<lambda>t. Transaction.extend t \<lparr>accountId = a_id acc\<rparr>) transactions))) w3
         = (Inr fetched, w4)"
  shows "search_transactions P C payee notes' min_amount max_amount start_date end_date limit w
     = (Inr (tool_result P (J_object
          [(''transactions'', J_array
              (map (format_search_result (new_Map (map (\<lambda>a. (a_id a, a_name a)) accounts))
                      (new_Map (map (\<lambda>p. (p_id p, p_name p)) payees))
                      (new_Map (map (\<lambda>c. (c_id c, c_name c)) categories)))
                 (search_results P (new_Map (map (\<lambda>p. (p_id p, p_name p)) payees))
                    payee notes' min_amount max_amount limit (concat fetched)))),
           (''total_count'', J_number (of_nat (length
              (search_results P (new_Map (map (\<lambda>p. (p_id p, p_name p)) payees))
                 payee notes' min_amount max_amount limit (concat fetched)))))])), w4)"
  using assms
  by (simp add: search_transactions_def Let_def await_def ret_def)

text \<open>
  C4 (counterexample). With \<open>limit: 0\<close> the expression \<open>limit || 50\<close> is \<open>50\<close>: the
  search over the sample ledger without any filter returns the three transactions of
  the ledger, not a list truncated to 0 entries.
\<close>

theorem C4_limit_zero_counterexample:
  "search_transactions sample_platform sample_client None None None None None None (Some 0) ready
     = (Inr (tool_result sample_platform (J_object
          [(''transactions'', J_array
              [J_object
                 [(''id'', J_string ''t2''), (''account'', J_string ''Checking''),
                  (''date'', J_string ''2024-03-01''), (''amount'', J_number (fromAmount (- 1200))),
                  (''payee'', J_string ''Bistro''), (''category'', J_string ''Dining''),
                  (''notes'', J_undefined)],
               J_object
                 [(''id'', J_string ''t3''), (''account'', J_string ''Checking''),
                  (''date'', J_string ''2024-02-01''), (''amount'', J_number (fromAmount (- 8000))),
                  (''payee'', J_string ''Costco''), (''category'', J_string ''Groceries''),
                  (''notes'', J_undefined)],
               J_object
                 [(''id'', J_string ''t1''), (''account'', J_string ''Checking''),
                  (''date'', J_string ''2024-01-01''), (''amount'', J_number (fromAmount (- 3500))),
                  (''payee'', J_string ''Costco''), (''category'', J_string ''Groceries''),
                  (''notes'', J_undefined)]]),
           (''total_count'', J_number 3)])),
        \<lparr>initialized = True,
          calls = [ApiGetAccounts, ApiGetPayees, ApiGetCategories,
                   ApiGetTransactions ''acc_1'' ''2023-12-16'' ''2024-03-15'',
                   ApiGetTransactions ''acc_2'' ''2023-12-16'' ''2024-03-15'']\<rparr>)"
proof -
  let ?w1 = "\<lparr>initialized = True, calls = [ApiGetAccounts]\<rparr>"
  let ?w2 = "\<lparr>initialized = True, calls = [ApiGetAccounts, ApiGetPayees]\<rparr>"
  let ?w3 = "\<lparr>initialized = True, calls = [ApiGetAccounts, ApiGetPayees, ApiGetCategories]\<rparr>"
  let ?w4 = "\<lparr>initialized = True,
          calls = [ApiGetAccounts, ApiGetPayees, ApiGetCategories,
                   ApiGetTransactions ''acc_1'' ''2023-12-16'' ''2024-03-15'',
                   ApiGetTransactions ''acc_2'' ''2023-12-16'' ''2024-03-15'']\<rparr>"
  have a1: "getAccounts sample_client ready = (Inr sample_accounts, ?w1)"
    by (simp add: getAccounts_def run_defs sample_defs)
  have a2: "getPayees sample_client ?w1 = (Inr sample_payees, ?w2)"
    by (simp add: getPayees_def run_defs sample_defs)
  have a3: "getCategories sample_client ?w2 = (Inr sample_categories, ?w3)"
    by (simp add: getCategories_def run_defs sample_defs)
  have a4: "for_each (filter (\<lambda>a. \<not> or_false (a_closed a)) sample_accounts) (\<lambda>acc.
           await (getTransactions sample_client (a_id acc) (or_else None (daysAgo sample_platform 90))
                    (or_else None (getToday sample_platform))) (\<lambda>transactions.
           ret (map (\<lambda>t. Transaction.extend t \<lparr>accountId = a_id acc\<rparr>) transactions))) ?w3
         = (Inr [tagged_sample, []], ?w4)"
    by (simp add: getTransactions_def run_defs sample_defs tagged_sample_def)
  have r: "search_results sample_platform (new_Map (map (\<lambda>p. (p_id p, p_name p)) sample_payees))
             None None None None (Some 0) (concat [tagged_sample, []])
           = [Transaction.extend (sample_transaction ''t2'' ''2024-03-01'' (- 1200) ''pay_2'' ''cat_2'')
                \<lparr>accountId = ''acc_1''\<rparr>,
              Transaction.extend (sample_transaction ''t3'' ''2024-02-01'' (- 8000) ''pay_1'' ''cat_1'')
                \<lparr>accountId = ''acc_1''\<rparr>,
              Transaction.extend (sample_transaction ''t1'' ''2024-01-01'' (- 3500) ''pay_1'' ''cat_1'')
                \<lparr>accountId = ''acc_1''\<rparr>]"
    by code_simp
  show ?thesis
    unfolding search_transactions_Inr[OF a1 a2 a3 a4] r
    by (simp add: format_search_result_def new_Map_def sample_defs sample_transaction_def
          Transaction.defs)
qed

text \<open>
  C4 (amended). \<open>search_transactions\<close> returns the fetched transactions that satisfy
  every filter whose input is present (a payee or notes filter with an empty string
  counts as absent), sorted by descending date, lexicographically on the ISO date
  strings, and cut to the first \<open>n\<close> entries, where \<open>n\<close> is the integer part of the limit
  when the limit is positive and 50 when the limit is absent or 0. In particular a payee
  filter with a minimum amount keeps exactly the transactions that satisfy both, and
  without filters all fetched transactions are kept. The sort only reorders the list.
  The dates of the fetched transactions are ISO dates (\<open>YYYY-MM-DD\<close>), on which
  \<open>localeCompare\<close> is the lexicographic comparison.
\<close>

theorem C4_search_filtered_sorted_limited:
  assumes "getAccounts C w = (Inr accounts, w1)"
    and "getPayees C w1 = (Inr payees, w2)"
    and "getCategories C w2 = (Inr categories, w3)"
    and "for_each (filter (\<lambda>a. \<not> or_false (a_closed a)) accounts) (\<lambda>acc.
           await (getTransactions C (a_id acc) (or_else start_date (daysAgo P 90))
                    (or_else end_date (getToday P))) (\<lambda>transactions.
           ret (map (\<lambda>t. Transaction.extend t \<lparr>accountId = a_id acc\<rparr>) transactions))) w3
         = (Inr fetched, w4)"
    and "case limit of None \<Rightarrow> True | Some l \<Rightarrow> 0 \<le> l"
    and "\<forall>t \<in> set (concat fetched). iso_date (t_date t)"
    and "\<forall>a b. iso_date a \<longrightarrow> iso_date b \<longrightarrow> (localeCompare P a b < 0) = (a < b)"
    and "payeeMap = new_Map (map (\<lambda>p. (p_id p, p_name p)) payees)"
    and "matching = filter (\<lambda>t.
           (case payee of None \<Rightarrow> True
            | Some p \<Rightarrow> p = [] \<or> matches_payee payeeMap (toLowerCase p) t)
           \<and> (case notes' of None \<Rightarrow> True
              | Some n \<Rightarrow> n = [] \<or> matches_notes (toLowerCase n) t)
           \<and> (case min_amount of None \<Rightarrow> True | Some m \<Rightarrow> toAmount m \<le> \<bar>t_amount t\<bar>)
           \<and> (case max_amount of None \<Rightarrow> True | Some m \<Rightarrow> \<bar>t_amount t\<bar> \<le> toAmount m))
           (concat fetched)"
    and "results = take (case limit of None \<Rightarrow> 50 | Some l \<Rightarrow> if l = 0 then 50 else nat \<lfloor>l\<rfloor>)
                     (sort_by (\<lambda>a b. t_date b < t_date a) matching)"
  shows "search_transactions P C payee notes' min_amount max_amount start_date end_date limit w
     = (Inr (tool_result P (J_object
          [(''transactions'', J_array (map (\<lambda>t.
              J_object
                [(''id'', opt_string (t_id t)),
                 (''account'', J_string
                    (case new_Map (map (\<lambda>a. (a_id a, a_name a)) accounts) (accountId t) of
                       None \<Rightarrow> ''Unknown''
                     | Some n \<Rightarrow> if n = [] then ''Unknown'' else n)),
                 (''date'', J_string (t_date t)),
                 (''amount'', J_number (fromAmount (t_amount t))),
                 (''payee'', opt_string (get_if_truthy payeeMap (t_payee t))),
                 (''category'', opt_string
                    (get_if_truthy (new_Map (map (\<lambda>c. (c_id c, c_name c)) categories))
                       (t_category t))),
                 (''notes'', opt_string (t_notes t))]) results)),
           (''total_count'', J_number (of_nat (length results)))])), w4)
   \<and> sorted_wrt (\<lambda>a b. t_date b \<le> t_date a) results
   \<and> mset (sort_by (\<lambda>a b. t_date b < t_date a) matching) = mset matching
   \<and> (payee = Some p \<and> p \<noteq> [] \<and> notes' = None \<and> min_amount = Some m \<and> max_amount = None
      \<longrightarrow> matching = filter (\<lambda>t. matches_payee payeeMap (toLowerCase p) t
                                  \<and> toAmount m \<le> \<bar>t_amount t\<bar>) (concat fetched))
   \<and> (payee = None \<and> notes' = None \<and> min_amount = None \<and> max_amount = None
      \<longrightarrow> matching = concat fetched)"
proof -
  have sub: "set matching \<subseteq> set (concat fetched)"
    unfolding assms(9) by (rule filter_is_subset)
  have "\<forall>a \<in> set matching. \<forall>b \<in> set matching.
          date_desc P a b = (t_date b < t_date a)"
  proof (intro ballI)
    fix a b assume "a \<in> set matching" "b \<in> set matching"
    then have "iso_date (t_date a)" "iso_date (t_date b)"
      using sub assms(6) by blast+
    then show "date_desc P a b = (t_date b < t_date a)"
      using assms(7) by (simp add: date_desc_def)
  qed
  then have srt: "sort_by (date_desc P) matching = sort_by (\<lambda>a b. t_date b < t_date a) matching"
    by (rule sort_by_cong)
  have "search_results P payeeMap payee notes' min_amount max_amount limit (concat fetched)
          = take (case limit of None \<Rightarrow> 50 | Some l \<Rightarrow> if l = 0 then 50 else nat \<lfloor>l\<rfloor>)
              (sort_by (date_desc P) matching)"
    unfolding assms(9)
    by (simp add: search_results_def Let_def filters_compose slice0_limit[OF assms(5)])
  then have res: "search_results P payeeMap payee notes' min_amount max_amount limit (concat fetched)
               = results"
    by (simp only: srt assms(10))
  have fmt: "format_search_result am pm cm
               = (\<lambda>t. J_object
                   [(''id'', opt_string (t_id t)),
                    (''account'', J_string (case am (accountId t) of
                                             None \<Rightarrow> ''Unknown''
                                           | Some n \<Rightarrow> if n = [] then ''Unknown'' else n)),
                    (''date'', J_string (t_date t)),
                    (''amount'', J_number (fromAmount (t_amount t))),
                    (''payee'', opt_string (get_if_truthy pm (t_payee t))),
                    (''category'', opt_string (get_if_truthy cm (t_category t))),
                    (''notes'', opt_string (t_notes t))])" for am pm cm
    by (rule ext) (simp only: format_search_result_def)
  have 1: "search_transactions P C payee notes' min_amount max_amount start_date end_date limit w
     = (Inr (tool_result P (J_object
          [(''transactions'', J_array (map (\<lambda>t.
              J_object
                [(''id'', opt_string (t_id t)),
                 (''account'', J_string
                    (case new_Map (map (\<lambda>a. (a_id a, a_name a)) accounts) (accountId t) of
                       None \<Rightarrow> ''Unknown''
                     | Some n \<Rightarrow> if n = [] then ''Unknown'' else n)),
                 (''date'', J_string (t_date t)),
                 (''amount'', J_number (fromAmount (t_amount t))),
                 (''payee'', opt_string (get_if_truthy payeeMap (t_payee t))),
                 (''category'', opt_string
                    (get_if_truthy (new_Map (map (\<lambda>c. (c_id c, c_name c)) categories))
                       (t_category t))),
                 (''notes'', opt_string (t_notes t))]) results)),
           (''total_count'', J_number (of_nat (length results)))])), w4)"
    unfolding search_transactions_Inr[OF assms(1-4)] res[unfolded assms(8)]
    by (simp only: fmt assms(8))
  have 2: "sorted_wrt (\<lambda>a b. t_date b \<le> t_date a) results"
    unfolding assms(10) by (intro sorted_wrt_take sorted_sort_by)
  have 3: "mset (sort_by (\<lambda>a b. t_date b < t_date a) matching) = mset matching"
    by (rule mset_sort_by)
  have 4: "matching = filter (\<lambda>t. matches_payee payeeMap (toLowerCase p) t
                                  \<and> toAmount m \<le> \<bar>t_amount t\<bar>) (concat fetched)"
    if "payee = Some p \<and> p \<noteq> [] \<and> notes' = None \<and> min_amount = Some m \<and> max_amount = None"
    unfolding assms(9) using that by simp
  have 5: "matching = concat fetched"
    if "payee = None \<and> notes' = None \<and> min_amount = None \<and> max_amount = None"
    unfolding assms(9) using that by simp
  show ?thesis
    apply (intro conjI impI)
        apply (rule 1)
       apply (rule 2)
      apply (rule 3)
     apply (erule 4)
    apply (erule 5)
    done
qed

text \<open>
  Two searches over the sample ledger: payee \<open>COST\<close> with a minimum amount of 10 and a
  limit of 1, and no filter at all (the dates come out in descending order).
\<close>

theorem C4_search_filtered_sorted_limited_witness:
  "search_transactions sample_platform sample_client (Some ''COST'') None (Some 10) None None None
       (Some 1) ready
     = (Inr (tool_result sample_platform (J_object
          [(''transactions'', J_array
              [J_object
                 [(''id'', J_string ''t3''), (''account'', J_string ''Checking''),
                  (''date'', J_string ''2024-02-01''), (''amount'', J_number (fromAmount (- 8000))),
                  (''payee'', J_string ''Costco''), (''category'', J_string ''Groceries''),
                  (''notes'', J_undefined)]]),
           (''total_count'', J_number 1)])),
        \<lparr>initialized = True,
          calls = [ApiGetAccounts, ApiGetPayees, ApiGetCategories,
                   ApiGetTransactions ''acc_1'' ''2023-12-16'' ''2024-03-15'',
                   ApiGetTransactions ''acc_2'' ''2023-12-16'' ''2024-03-15'']\<rparr>)
   \<and> search_transactions sample_platform sample_client None None None None None None None ready
     = (Inr (tool_result sample_platform (J_object
          [(''transactions'', J_array
              [J_object
                 [(''id'', J_string ''t2''), (''account'', J_string ''Checking''),
                  (''date'', J_string ''2024-03-01''), (''amount'', J_number (fromAmount (- 1200))),
                  (''payee'', J_string ''Bistro''), (''category'', J_string ''Dining''),
                  (''notes'', J_undefined)],
               J_object
                 [(''id'', J_string ''t3''), (''account'', J_string ''Checking''),
                  (''date'', J_string ''2024-02-01''), (''amount'', J_number (fromAmount (- 8000))),
                  (''payee'', J_string ''Costco''), (''category'', J_string ''Groceries''),
                  (''notes'', J_undefined)],
               J_object
                 [(''id'', J_string ''t1''), (''account'', J_string ''Checking''),
                  (''date'', J_string ''2024-01-01''), (''amount'', J_number (fromAmount (- 3500))),
                  (''payee'', J_string ''Costco''), (''category'', J_string ''Groceries''),
                  (''notes'', J_undefined)]]),
           (''total_count'', J_number 3)])),
        \<lparr>initialized = True,
          calls = [ApiGetAccounts, ApiGetPayees, ApiGetCategories,
                   ApiGetTransactions ''acc_1'' ''2023-12-16'' ''2024-03-15'',
                   ApiGetTransactions ''acc_2'' ''2023-12-16'' ''2024-03-15'']\<rparr>)"
proof -
  let ?w1 = "\<lparr>initialized = True, calls = [ApiGetAccounts]\<rparr>"
  let ?w2 = "\<lparr>initialized = True, calls = [ApiGetAccounts, ApiGetPayees]\<rparr>"
  let ?w3 = "\<lparr>initialized = True, calls = [ApiGetAccounts, ApiGetPayees, ApiGetCategories]\<rparr>"
  let ?w4 = "\<lparr>initialized = True,
          calls = [ApiGetAccounts, ApiGetPayees, ApiGetCategories,
                   ApiGetTransactions ''acc_1'' ''2023-12-16'' ''2024-03-15'',
                   ApiGetTransactions ''acc_2'' ''2023-12-16'' ''2024-03-15'']\<rparr>"
  let ?pm = "new_Map (map (\<lambda>p. (p_id p, p_name p)) sample_payees)"
  let ?t1 = "Transaction.extend (sample_transaction ''t1'' ''2024-01-01'' (- 3500) ''pay_1'' ''cat_1'')
                \<lparr>accountId = ''acc_1''\<rparr>"
  let ?t2 = "Transaction.extend (sample_transaction ''t2'' ''2024-03-01'' (- 1200) ''pay_2'' ''cat_2'')
                \<lparr>accountId = ''acc_1''\<rparr>"
  let ?t3 = "Transaction.extend (sample_transaction ''t3'' ''2024-02-01'' (- 8000) ''pay_1'' ''cat_1'')
                \<lparr>accountId = ''acc_1''\<rparr>"
  let ?m1 = "filter (\<lambda>t.
           (case Some ''COST'' of None \<Rightarrow> True
            | Some p \<Rightarrow> p = [] \<or> matches_payee ?pm (toLowerCase p) t)
           \<and> (case (None :: string option) of None \<Rightarrow> True
              | Some n \<Rightarrow> n = [] \<or> matches_notes (toLowerCase n) t)
           \<and> (case Some (10 :: rat) of None \<Rightarrow> True | Some m \<Rightarrow> toAmount m \<le> \<bar>t_amount t\<bar>)
           \<and> (case (None :: rat option) of None \<Rightarrow> True | Some m \<Rightarrow> \<bar>t_amount t\<bar> \<le> toAmount m))
           (concat [tagged_sample, []])"
  let ?m2 = "filter (\<lambda>t.
           (case (None :: string option) of None \<Rightarrow> True
            | Some p \<Rightarrow> p = [] \<or> matches_payee ?pm (toLowerCase p) t)
           \<and> (case (None :: string option) of None \<Rightarrow> True
              | Some n \<Rightarrow> n = [] \<or> matches_notes (toLowerCase n) t)
           \<and> (case (None :: rat option) of None \<Rightarrow> True | Some m \<Rightarrow> toAmount m \<le> \<bar>t_amount t\<bar>)
           \<and> (case (None :: rat option) of None \<Rightarrow> True | Some m \<Rightarrow> \<bar>t_amount t\<bar> \<le> toAmount m))
           (concat [tagged_sample, []])"
  let ?r1 = "take (case Some (1 :: rat) of None \<Rightarrow> 50 | Some l \<Rightarrow> if l = 0 then 50 else nat \<lfloor>l\<rfloor>)
               (sort_by (\<lambda>a b. t_date b < t_date a) ?m1)"
  let ?r2 = "take (case (None :: rat option) of None \<Rightarrow> 50
                   | Some l \<Rightarrow> if l = 0 then 50 else nat \<lfloor>l\<rfloor>)
               (sort_by (\<lambda>a b. t_date b < t_date a) ?m2)"
  have a1: "getAccounts sample_client ready = (Inr sample_accounts, ?w1)"
    by (simp add: getAccounts_def run_defs sample_defs)
  have a2: "getPayees sample_client ?w1 = (Inr sample_payees, ?w2)"
    by (simp add: getPayees_def run_defs sample_defs)
  have a3: "getCategories sample_client ?w2 = (Inr sample_categories, ?w3)"
    by (simp add: getCategories_def run_defs sample_defs)
  have a4: "for_each (filter (\<lambda>a. \<not> or_false (a_closed a)) sample_accounts) (\<lambda>acc.
           await (getTransactions sample_client (a_id acc) (or_else None (daysAgo sample_platform 90))
                    (or_else None (getToday sample_platform))) (\<lambda>transactions.
           ret (map (\<lambda>t. Transaction.extend t \<lparr>accountId = a_id acc\<rparr>) transactions))) ?w3
         = (Inr [tagged_sample, []], ?w4)"
    by (simp add: getTransactions_def run_defs sample_defs tagged_sample_def)
  have l1: "case Some (1::rat) of None \<Rightarrow> True | Some l \<Rightarrow> 0 \<le> l" by simp
  have l2: "case (None :: rat option) of None \<Rightarrow> True | Some l \<Rightarrow> 0 \<le> l" by simp
  have "list_all (\<lambda>t. iso_date (t_date t)) (concat [tagged_sample, []])" by code_simp
  then have iso: "\<forall>t \<in> set (concat [tagged_sample, []]). iso_date (t_date t)"
    by (simp only: list_all_iff)
  have loc: "\<forall>a b. iso_date a \<longrightarrow> iso_date b \<longrightarrow> (localeCompare sample_platform a b < 0) = (a < b)"
    by (simp add: sample_platform_def sample_localeCompare_iso)
  have e1: "?r1 = [?t3]" by code_simp
  have e2: "?r2 = [?t2, ?t3, ?t1]" by code_simp
  note r1 = C4_search_filtered_sorted_limited[OF a1 a2 a3 a4 l1 iso loc refl refl refl,
              THEN conjunct1]
  note r2 = C4_search_filtered_sorted_limited[OF a1 a2 a3 a4 l2 iso loc refl refl refl,
              THEN conjunct1]
  have 1: "search_transactions sample_platform sample_client (Some ''COST'') None (Some 10) None
             None None (Some 1) ready
     = (Inr (tool_result sample_platform (J_object
          [(''transactions'', J_array
              [J_object
                 [(''id'', J_string ''t3''), (''account'', J_string ''Checking''),
                  (''date'', J_string ''2024-02-01''), (''amount'', J_number (fromAmount (- 8000))),
                  (''payee'', J_string ''Costco''), (''category'', J_string ''Groceries''),
                  (''notes'', J_undefined)]]),
           (''total_count'', J_number 1)])), ?w4)"
    unfolding r1 e1
    by (simp add: new_Map_def sample_defs sample_transaction_def Transaction.defs)
  have 2: "search_transactions sample_platform sample_client None None None None None None None ready
     = (Inr (tool_result sample_platform (J_object
          [(''transactions'', J_array
              [J_object
                 [(''id'', J_string ''t2''), (''account'', J_string ''Checking''),
                  (''date'', J_string ''2024-03-01''), (''amount'', J_number (fromAmount (- 1200))),
                  (''payee'', J_string ''Bistro''), (''category'', J_string ''Dining''),
                  (''notes'', J_undefined)],
               J_object
                 [(''id'', J_string ''t3''), (''account'', J_string ''Checking''),
                  (''date'', J_string ''2024-02-01''), (''amount'', J_number (fromAmount (- 8000))),
                  (''payee'', J_string ''Costco''), (''category'', J_string ''Groceries''),
                  (''notes'', J_undefined)],
               J_object
                 [(''id'', J_string ''t1''), (''account'', J_string ''Checking''),
                  (''date'', J_string ''2024-01-01''), (''amount'', J_number (fromAmount (- 3500))),
                  (''payee'', J_string ''Costco''), (''category'', J_string ''Groceries''),
                  (''notes'', J_undefined)]]),
           (''total_count'', J_number 3)])), ?w4)"
    unfolding r2 e2
    by (simp add: new_Map_def sample_defs sample_transaction_def Transaction.defs)
  from 1 2 show ?thesis by simp
qed

section \<open>Properties of the tool results\<close>

lemma tool_result_shape:
  "content (tool_result P out)
     = [\<lparr>ci_type = ''text'', ci_text = JSON_stringify P (structuredContent (tool_result P out))\<rparr>]"
  by (simp add: tool_result_def)

lemma ret_tool_result:
  assumes "ret (tool_result P out) w = (Inr r, w')"
  shows "content r = [\<lparr>ci_type = ''text'', ci_text = JSON_stringify P (structuredContent r)\<rparr>]"
  using assms by (auto simp: ret_eq tool_result_shape)

lemmas shape_simps = await_Inr ret_eq throw_eq tool_result_shape Let_def

lemma get_accounts_shape:
  assumes "get_accounts P C w = (Inr r, w')"
  shows "content r = [\<lparr>ci_type = ''text'', ci_text = JSON_stringify P (structuredContent r)\<rparr>]"
  using assms by (auto simp: get_accounts_def shape_simps)

lemma get_account_balance_shape:
  assumes "get_account_balance P C account w = (Inr r, w')"
  shows "content r = [\<lparr>ci_type = ''text'', ci_text = JSON_stringify P (structuredContent r)\<rparr>]"
  using assms by (auto simp: get_account_balance_def shape_simps split: option.splits)

lemma add_transaction_shape:
  assumes "add_transaction P C account amount payee_name category notes' date w = (Inr r, w')"
  shows "content r = [\<lparr>ci_type = ''text'', ci_text = JSON_stringify P (structuredContent r)\<rparr>]"
  using assms by (auto simp: add_transaction_def shape_simps split: option.splits)

lemma get_transactions_shape:
  assumes "get_transactions P C account start_date end_date w = (Inr r, w')"
  shows "content r = [\<lparr>ci_type = ''text'', ci_text = JSON_stringify P (structuredContent r)\<rparr>]"
  using assms by (auto simp: get_transactions_def shape_simps split: option.splits)

lemma search_transactions_shape:
  assumes "search_transactions P C payee notes' min_amount max_amount start_date end_date limit w
             = (Inr r, w')"
  shows "content r = [\<lparr>ci_type = ''text'', ci_text = JSON_stringify P (structuredContent r)\<rparr>]"
  using assms by (auto simp: search_transactions_def shape_simps)

lemma update_transaction_shape:
  assumes "update_transaction P C ident amount category payee_name notes' date cleared w = (Inr r, w')"
  shows "content r = [\<lparr>ci_type = ''text'', ci_text = JSON_stringify P (structuredContent r)\<rparr>]"
  using assms by (auto simp: update_transaction_def shape_simps)

lemma delete_transaction_shape:
  assumes "delete_transaction P C ident w = (Inr r, w')"
  shows "content r = [\<lparr>ci_type = ''text'', ci_text = JSON_stringify P (structuredContent r)\<rparr>]"
  using assms by (auto simp: delete_transaction_def shape_simps)

lemma get_categories_shape:
  assumes "get_categories P C w = (Inr r, w')"
  shows "content r = [\<lparr>ci_type = ''text'', ci_text = JSON_stringify P (structuredContent r)\<rparr>]"
  using assms by (auto simp: get_categories_def shape_simps)

lemma get_budget_month_shape:
  assumes "get_budget_month P C month w = (Inr r, w')"
  shows "content r = [\<lparr>ci_type = ''text'', ci_text = JSON_stringify P (structuredContent r)\<rparr>]"
  using assms by (auto simp: get_budget_month_def shape_simps)

lemma set_budget_amount_shape:
  assumes "set_budget_amount P C month category amount w = (Inr r, w')"
  shows "content r = [\<lparr>ci_type = ''text'', ci_text = JSON_stringify P (structuredContent r)\<rparr>]"
  using assms by (auto simp: set_budget_amount_def shape_simps split: option.splits)

lemma get_payees_shape:
  assumes "get_payees P C search w = (Inr r, w')"
  shows "content r = [\<lparr>ci_type = ''text'', ci_text = JSON_stringify P (structuredContent r)\<rparr>]"
  using assms by (auto simp: get_payees_def shape_simps)

lemma get_spending_summary_shape:
  assumes "get_spending_summary P C start_date end_date w = (Inr r, w')"
  shows "content r = [\<lparr>ci_type = ''text'', ci_text = JSON_stringify P (structuredContent r)\<rparr>]"
  using assms by (auto simp: get_spending_summary_def shape_simps)

lemma get_schedules_shape:
  assumes "get_schedules P C w = (Inr r, w')"
  shows "content r = [\<lparr>ci_type = ''text'', ci_text = JSON_stringify P (structuredContent r)\<rparr>]"
  using assms by (auto simp: get_schedules_def shape_simps)

lemma create_schedule_shape:
  assumes "create_schedule P C name account payee amount start_date frequency interval end_mode
             end_occurrences end_date posts_transaction w = (Inr r, w')"
  shows "content r = [\<lparr>ci_type = ''text'', ci_text = JSON_stringify P (structuredContent r)\<rparr>]"
  using assms by (auto simp: create_schedule_def shape_simps split: option.splits)

lemma delete_schedule_shape:
  assumes "delete_schedule P C ident w = (Inr r, w')"
  shows "content r = [\<lparr>ci_type = ''text'', ci_text = JSON_stringify P (structuredContent r)\<rparr>]"
  using assms by (auto simp: delete_schedule_def shape_simps)

lemma sync_budget_shape:
  assumes "sync_budget P C w = (Inr r, w')"
  shows "content r = [\<lparr>ci_type = ''text'', ci_text = JSON_stringify P (structuredContent r)\<rparr>]"
  using assms by (auto simp: sync_budget_def shape_simps)

text \<open>
  C9. Whatever tool is called, a call that succeeds returns a result whose content is
  one text item, and the text is \<open>JSON.stringify\<close> of the returned
  \<open>structuredContent\<close>.
\<close>

theorem C9_text_is_serialized_payload:
  assumes "call_tool P C t w = (Inr r, w')"
  shows "content r = [\<lparr>ci_type = ''text'', ci_text = JSON_stringify P (structuredContent r)\<rparr>]"
proof (cases t)
  case Get_accounts
  with assms show ?thesis by (simp add: get_accounts_shape)
next
  case (Get_account_balance account)
  with assms show ?thesis by (simp add: get_account_balance_shape)
next
  case (Add_transaction account amount payee_name category notes' date)
  with assms show ?thesis by (simp add: add_transaction_shape)
next
  case (Get_transactions account start_date end_date)
  with assms show ?thesis by (simp add: get_transactions_shape)
next
  case (Search_transactions payee notes' min_amount max_amount start_date end_date limit)
  with assms show ?thesis by (simp add: search_transactions_shape)
next
  case (Update_transaction ident amount category payee_name notes' date cleared)
  with assms show ?thesis by (simp add: update_transaction_shape)
next
  case (Delete_transaction ident)
  with assms show ?thesis by (simp add: delete_transaction_shape)
next
  case Get_categories
  with assms show ?thesis by (simp add: get_categories_shape)
next
  case (Get_budget_month month)
  with assms show ?thesis by (simp add: get_budget_month_shape)
next
  case (Set_budget_amount month category amount)
  with assms show ?thesis by (simp add: set_budget_amount_shape)
next
  case (Get_payees search)
  with assms show ?thesis by (simp add: get_payees_shape)
next
  case (Get_spending_summary start_date end_date)
  with assms show ?thesis by (simp add: get_spending_summary_shape)
next
  case Get_schedules
  with assms show ?thesis by (simp add: get_schedules_shape)
next
  case (Create_schedule name account payee amount start_date frequency interval end_mode
          end_occurrences end_date posts_transaction)
  with assms show ?thesis by (simp add: create_schedule_shape)
next
  case (Delete_schedule ident)
  with assms show ?thesis by (simp add: delete_schedule_shape)
next
  case Sync_budget
  with assms show ?thesis by (simp add: sync_budget_shape)
qed


text \<open>A successful call of \<open>get_account_balance\<close> on the sample ledger.\<close>

theorem C9_text_is_serialized_payload_witness:
  "call_tool sample_platform sample_client (Get_account_balance ''checking'') ready
     = (Inr (tool_result sample_platform (J_object
          [(''account_name'', J_string ''Checking''),
           (''balance'', J_number (fromAmount 123456))])),
        \<lparr>initialized = True, calls = [ApiGetAccounts, ApiGetAccountBalance ''acc_1'']\<rparr>)
   \<and> content (tool_result sample_platform (J_object
          [(''account_name'', J_string ''Checking''),
           (''balance'', J_number (fromAmount 123456))]))
     = [\<lparr>ci_type = ''text'',
         ci_text = JSON_stringify sample_platform (structuredContent (tool_result sample_platform
           (J_object
              [(''account_name'', J_string ''Checking''),
               (''balance'', J_number (fromAmount 123456))])))\<rparr>]"
proof -
  have h: "call_tool sample_platform sample_client (Get_account_balance ''checking'') ready
     = (Inr (tool_result sample_platform (J_object
          [(''account_name'', J_string ''Checking''),
           (''balance'', J_number (fromAmount 123456))])),
        \<lparr>initialized = True, calls = [ApiGetAccounts, ApiGetAccountBalance ''acc_1'']\<rparr>)"
    by (simp add: get_account_balance_def getAccounts_def getAccountBalance_def run_defs
          sample_defs find_account_def find_by_id_or_name_def toLowerCase_def lower_char_def)
  from h C9_text_is_serialized_payload[OF h] show ?thesis by simp
qed

end
